theory Spec2Isabelle
  imports Complex_Main "HOL-Library.Log_Nat"
begin

section \<open>Values, bars and columns\<close>

text \<open>
  The strategies of \<^verbatim>\<open>src/strategies\<close> work on pandas data frames of 64-bit floats.
  The embedding keeps the two things of a float column that the strategies' logic
  depends on and idealises the rest:
  \<^item> a cell is a number or NaN (``undefined''): \<open>real option\<close>, \<open>None\<close> for NaN.
    Comparisons with NaN are false, arithmetic with NaN is NaN;
  \<^item> a quotient can also be infinite (numpy divides by zero without raising):
    \<open>fval\<close> below, used exactly where the source divides two columns;
  \<^item> in the indicator columns and the signal logic rounding, overflow and the sign of
    zero are not modelled: numbers are exact reals. Position sizing is the exception: its
    share count is the integer part of a quotient of floats, which depends on how the
    quotient is rounded and is an error when the quotient overflows, so there every
    operation rounds to a double (subsection ``Position sizing'').

  The input frame has the OHLCV columns and a date index. Every cell of an input bar is
  a number; the model never reads the date, as the strategies never do.
\<close>

datatype error = ValueError | ZeroDivisionError | OverflowError | KeyError string

record bar =
  date :: int
  open_price :: real
  high :: real
  low :: real
  close :: real
  volume :: real

type_synonym column = "real option list"

datatype fval = Fin real | PInf | NInf | NaN

definition of_opt :: "real option \<Rightarrow> fval" where
  "of_opt v = (case v of None \<Rightarrow> NaN | Some x \<Rightarrow> Fin x)"

subsection \<open>NaN-aware comparisons and arithmetic\<close>

definition nan_gt :: "real option \<Rightarrow> real option \<Rightarrow> bool" where
  "nan_gt a b = (case a of None \<Rightarrow> False | Some x \<Rightarrow> (case b of None \<Rightarrow> False | Some y \<Rightarrow> y < x))"

definition nan_ge :: "real option \<Rightarrow> real option \<Rightarrow> bool" where
  "nan_ge a b = (case a of None \<Rightarrow> False | Some x \<Rightarrow> (case b of None \<Rightarrow> False | Some y \<Rightarrow> y \<le> x))"

definition nan_lt :: "real option \<Rightarrow> real option \<Rightarrow> bool" where
  "nan_lt a b = nan_gt b a"

definition nan_le :: "real option \<Rightarrow> real option \<Rightarrow> bool" where
  "nan_le a b = nan_ge b a"

definition nan_op :: "(real \<Rightarrow> real \<Rightarrow> real) \<Rightarrow> real option \<Rightarrow> real option \<Rightarrow> real option" where
  "nan_op f a b = (case a of None \<Rightarrow> None | Some x \<Rightarrow> (case b of None \<Rightarrow> None | Some y \<Rightarrow> Some (f x y)))"

definition nan_add :: "real option \<Rightarrow> real option \<Rightarrow> real option" where
  "nan_add = nan_op (\<lambda>x y. x + y)"

definition nan_sub :: "real option \<Rightarrow> real option \<Rightarrow> real option" where
  "nan_sub = nan_op (\<lambda>x y. x - y)"

definition nan_mul :: "real option \<Rightarrow> real option \<Rightarrow> real option" where
  "nan_mul = nan_op (\<lambda>x y. x * y)"

definition nan_abs :: "real option \<Rightarrow> real option" where
  "nan_abs a = map_option abs a"

text \<open>
  Division, addition and subtraction of floats with the infinities (IEEE 754 with a
  positive zero): \<open>x / 0\<close> is \<open>\<plusminus>\<infinity>\<close> by the sign of \<open>x\<close>, \<open>0 / 0\<close> is NaN.
\<close>

fun fdiv :: "fval \<Rightarrow> fval \<Rightarrow> fval" where
  "fdiv NaN _ = NaN"
| "fdiv _ NaN = NaN"
| "fdiv (Fin x) (Fin y) =
     (if y \<noteq> 0 then Fin (x / y) else if x = 0 then NaN else if 0 < x then PInf else NInf)"
| "fdiv (Fin x) PInf = Fin 0"
| "fdiv (Fin x) NInf = Fin 0"
| "fdiv PInf (Fin y) = (if 0 \<le> y then PInf else NInf)"
| "fdiv NInf (Fin y) = (if 0 \<le> y then NInf else PInf)"
| "fdiv PInf PInf = NaN"
| "fdiv PInf NInf = NaN"
| "fdiv NInf PInf = NaN"
| "fdiv NInf NInf = NaN"

fun fadd :: "fval \<Rightarrow> fval \<Rightarrow> fval" where
  "fadd NaN _ = NaN"
| "fadd _ NaN = NaN"
| "fadd (Fin x) (Fin y) = Fin (x + y)"
| "fadd (Fin x) PInf = PInf"
| "fadd (Fin x) NInf = NInf"
| "fadd PInf (Fin y) = PInf"
| "fadd NInf (Fin y) = NInf"
| "fadd PInf PInf = PInf"
| "fadd NInf NInf = NInf"
| "fadd PInf NInf = NaN"
| "fadd NInf PInf = NaN"

fun fneg :: "fval \<Rightarrow> fval" where
  "fneg NaN = NaN"
| "fneg (Fin x) = Fin (- x)"
| "fneg PInf = NInf"
| "fneg NInf = PInf"

definition fsub :: "fval \<Rightarrow> fval \<Rightarrow> fval" where
  "fsub a b = fadd a (fneg b)"

fun fge :: "fval \<Rightarrow> fval \<Rightarrow> bool" where
  "fge NaN _ = False"
| "fge _ NaN = False"
| "fge (Fin x) (Fin y) = (y \<le> x)"
| "fge PInf _ = True"
| "fge _ NInf = True"
| "fge (Fin x) PInf = False"
| "fge NInf (Fin y) = False"
| "fge NInf PInf = False"

subsection \<open>Column operations of pandas\<close>

text \<open>\<^verbatim>\<open>s.shift(k)\<close>: row \<open>t\<close> gets the value of row \<open>t - k\<close>, the first \<open>k\<close> rows NaN.\<close>

definition shift :: "nat \<Rightarrow> column \<Rightarrow> column" where
  "shift k xs = map (\<lambda>t. if t < k then None else xs ! (t - k)) [0..<length xs]"

text \<open>
  \<^verbatim>\<open>s.rolling(window=w).agg()\<close> with the default \<^verbatim>\<open>min_periods = w\<close>: row \<open>t\<close> aggregates
  rows \<open>t + 1 - w .. t\<close> and is NaN unless all \<open>w\<close> of them exist and are numbers. A window
  of \<open>0\<close> rows has nothing to aggregate: every row is NaN.
\<close>

definition window :: "nat \<Rightarrow> nat \<Rightarrow> 'a list \<Rightarrow> 'a list" where
  "window w t xs = map (\<lambda>i. xs ! i) [t + 1 - w..<t + 1]"

definition rolling :: "(real list \<Rightarrow> real) \<Rightarrow> nat \<Rightarrow> column \<Rightarrow> column" where
  "rolling agg w xs =
     map (\<lambda>t. if w = 0 \<or> t + 1 < w \<or> None \<in> set (window w t xs) then None
              else Some (agg (map the (window w t xs)))) [0..<length xs]"

definition mean :: "real list \<Rightarrow> real" where
  "mean ws = sum_list ws / real (length ws)"

definition rolling_mean :: "nat \<Rightarrow> column \<Rightarrow> column" where
  "rolling_mean w xs = rolling mean w xs"

definition rolling_max :: "nat \<Rightarrow> column \<Rightarrow> column" where
  "rolling_max w xs = rolling (\<lambda>ws. Max (set ws)) w xs"

definition rolling_min :: "nat \<Rightarrow> column \<Rightarrow> column" where
  "rolling_min w xs = rolling (\<lambda>ws. Min (set ws)) w xs"

text \<open>
  \<^verbatim>\<open>s.ewm(span=p, adjust=False).mean()\<close>: \<open>y\<^sub>0 = x\<^sub>0\<close> and
  \<open>y\<^sub>t = (1 - \<alpha>) y\<^sub>t\<^sub>-\<^sub>1 + \<alpha> x\<^sub>t\<close> with \<open>\<alpha> = 2 / (p + 1)\<close>. pandas refuses a span below 1
  with a \<^verbatim>\<open>ValueError\<close> when the window object is built.
\<close>

fun ewm_from :: "real \<Rightarrow> real \<Rightarrow> real list \<Rightarrow> real list" where
  "ewm_from a y [] = []"
| "ewm_from a y (x # xs) = ((1 - a) * y + a * x) # ewm_from a ((1 - a) * y + a * x) xs"

definition ewm_mean :: "nat \<Rightarrow> real list \<Rightarrow> real list" where
  "ewm_mean p xs = (case xs of [] \<Rightarrow> [] | x # xs' \<Rightarrow> x # ewm_from (2 / (real p + 1)) x xs')"

definition ewm :: "nat \<Rightarrow> real list \<Rightarrow> error + column" where
  "ewm p xs = (if p < 1 then Inl ValueError else Inr (map Some (ewm_mean p xs)))"

text \<open>
  \<^verbatim>\<open>df.loc[mask, col] = vals\<close>: the rows where the mask is true take the value of the same
  row of \<open>vals\<close>, the others keep theirs.
\<close>

definition loc_set :: "bool list \<Rightarrow> 'a list \<Rightarrow> 'a list \<Rightarrow> 'a list" where
  "loc_set msk vals col = map (\<lambda>(m, v, c). if m then v else c) (zip msk (zip vals col))"

text \<open>\<^verbatim>\<open>df[name]\<close> for an input column, and the row-wise \<^verbatim>\<open>&\<close> of two masks.\<close>

definition col :: "(bar \<Rightarrow> real) \<Rightarrow> bar list \<Rightarrow> column" where
  "col f bars = map (\<lambda>b. Some (f b)) bars"

definition mask_and :: "bool list \<Rightarrow> bool list \<Rightarrow> bool list" where
  "mask_and a b = map2 (\<lambda>x y. x \<and> y) a b"

text \<open>Decimal rendering of a period inside the reason strings (an f-string).\<close>

definition digit :: "nat \<Rightarrow> char" where
  "digit n = ''0123456789'' ! (n mod 10)"

function show_nat :: "nat \<Rightarrow> string" where
  "show_nat n = (if n < 10 then [digit n] else show_nat (n div 10) @ [digit (n mod 10)])"
  by pat_completeness auto
termination
  by (relation "measure (\<lambda>n. n)") auto

section \<open>Strategy base: the shared indicators and position sizing\<close>

text \<open>
  \<^verbatim>\<open>StrategyBase._calculate_rsi\<close>. The first delta is NaN, and \<^verbatim>\<open>where\<close> replaces every
  row whose condition is false (a NaN row too) by \<open>0\<close>, so the gain and loss columns
  are numbers on every row. The quotient of the two rolling means is a float division.
\<close>

definition diff :: "real list \<Rightarrow> column" where
  "diff xs = map (\<lambda>t. if t = 0 then None else Some (xs ! t - xs ! (t - 1))) [0..<length xs]"

definition gain_col :: "real list \<Rightarrow> column" where
  "gain_col xs = map (\<lambda>d. if nan_gt d (Some 0) then d else Some 0) (diff xs)"

definition loss_col :: "real list \<Rightarrow> column" where
  "loss_col xs = map (\<lambda>d. nan_op (\<lambda>x y. x - y) (Some 0) (if nan_lt d (Some 0) then d else Some 0)) (diff xs)"

definition avg_gain :: "real list \<Rightarrow> nat \<Rightarrow> column" where
  "avg_gain xs period = rolling_mean period (gain_col xs)"

definition avg_loss :: "real list \<Rightarrow> nat \<Rightarrow> column" where
  "avg_loss xs period = rolling_mean period (loss_col xs)"

definition calculate_rsi :: "real list \<Rightarrow> nat \<Rightarrow> fval list" where
  "calculate_rsi xs period =
     map (\<lambda>(g, l). let rs = fdiv (of_opt g) (of_opt l)
                   in fsub (Fin 100) (fdiv (Fin 100) (fadd (Fin 1) rs)))
         (zip (avg_gain xs period) (avg_loss xs period))"

text \<open>
  \<^verbatim>\<open>StrategyBase._calculate_atr\<close>. The row-wise \<^verbatim>\<open>max(axis=1)\<close> skips NaN, so the true
  range of the first row is its \<open>high - low\<close>.
\<close>

definition nanmax_row :: "real option list \<Rightarrow> real option" where
  "nanmax_row vs =
     (let ds = map the (filter (\<lambda>v. v \<noteq> None) vs) in if ds = [] then None else Some (Max (set ds)))"

definition true_range_cols :: "column \<Rightarrow> column \<Rightarrow> column \<Rightarrow> column" where
  "true_range_cols hi lo cl =
     (let prev = shift 1 cl;
          tr1 = map2 nan_sub hi lo;
          tr2 = map nan_abs (map2 nan_sub hi prev);
          tr3 = map nan_abs (map2 nan_sub lo prev)
      in map (\<lambda>(a, b, c). nanmax_row [a, b, c]) (zip tr1 (zip tr2 tr3)))"

definition true_range :: "bar list \<Rightarrow> column" where
  "true_range bars = true_range_cols (col high bars) (col low bars) (col close bars)"

definition calculate_atr :: "bar list \<Rightarrow> nat \<Rightarrow> column" where
  "calculate_atr bars period = rolling_mean period (true_range bars)"

subsection \<open>Position sizing\<close>

text \<open>
  \<^verbatim>\<open>StrategyBase.calculate_position_size\<close> turns two quotients of floats into integers
  with \<^verbatim>\<open>int\<close>. The integer depends on how the quotient was rounded, and \<^verbatim>\<open>int\<close> raises
  on an infinite quotient, so this function is modelled over the doubles themselves: every
  arithmetic operation is the exact operation followed by \<open>round_double\<close>, rounding to
  the nearest double (IEEE 754 binary64, ties to even, overflow to an infinity). The sign
  of a zero is not kept: the function never divides by a zero and \<^verbatim>\<open>int\<close>, \<^verbatim>\<open>abs\<close> and
  \<^verbatim>\<open>==\<close> do not see it.

  \<open>ilog2 a\<close> is the binary exponent of a positive \<open>a\<close>, the integer \<open>e\<close> with
  \<open>pow2 e \<le> a < pow2 (e + 1)\<close> (lemma \<open>ilog2_bounds\<close>). A double with exponent \<open>e\<close>
  is a multiple of \<open>pow2 (e - 52)\<close>, a number of 53 bits times a power of two; below
  \<open>pow2 (- 1022)\<close> (the subnormal numbers) the spacing stays \<open>pow2 (- 1074)\<close>; a
  result of magnitude \<open>pow2 1024\<close> or more is infinite.
\<close>

definition pow2 :: "int \<Rightarrow> real" where
  "pow2 n = 2 powi n"

definition ilog2 :: "real \<Rightarrow> int" where
  "ilog2 a = (if 1 \<le> a then bitlen \<lfloor>a\<rfloor> - 1 else - bitlen (\<lceil>1 / a\<rceil> - 1))"

definition round_half_even :: "real \<Rightarrow> int" where
  "round_half_even m =
     (let f = \<lfloor>m\<rfloor>; d = m - of_int f
      in if d < 1 / 2 then f else if 1 / 2 < d then f + 1 else if even f then f else f + 1)"

definition round_double :: "real \<Rightarrow> fval" where
  "round_double x =
     (let e = max (ilog2 \<bar>x\<bar>) (- 1022);
          u = pow2 (e - 52);
          y = of_int (round_half_even (x / u)) * u
      in if pow2 1024 \<le> \<bar>y\<bar> then (if 0 < x then PInf else NInf) else Fin y)"

text \<open>The finite doubles are the reals that rounding leaves alone.\<close>

definition is_double :: "real \<Rightarrow> bool" where
  "is_double x = (round_double x = Fin x)"

text \<open>The exact product and absolute value with the infinities, as \<open>fdiv\<close> and \<open>fadd\<close> above.\<close>

fun fmul :: "fval \<Rightarrow> fval \<Rightarrow> fval" where
  "fmul NaN _ = NaN"
| "fmul _ NaN = NaN"
| "fmul (Fin x) (Fin y) = Fin (x * y)"
| "fmul (Fin x) PInf = (if x = 0 then NaN else if 0 < x then PInf else NInf)"
| "fmul (Fin x) NInf = (if x = 0 then NaN else if 0 < x then NInf else PInf)"
| "fmul PInf (Fin y) = (if y = 0 then NaN else if 0 < y then PInf else NInf)"
| "fmul NInf (Fin y) = (if y = 0 then NaN else if 0 < y then NInf else PInf)"
| "fmul PInf PInf = PInf"
| "fmul NInf NInf = PInf"
| "fmul PInf NInf = NInf"
| "fmul NInf PInf = NInf"

fun fabs :: "fval \<Rightarrow> fval" where
  "fabs NaN = NaN"
| "fabs (Fin x) = Fin \<bar>x\<bar>"
| "fabs PInf = PInf"
| "fabs NInf = PInf"

definition round_fval :: "fval \<Rightarrow> fval" where
  "round_fval v = (case v of Fin x \<Rightarrow> round_double x | _ \<Rightarrow> v)"

text \<open>The operations \<^verbatim>\<open>*\<close>, \<^verbatim>\<open>-\<close> and \<^verbatim>\<open>/\<close> of the hardware on doubles.\<close>

definition float_mul :: "fval \<Rightarrow> fval \<Rightarrow> fval" where
  "float_mul a b = round_fval (fmul a b)"

definition float_sub :: "fval \<Rightarrow> fval \<Rightarrow> fval" where
  "float_sub a b = round_fval (fsub a b)"

definition float_div :: "fval \<Rightarrow> fval \<Rightarrow> fval" where
  "float_div a b = round_fval (fdiv a b)"

text \<open>
  Python's float division raises on a zero divisor, and \<^verbatim>\<open>int\<close> truncates a finite float
  towards zero and raises \<^verbatim>\<open>OverflowError\<close> on an infinity and \<^verbatim>\<open>ValueError\<close> on NaN.
  (A numpy float divided by zero is an infinity or NaN instead, which \<^verbatim>\<open>int\<close> then
  refuses: an error either way. An integer argument below \<open>pow2 53\<close> is converted to
  the same double without rounding.)
\<close>

definition py_truediv :: "fval \<Rightarrow> fval \<Rightarrow> error + fval" where
  "py_truediv a b = (if b = Fin 0 then Inl ZeroDivisionError else Inr (float_div a b))"

fun py_int :: "fval \<Rightarrow> error + int" where
  "py_int NaN = Inl ValueError"
| "py_int PInf = Inl OverflowError"
| "py_int NInf = Inl OverflowError"
| "py_int (Fin x) = Inr (if 0 \<le> x then \<lfloor>x\<rfloor> else \<lceil>x\<rceil>)"

text \<open>
  \<open>risk_pct\<close> comes from the strategy definition and \<open>max_position_pct\<close> from
  \<^verbatim>\<open>RISK_CONFIG\<close>; neither table is among the source files, so both are parameters. The
  source falls back to \<^verbatim>\<open>0.01\<close> and \<^verbatim>\<open>0.02\<close>, that is to the doubles nearest to these
  decimals (lemma \<open>default_pcts\<close>). \<^verbatim>\<open>shares\<close> is computed, and can raise, before
  \<^verbatim>\<open>max_shares\<close>.
\<close>

definition default_risk_pct :: real where
  "default_risk_pct = 5764607523034235 / 2 ^ 59"

definition default_max_position_pct :: real where
  "default_max_position_pct = 5764607523034235 / 2 ^ 58"

definition calculate_position_size :: "fval \<Rightarrow> fval \<Rightarrow> fval \<Rightarrow> fval \<Rightarrow> fval \<Rightarrow> error + int" where
  "calculate_position_size risk_pct max_position_pct entry_price stop_price account_equity =
     (let risk_dollars = float_mul account_equity risk_pct;
          risk_per_share = fabs (float_sub entry_price stop_price)
      in if risk_per_share = Fin 0 then Inr 0
         else (case py_truediv risk_dollars risk_per_share of
                 Inl e \<Rightarrow> Inl e
               | Inr q \<Rightarrow>
                   (case py_int q of
                      Inl e \<Rightarrow> Inl e
                    | Inr shares \<Rightarrow>
                        (case py_truediv (float_mul account_equity max_position_pct) entry_price of
                           Inl e \<Rightarrow> Inl e
                         | Inr c \<Rightarrow>
                             (case py_int c of
                                Inl e \<Rightarrow> Inl e
                              | Inr max_shares \<Rightarrow> Inr (min shares max_shares))))))"

text \<open>A float that is not negative: a finite number from 0 on, or \<open>+\<infinity>\<close>.\<close>

definition nonneg_fval :: "fval \<Rightarrow> bool" where
  "nonneg_fval v = (case v of Fin x \<Rightarrow> 0 \<le> x | PInf \<Rightarrow> True | _ \<Rightarrow> False)"

section \<open>Signal frames and signal records\<close>

text \<open>
  \<^verbatim>\<open>generate_signals\<close> returns the frame with the indicator columns (\<open>ind\<close>) and the
  signal columns. \<^verbatim>\<open>check_current_signal\<close> returns a dictionary or \<^verbatim>\<open>None\<close>; the
  dictionary's symbol, date and strategy name (read from the row's label and the
  strategy registry) and the formatted pole percentage are left out.
\<close>

record 'i frame =
  ind :: 'i
  signal :: "int list"
  entry_price :: column
  stop_price :: column
  reason :: "string list"

record signal_record =
  rec_signal :: string
  rec_entry_price :: "real option"
  rec_stop_price :: "real option"
  rec_reason :: string
  rec_risk_per_share :: "real option"

definition init_frame :: "'i \<Rightarrow> nat \<Rightarrow> 'i frame" where
  "init_frame i n =
     \<lparr>ind = i, signal = replicate n 0, entry_price = replicate n None,
      stop_price = replicate n None, reason = replicate n []\<rparr>"

section \<open>Donchian breakout\<close>

record donchian_config =
  dc_entry_period :: nat
  dc_exit_period :: nat
  dc_atr_period :: nat
  dc_atr_stop_multiple :: real
  dc_use_atr_stop :: bool
  dc_allow_shorts :: bool

definition donchian_default :: donchian_config where
  "donchian_default =
     \<lparr>dc_entry_period = 50, dc_exit_period = 25, dc_atr_period = 14,
      dc_atr_stop_multiple = 3, dc_use_atr_stop = False, dc_allow_shorts = False\<rparr>"

text \<open>
  The column names of the source carry the period (\<^verbatim>\<open>donchian_high_50\<close>); two names
  coincide only when the periods do, and then both hold the same values, so a field per
  role is the same frame.
\<close>

record donchian_ind =
  donchian_high_entry :: column
  donchian_low_entry :: column
  donchian_high_exit :: column
  donchian_low_exit :: column
  dc_atr :: column

record donchian_record = signal_record +
  rec_dc_atr :: "real option"

definition donchian_calculate_indicators :: "donchian_config \<Rightarrow> bar list \<Rightarrow> donchian_ind" where
  "donchian_calculate_indicators cfg bars =
     \<lparr>donchian_high_entry = rolling_max (dc_entry_period cfg) (shift 1 (col high bars)),
      donchian_low_entry = rolling_min (dc_entry_period cfg) (shift 1 (col low bars)),
      donchian_high_exit = rolling_max (dc_exit_period cfg) (shift 1 (col high bars)),
      donchian_low_exit = rolling_min (dc_exit_period cfg) (shift 1 (col low bars)),
      dc_atr = calculate_atr bars (dc_atr_period cfg)\<rparr>"

definition long_breakout :: "bar list \<Rightarrow> donchian_ind \<Rightarrow> bool list" where
  "long_breakout bars i = map2 nan_gt (col close bars) (donchian_high_entry i)"

definition short_breakout :: "bar list \<Rightarrow> donchian_ind \<Rightarrow> bool list" where
  "short_breakout bars i = map2 nan_lt (col close bars) (donchian_low_entry i)"

definition long_stop :: "donchian_config \<Rightarrow> bar list \<Rightarrow> donchian_ind \<Rightarrow> column" where
  "long_stop cfg bars i =
     (if dc_use_atr_stop cfg
      then map2 nan_sub (col close bars) (map (nan_mul (Some (dc_atr_stop_multiple cfg))) (dc_atr i))
      else donchian_low_exit i)"

definition short_stop :: "donchian_config \<Rightarrow> bar list \<Rightarrow> donchian_ind \<Rightarrow> column" where
  "short_stop cfg bars i =
     (if dc_use_atr_stop cfg
      then map2 nan_add (col close bars) (map (nan_mul (Some (dc_atr_stop_multiple cfg))) (dc_atr i))
      else donchian_high_exit i)"

definition donchian_long :: "donchian_config \<Rightarrow> bar list \<Rightarrow> donchian_ind frame \<Rightarrow> donchian_ind frame" where
  "donchian_long cfg bars df =
     (let n = length bars;
          m = long_breakout bars (ind df)
      in df\<lparr>signal := loc_set m (replicate n 1) (signal df),
            entry_price := loc_set m (col close bars) (entry_price df),
            stop_price := loc_set m (long_stop cfg bars (ind df)) (stop_price df),
            reason := loc_set m (replicate n (show_nat (dc_entry_period cfg) @ ''-day breakout high''))
                        (reason df)\<rparr>)"

definition donchian_short :: "donchian_config \<Rightarrow> bar list \<Rightarrow> donchian_ind frame \<Rightarrow> donchian_ind frame" where
  "donchian_short cfg bars df =
     (let n = length bars;
          m = short_breakout bars (ind df)
      in df\<lparr>signal := loc_set m (replicate n (- 1)) (signal df),
            entry_price := loc_set m (col close bars) (entry_price df),
            stop_price := loc_set m (short_stop cfg bars (ind df)) (stop_price df),
            reason := loc_set m (replicate n (show_nat (dc_entry_period cfg) @ ''-day breakdown low''))
                        (reason df)\<rparr>)"

definition donchian_generate_signals :: "donchian_config \<Rightarrow> bar list \<Rightarrow> donchian_ind frame" where
  "donchian_generate_signals cfg bars =
     (let df = init_frame (donchian_calculate_indicators cfg bars) (length bars);
          df = donchian_long cfg bars df
      in if dc_allow_shorts cfg then donchian_short cfg bars df else df)"

definition donchian_check_current_signal :: "donchian_config \<Rightarrow> bar list \<Rightarrow> donchian_record option" where
  "donchian_check_current_signal cfg bars =
     (let df = donchian_generate_signals cfg bars
      in if bars = [] then None
         else (let t = length bars - 1
               in if signal df ! t \<noteq> 0
                  then Some \<lparr>rec_signal = (if signal df ! t = 1 then ''LONG'' else ''SHORT''),
                             rec_entry_price = entry_price df ! t,
                             rec_stop_price = stop_price df ! t,
                             rec_reason = reason df ! t,
                             rec_risk_per_share = nan_abs (nan_sub (entry_price df ! t) (stop_price df ! t)),
                             rec_dc_atr = dc_atr (ind df) ! t\<rparr>
                  else None))"

section \<open>MA101: moving-average crossover\<close>

record ma101_config =
  ma_regime_ma :: nat
  ma_fast_ema :: nat
  ma_slow_ema :: nat
  ma_rsi_period :: nat
  ma_rsi_overbought :: real
  ma_stop_ma :: nat

definition ma101_default :: ma101_config where
  "ma101_default =
     \<lparr>ma_regime_ma = 200, ma_fast_ema = 10, ma_slow_ema = 30, ma_rsi_period = 14,
      ma_rsi_overbought = 70, ma_stop_ma = 10\<rparr>"

record ma101_ind =
  ma_sma_regime :: column
  ma_ema_fast :: column
  ma_ema_slow :: column
  ma_ema_stop :: column
  ma_rsi :: "fval list"
  ma_atr_14 :: column

record ma101_record = signal_record +
  rec_ma_atr :: "real option"

definition ma101_calculate_indicators :: "ma101_config \<Rightarrow> bar list \<Rightarrow> error + ma101_ind" where
  "ma101_calculate_indicators cfg bars =
     (let cl = map close bars
      in (case ewm (ma_fast_ema cfg) cl of
            Inl e \<Rightarrow> Inl e
          | Inr fast \<Rightarrow>
              (case ewm (ma_slow_ema cfg) cl of
                 Inl e \<Rightarrow> Inl e
               | Inr slow \<Rightarrow>
                   (case ewm (ma_stop_ma cfg) cl of
                      Inl e \<Rightarrow> Inl e
                    | Inr stop \<Rightarrow>
                        Inr \<lparr>ma_sma_regime = rolling_mean (ma_regime_ma cfg) (col close bars),
                             ma_ema_fast = fast, ma_ema_slow = slow, ma_ema_stop = stop,
                             ma_rsi = calculate_rsi cl (ma_rsi_period cfg),
                             ma_atr_14 = calculate_atr bars 14\<rparr>))))"

text \<open>The crossover mask shared by MA101 and the swing strategy.\<close>

definition cross_above :: "column \<Rightarrow> column \<Rightarrow> bool list" where
  "cross_above fast slow =
     mask_and (map2 nan_le (shift 1 fast) (shift 1 slow)) (map2 nan_gt fast slow)"

definition ma101_entry_signal :: "bar list \<Rightarrow> ma101_ind \<Rightarrow> bool list" where
  "ma101_entry_signal bars i =
     (let regime = map2 nan_gt (col close bars) (ma_sma_regime i)
      in mask_and (cross_above (ma_ema_fast i) (ma_ema_slow i)) regime)"

definition ma101_generate_signals :: "ma101_config \<Rightarrow> bar list \<Rightarrow> error + ma101_ind frame" where
  "ma101_generate_signals cfg bars =
     (case ma101_calculate_indicators cfg bars of
        Inl e \<Rightarrow> Inl e
      | Inr i \<Rightarrow>
          (let n = length bars;
               df = init_frame i n;
               m = ma101_entry_signal bars i
           in Inr (df\<lparr>signal := loc_set m (replicate n 1) (signal df),
                       entry_price := loc_set m (col close bars) (entry_price df),
                       stop_price := loc_set m (ma_ema_stop i) (stop_price df),
                       reason := loc_set m
                         (replicate n (''EMA '' @ show_nat (ma_fast_ema cfg) @ ''/'' @ show_nat (ma_slow_ema cfg)
                            @ '' cross above, price > SMA '' @ show_nat (ma_regime_ma cfg)))
                         (reason df)\<rparr>)))"

definition ma101_check_current_signal :: "ma101_config \<Rightarrow> bar list \<Rightarrow> error + ma101_record option" where
  "ma101_check_current_signal cfg bars =
     (case ma101_generate_signals cfg bars of
        Inl e \<Rightarrow> Inl e
      | Inr df \<Rightarrow>
          if bars = [] then Inr None
          else (let t = length bars - 1
                in if signal df ! t = 1
                   then Inr (Some \<lparr>rec_signal = ''LONG'',
                                   rec_entry_price = entry_price df ! t,
                                   rec_stop_price = stop_price df ! t,
                                   rec_reason = reason df ! t,
                                   rec_risk_per_share = nan_sub (entry_price df ! t) (stop_price df ! t),
                                   rec_ma_atr = ma_atr_14 (ind df) ! t\<rparr>)
                   else Inr None))"

section \<open>Swing trading: three entry patterns\<close>

record swing_config =
  sw_fast_ema :: nat
  sw_slow_ema :: nat
  sw_ma_50 :: nat
  sw_ma_200 :: nat
  sw_rsi_period :: nat
  sw_rsi_profit_target :: real
  sw_atr_period :: nat
  sw_entry_mode :: string

definition swing_default :: swing_config where
  "swing_default =
     \<lparr>sw_fast_ema = 5, sw_slow_ema = 20, sw_ma_50 = 50, sw_ma_200 = 200, sw_rsi_period = 14,
      sw_rsi_profit_target = 70, sw_atr_period = 14, sw_entry_mode = ''all''\<rparr>"

record swing_ind =
  sw_ema_fast :: column
  sw_ema_slow :: column
  sw_sma_50 :: column
  sw_sma_200 :: column
  sw_rsi :: "fval list"
  sw_atr :: column

record 'i swing_frame = "'i frame" +
  entry_type :: "string list"

record swing_record = signal_record +
  rec_entry_type :: string
  rec_sw_atr :: "real option"
  rec_sw_rsi :: fval

definition swing_calculate_indicators :: "swing_config \<Rightarrow> bar list \<Rightarrow> error + swing_ind" where
  "swing_calculate_indicators cfg bars =
     (let cl = map close bars
      in (case ewm (sw_fast_ema cfg) cl of
            Inl e \<Rightarrow> Inl e
          | Inr fast \<Rightarrow>
              (case ewm (sw_slow_ema cfg) cl of
                 Inl e \<Rightarrow> Inl e
               | Inr slow \<Rightarrow>
                   Inr \<lparr>sw_ema_fast = fast, sw_ema_slow = slow,
                        sw_sma_50 = rolling_mean (sw_ma_50 cfg) (col close bars),
                        sw_sma_200 = rolling_mean (sw_ma_200 cfg) (col close bars),
                        sw_rsi = calculate_rsi cl (sw_rsi_period cfg),
                        sw_atr = calculate_atr bars (sw_atr_period cfg)\<rparr>)))"

text \<open>The dip-buy mask against a moving-average column \<open>ma\<close>.\<close>

definition dip :: "bar list \<Rightarrow> column \<Rightarrow> bool list" where
  "dip bars ma =
     mask_and (mask_and (map2 nan_le (col low bars) ma) (map2 nan_gt (col close bars) ma))
       (map2 nan_gt (shift 1 (col close bars)) (shift 1 ma))"

definition is_flat :: "int list \<Rightarrow> bool list" where
  "is_flat sig = map (\<lambda>s. s = 0) sig"

text \<open>The signal row of a frame at index \<open>t\<close>.\<close>

definition swing_row :: "'i swing_frame \<Rightarrow> nat \<Rightarrow> int \<times> real option \<times> real option \<times> string \<times> string" where
  "swing_row df t = (signal df ! t, entry_price df ! t, stop_price df ! t, reason df ! t, entry_type df ! t)"

definition swing_crossover :: "swing_config \<Rightarrow> bar list \<Rightarrow> swing_ind swing_frame \<Rightarrow> swing_ind swing_frame" where
  "swing_crossover cfg bars df =
     (let n = length bars;
          m = cross_above (sw_ema_fast (ind df)) (sw_ema_slow (ind df))
      in df\<lparr>signal := loc_set m (replicate n 1) (signal df),
            entry_price := loc_set m (col close bars) (entry_price df),
            stop_price := loc_set m (sw_ema_slow (ind df)) (stop_price df),
            reason := loc_set m
              (replicate n (''EMA '' @ show_nat (sw_fast_ema cfg) @ ''/'' @ show_nat (sw_slow_ema cfg)
                 @ '' bullish cross''))
              (reason df),
            entry_type := loc_set m (replicate n ''crossover'') (entry_type df)\<rparr>)"

definition swing_dip_50 :: "bar list \<Rightarrow> swing_ind swing_frame \<Rightarrow> swing_ind swing_frame" where
  "swing_dip_50 bars df =
     (let n = length bars;
          dip_50 = dip bars (sw_sma_50 (ind df));
          new_dip_50 = mask_and dip_50 (is_flat (signal df))
      in df\<lparr>signal := loc_set new_dip_50 (replicate n 1) (signal df),
            entry_price := loc_set new_dip_50 (col close bars) (entry_price df),
            stop_price := loc_set new_dip_50
              (map (\<lambda>v. nan_mul v (Some (98 / 100))) (sw_sma_50 (ind df))) (stop_price df),
            reason := loc_set new_dip_50 (replicate n ''50-day MA dip-buy (bounce)'') (reason df),
            entry_type := loc_set new_dip_50 (replicate n ''dip_50'') (entry_type df)\<rparr>)"

definition swing_dip_200 :: "bar list \<Rightarrow> swing_ind swing_frame \<Rightarrow> swing_ind swing_frame" where
  "swing_dip_200 bars df =
     (let n = length bars;
          dip_200 = dip bars (sw_sma_200 (ind df));
          new_dip_200 = mask_and dip_200 (is_flat (signal df))
      in df\<lparr>signal := loc_set new_dip_200 (replicate n 1) (signal df),
            entry_price := loc_set new_dip_200 (col close bars) (entry_price df),
            stop_price := loc_set new_dip_200
              (map (\<lambda>v. nan_mul v (Some (97 / 100))) (sw_sma_200 (ind df))) (stop_price df),
            reason := loc_set new_dip_200 (replicate n ''200-day MA deep dip-buy'') (reason df),
            entry_type := loc_set new_dip_200 (replicate n ''dip_200'') (entry_type df)\<rparr>)"

definition swing_init :: "swing_ind \<Rightarrow> nat \<Rightarrow> swing_ind swing_frame" where
  "swing_init i n =
     \<lparr>ind = i, signal = replicate n 0, entry_price = replicate n None,
      stop_price = replicate n None, reason = replicate n [], entry_type = replicate n []\<rparr>"

definition swing_generate_signals :: "swing_config \<Rightarrow> bar list \<Rightarrow> error + swing_ind swing_frame" where
  "swing_generate_signals cfg bars =
     (case swing_calculate_indicators cfg bars of
        Inl e \<Rightarrow> Inl e
      | Inr i \<Rightarrow>
          (let df = swing_init i (length bars);
               df = (if sw_entry_mode cfg \<in> set [''crossover'', ''all'']
                     then swing_crossover cfg bars df else df);
               df = (if sw_entry_mode cfg \<in> set [''dip_50'', ''all'']
                     then swing_dip_50 bars df else df);
               df = (if sw_entry_mode cfg \<in> set [''dip_200'', ''all'']
                     then swing_dip_200 bars df else df)
           in Inr df))"

definition swing_check_current_signal :: "swing_config \<Rightarrow> bar list \<Rightarrow> error + swing_record option" where
  "swing_check_current_signal cfg bars =
     (case swing_generate_signals cfg bars of
        Inl e \<Rightarrow> Inl e
      | Inr df \<Rightarrow>
          if bars = [] then Inr None
          else (let t = length bars - 1
                in if signal df ! t = 1
                   then Inr (Some \<lparr>rec_signal = ''LONG'',
                                   rec_entry_price = entry_price df ! t,
                                   rec_stop_price = stop_price df ! t,
                                   rec_reason = reason df ! t,
                                   rec_risk_per_share = nan_sub (entry_price df ! t) (stop_price df ! t),
                                   rec_entry_type = entry_type df ! t,
                                   rec_sw_atr = sw_atr (ind df) ! t,
                                   rec_sw_rsi = sw_rsi (ind df) ! t\<rparr>)
                   else Inr None))"

section \<open>Qullamaggie high tight flag\<close>

record htf_config =
  htf_volume_lookback :: nat
  htf_volume_breakout_multiplier :: real
  htf_min_dollar_volume :: real
  htf_pole_lookback :: nat
  htf_min_pole_move :: real
  htf_max_flag_retrace :: real

definition htf_default :: htf_config where
  "htf_default =
     \<lparr>htf_volume_lookback = 20, htf_volume_breakout_multiplier = 3 / 2,
      htf_min_dollar_volume = 50000000, htf_pole_lookback = 40, htf_min_pole_move = 1 / 2,
      htf_max_flag_retrace = 1 / 4\<rparr>"

record htf_ind =
  ema_10 :: column
  sma_20 :: column
  sma_50 :: column
  avg_volume :: column
  volume_ratio :: "fval list"
  dollar_volume :: column
  avg_dollar_volume :: column
  high_20 :: column
  low_20 :: column
  pole_move :: "fval list"

record htf_record = signal_record +
  rec_volume_ratio :: fval
  rec_dollar_volume :: "real option"

text \<open>The span of the EMA is the literal 10, which passes pandas' check of the span.\<close>

definition htf_calculate_indicators :: "htf_config \<Rightarrow> bar list \<Rightarrow> htf_ind" where
  "htf_calculate_indicators cfg bars =
     (let avg_vol = rolling_mean (htf_volume_lookback cfg) (col volume bars);
          dv = map2 nan_mul (col close bars) (col volume bars)
      in \<lparr>ema_10 = map Some (ewm_mean 10 (map close bars)),
          sma_20 = rolling_mean 20 (col close bars),
          sma_50 = rolling_mean 50 (col close bars),
          avg_volume = avg_vol,
          volume_ratio = map2 (\<lambda>v a. fdiv (of_opt v) (of_opt a)) (col volume bars) avg_vol,
          dollar_volume = dv,
          avg_dollar_volume = rolling_mean (htf_volume_lookback cfg) dv,
          high_20 = rolling_max 20 (col high bars),
          low_20 = rolling_min 20 (col low bars),
          pole_move = map2 (\<lambda>c p. fsub (fdiv (of_opt c) (of_opt p)) (Fin 1)) (col close bars)
                        (shift (htf_pole_lookback cfg) (col close bars))\<rparr>)"

definition liquidity_ok :: "htf_config \<Rightarrow> htf_ind \<Rightarrow> bool list" where
  "liquidity_ok cfg i = map (\<lambda>a. nan_ge a (Some (htf_min_dollar_volume cfg))) (avg_dollar_volume i)"

definition above_50ma :: "bar list \<Rightarrow> htf_ind \<Rightarrow> bool list" where
  "above_50ma bars i = map2 nan_gt (col close bars) (sma_50 i)"

definition strong_pole :: "htf_config \<Rightarrow> htf_ind \<Rightarrow> bool list" where
  "strong_pole cfg i = map (\<lambda>p. fge p (Fin (htf_min_pole_move cfg))) (pole_move i)"

definition near_highs :: "bar list \<Rightarrow> htf_ind \<Rightarrow> bool list" where
  "near_highs bars i =
     map2 nan_ge (col close bars) (map (\<lambda>h. nan_mul h (Some (90 / 100))) (high_20 i))"

definition tight :: "bar list \<Rightarrow> htf_ind \<Rightarrow> bool list" where
  "tight bars i =
     mask_and (map2 nan_ge (col close bars) (ema_10 i)) (map2 nan_ge (col close bars) (sma_20 i))"

definition breakout :: "bar list \<Rightarrow> htf_ind \<Rightarrow> bool list" where
  "breakout bars i = map2 nan_gt (col high bars) (shift 1 (high_20 i))"

definition volume_confirmation :: "htf_config \<Rightarrow> htf_ind \<Rightarrow> bool list" where
  "volume_confirmation cfg i =
     map (\<lambda>r. fge r (Fin (htf_volume_breakout_multiplier cfg))) (volume_ratio i)"

definition htf_signal :: "htf_config \<Rightarrow> bar list \<Rightarrow> htf_ind \<Rightarrow> bool list" where
  "htf_signal cfg bars i =
     mask_and (mask_and (mask_and (mask_and (mask_and (mask_and
       (liquidity_ok cfg i) (above_50ma bars i)) (strong_pole cfg i)) (near_highs bars i))
       (tight bars i)) (breakout bars i)) (volume_confirmation cfg i)"

definition htf_generate_signals :: "htf_config \<Rightarrow> bar list \<Rightarrow> htf_ind frame" where
  "htf_generate_signals cfg bars =
     (let i = htf_calculate_indicators cfg bars;
          n = length bars;
          df = init_frame i n;
          m = htf_signal cfg bars i
      in df\<lparr>signal := loc_set m (replicate n 1) (signal df),
            entry_price := loc_set m (col high bars) (entry_price df),
            stop_price := loc_set m (col low bars) (stop_price df),
            reason := loc_set m (replicate n ''HTF breakout: strong leader, pole+flag, volume'')
                        (reason df)\<rparr>)"

definition htf_check_current_signal :: "htf_config \<Rightarrow> bar list \<Rightarrow> htf_record option" where
  "htf_check_current_signal cfg bars =
     (let df = htf_generate_signals cfg bars
      in if bars = [] then None
         else (let t = length bars - 1
               in if signal df ! t = 1
                  then Some \<lparr>rec_signal = ''LONG'',
                             rec_entry_price = entry_price df ! t,
                             rec_stop_price = stop_price df ! t,
                             rec_reason = reason df ! t,
                             rec_risk_per_share = nan_sub (entry_price df ! t) (stop_price df ! t),
                             rec_volume_ratio = volume_ratio (ind df) ! t,
                             rec_dollar_volume = avg_dollar_volume (ind df) ! t\<rparr>
                  else None))"

section \<open>Frames that may lack a column\<close>

text \<open>
  The bar type above is a frame with all five input columns. What the source does with a
  frame that lacks one shows only at the column lookup \<^verbatim>\<open>df[name]\<close>, which raises
  \<^verbatim>\<open>KeyError\<close> for a missing name. \<^verbatim>\<open>DonchianStrategy.calculate_indicators\<close> is embedded
  a second time over such frames, with its lookups in the order of the source: the high
  column for the first channel, then the low column, then (inside
  \<^verbatim>\<open>_calculate_atr\<close>) the close column.
\<close>

record raw_frame =
  fr_index :: "int list"
  fr_columns :: "(string \<times> real list) list"

definition getitem :: "raw_frame \<Rightarrow> string \<Rightarrow> error + column" where
  "getitem df name =
     (case map_of (fr_columns df) name of
        None \<Rightarrow> Inl (KeyError name)
      | Some xs \<Rightarrow> Inr (map Some xs))"

definition calculate_atr_frame :: "raw_frame \<Rightarrow> nat \<Rightarrow> error + column" where
  "calculate_atr_frame df period =
     (case getitem df ''high'' of
        Inl e \<Rightarrow> Inl e
      | Inr hi \<Rightarrow>
          (case getitem df ''low'' of
             Inl e \<Rightarrow> Inl e
           | Inr lo \<Rightarrow>
               (case getitem df ''close'' of
                  Inl e \<Rightarrow> Inl e
                | Inr cl \<Rightarrow> Inr (rolling_mean period (true_range_cols hi lo cl)))))"

definition donchian_calculate_indicators_frame :: "donchian_config \<Rightarrow> raw_frame \<Rightarrow> error + donchian_ind" where
  "donchian_calculate_indicators_frame cfg df =
     (case getitem df ''high'' of
        Inl e \<Rightarrow> Inl e
      | Inr hi \<Rightarrow>
          (let high_entry = rolling_max (dc_entry_period cfg) (shift 1 hi)
           in (case getitem df ''low'' of
                 Inl e \<Rightarrow> Inl e
               | Inr lo \<Rightarrow>
                   (let low_entry = rolling_min (dc_entry_period cfg) (shift 1 lo);
                        high_exit = rolling_max (dc_exit_period cfg) (shift 1 hi);
                        low_exit = rolling_min (dc_exit_period cfg) (shift 1 lo)
                    in (case calculate_atr_frame df (dc_atr_period cfg) of
                          Inl e \<Rightarrow> Inl e
                        | Inr a \<Rightarrow>
                            Inr \<lparr>donchian_high_entry = high_entry, donchian_low_entry = low_entry,
                                 donchian_high_exit = high_exit, donchian_low_exit = low_exit,
                                 dc_atr = a\<rparr>)))))"

text \<open>The frame of a bar list, and a frame without one of its columns.\<close>

definition frame_of :: "bar list \<Rightarrow> raw_frame" where
  "frame_of bars =
     \<lparr>fr_index = map date bars,
      fr_columns = [(''open'', map open_price bars), (''high'', map high bars),
                    (''low'', map low bars), (''close'', map close bars),
                    (''volume'', map volume bars)]\<rparr>"

definition drop_column :: "string \<Rightarrow> raw_frame \<Rightarrow> raw_frame" where
  "drop_column name df = df\<lparr>fr_columns := filter (\<lambda>kv. fst kv \<noteq> name) (fr_columns df)\<rparr>"

section \<open>Minimum history of a variant\<close>

text \<open>
  The number of bars a series needs before the windows that the entry condition of a
  variant reads are all filled on its last bar. The Donchian channel needs \<open>entry_period\<close>
  bars before the current one. MA101 needs the regime SMA and a previous bar for the
  crossover. The high tight flag needs all of its windows at once. The swing strategy has
  no such number in its modes \<open>crossover\<close> and \<open>all\<close>: the crossover reads only the
  two EMAs, which pandas defines from the first bar on whatever their span is.
\<close>

definition donchian_min_bars :: "donchian_config \<Rightarrow> nat" where
  "donchian_min_bars cfg = dc_entry_period cfg + 1"

definition ma101_min_bars :: "ma101_config \<Rightarrow> nat" where
  "ma101_min_bars cfg = max (ma_regime_ma cfg) 2"

definition htf_min_bars :: "htf_config \<Rightarrow> nat" where
  "htf_min_bars cfg = max (max (htf_volume_lookback cfg) 50) (max (htf_pole_lookback cfg + 1) 21)"

section \<open>Dates of a series\<close>

text \<open>
  The dates are the index of the input frame. \<open>increasing_dates\<close> is what a well-formed
  series satisfies (strictly increasing, hence no duplicates); \<open>with_dates\<close> is the same
  bars under another index.
\<close>

definition increasing_dates :: "bar list \<Rightarrow> bool" where
  "increasing_dates bars = sorted_wrt (\<lambda>d e. d < e) (map date bars)"

definition with_dates :: "int list \<Rightarrow> bar list \<Rightarrow> bar list" where
  "with_dates ds bars = map2 (\<lambda>d b. b\<lparr>date := d\<rparr>) ds bars"

section \<open>Example series and configurations\<close>

text \<open>
  Concrete inputs on which the theorems below are instantiated. A bar of \<open>ohlc\<close> opens at
  its close. The configurations override some defaults, as the \<^verbatim>\<open>config\<close> argument of the
  constructors does, mostly to shorten the lookbacks.
\<close>

definition ohlc :: "int \<Rightarrow> real \<Rightarrow> real \<Rightarrow> real \<Rightarrow> real \<Rightarrow> bar" where
  "ohlc d h l c v = \<lparr>date = d, open_price = c, high = h, low = l, close = c, volume = v\<rparr>"

definition one_bar :: "bar list" where
  "one_bar = [ohlc 1 11 9 10 1000]"

definition rising2 :: "bar list" where
  "rising2 = [ohlc 1 11 9 10 1000, ohlc 2 12 10 11 1000]"

definition rising3 :: "bar list" where
  "rising3 = [ohlc 1 11 9 10 1000, ohlc 2 12 10 11 1000, ohlc 3 14 12 13 1000]"

definition reversed_dates3 :: "bar list" where
  "reversed_dates3 = [ohlc 3 11 9 10 1000, ohlc 2 12 10 11 1000, ohlc 1 14 12 13 1000]"

definition v_shape3 :: "bar list" where
  "v_shape3 = [ohlc 1 101 99 100 1000, ohlc 2 51 49 50 1000, ohlc 3 71 69 70 1000]"

definition rebound4 :: "bar list" where
  "rebound4 = [ohlc 1 101 99 100 1000, ohlc 2 41 39 40 1000, ohlc 3 51 49 50 1000, ohlc 4 81 60 80 1000]"

definition pullback5 :: "bar list" where
  "pullback5 = [ohlc 1 11 9 10 1000, ohlc 2 10 8 9 1000, ohlc 3 9 7 8 1000, ohlc 4 11 9 10 1000,
                ohlc 5 (23 / 2) (19 / 2) (21 / 2) 1000]"

definition spike5 :: "bar list" where
  "spike5 = [ohlc 1 11 9 10 1000, ohlc 2 11 9 10 1000, ohlc 3 101 99 100 1000,
             ohlc 4 51 49 50 1000, ohlc 5 55 53 54 1000]"

text \<open>Fifty flat bars, then a bar that doubles the price on three times the volume.\<close>

definition flat_then_breakout :: "bar list" where
  "flat_then_breakout =
     map (\<lambda>k. ohlc (int k) 101 99 100 1000000) [0..<50] @ [ohlc 50 201 199 200 3000000]"

definition donchian_2_1 :: donchian_config where
  "donchian_2_1 = donchian_default\<lparr>dc_entry_period := 2, dc_exit_period := 1\<rparr>"

definition donchian_1_3 :: donchian_config where
  "donchian_1_3 = donchian_default\<lparr>dc_entry_period := 1, dc_exit_period := 3\<rparr>"

definition donchian_2_atr :: donchian_config where
  "donchian_2_atr = donchian_default\<lparr>dc_entry_period := 2, dc_exit_period := 1, dc_use_atr_stop := True\<rparr>"

definition ma101_small :: ma101_config where
  "ma101_small = ma101_default\<lparr>ma_regime_ma := 2, ma_fast_ema := 1, ma_slow_ema := 2, ma_stop_ma := 3\<rparr>"

definition ma101_fast1_slow3_stop2 :: ma101_config where
  "ma101_fast1_slow3_stop2 =
     ma101_default\<lparr>ma_regime_ma := 2, ma_fast_ema := 1, ma_slow_ema := 3, ma_stop_ma := 2\<rparr>"

definition swing_2_3 :: swing_config where
  "swing_2_3 = swing_default\<lparr>sw_fast_ema := 1, sw_slow_ema := 2, sw_ma_50 := 2, sw_ma_200 := 3\<rparr>"

definition swing_short_mas :: swing_config where
  "swing_short_mas = swing_default\<lparr>sw_ma_50 := 2, sw_ma_200 := 3\<rparr>"

definition swing_dip_50_only :: swing_config where
  "swing_dip_50_only = swing_default\<lparr>sw_ma_50 := 2, sw_ma_200 := 3, sw_entry_mode := ''dip_50''\<rparr>"

text \<open>
  Prices for position sizing: the doubles nearest to 1.86, 0.86, 145.08 and 45.08, and a
  price and an equity at the far ends of the range of the doubles.
\<close>

definition price_1_86 :: real where
  "price_1_86 = 8376695306909123 / 2 ^ 52"

definition price_0_86 :: real where
  "price_0_86 = 7746191359077253 / 2 ^ 53"

definition price_145_08 :: real where
  "price_145_08 = 5104548702647747 / 2 ^ 45"

definition price_45_08 :: real where
  "price_45_08 = 3172222987529093 / 2 ^ 46"

definition tiny_price :: real where
  "tiny_price = 1 / 2 ^ 520"

definition huge_equity :: real where
  "huge_equity = 2 ^ 520"

section \<open>Supporting lemmas\<close>

subsection \<open>Shift, rolling windows and masks\<close>

lemma length_shift [simp]: "length (shift k xs) = length xs"
  by (simp add: shift_def)

lemma nth_shift: "t < length xs \<Longrightarrow> shift k xs ! t = (if t < k then None else xs ! (t - k))"
  by (simp add: shift_def)

lemma length_rolling [simp]: "length (rolling agg w xs) = length xs"
  by (simp add: rolling_def)

lemma nth_rolling:
  "t < length xs \<Longrightarrow> rolling agg w xs ! t =
     (if w = 0 \<or> t + 1 < w \<or> None \<in> set (window w t xs) then None
      else Some (agg (map the (window w t xs))))"
  by (simp add: rolling_def)

lemma length_col [simp]: "length (col f bars) = length bars"
  by (simp add: col_def)

lemma nth_col [simp]: "t < length bars \<Longrightarrow> col f bars ! t = Some (f (bars ! t))"
  by (simp add: col_def)

lemma length_loc_set [simp]:
  "length (loc_set m v c) = min (length m) (min (length v) (length c))"
  by (simp add: loc_set_def)

lemma nth_loc_set:
  "t < length m \<Longrightarrow> t < length v \<Longrightarrow> t < length c \<Longrightarrow>
     loc_set m v c ! t = (if m ! t then v ! t else c ! t)"
  by (simp add: loc_set_def)

lemma length_mask_and [simp]: "length (mask_and a b) = min (length a) (length b)"
  by (simp add: mask_and_def)

lemma nth_mask_and:
  "t < length a \<Longrightarrow> t < length b \<Longrightarrow> mask_and a b ! t = (a ! t \<and> b ! t)"
  by (simp add: mask_and_def)

lemma upt_shift_one: "map (\<lambda>i. g (i - 1)) [Suc a..<Suc b] = map g [a..<b]"
proof -
  have "[Suc a..<Suc b] = map Suc [a..<b]"
    by (simp add: map_Suc_upt)
  then show ?thesis
    by (simp add: comp_def)
qed

lemma window_shift_col:
  assumes "t < length bars" and "w \<le> t"
  shows "window w t (shift 1 (col f bars)) = map (\<lambda>i. Some (f (bars ! i))) [t - w..<t]"
proof -
  have "window w t (shift 1 (col f bars)) = map (\<lambda>i. shift 1 (col f bars) ! i) [Suc (t - w)..<Suc t]"
    using assms by (simp add: window_def Suc_diff_le)
  also have "\<dots> = map (\<lambda>i. Some (f (bars ! (i - 1)))) [Suc (t - w)..<Suc t]"
    using assms by (intro map_cong refl) (auto simp: nth_shift)
  also have "\<dots> = map (\<lambda>i. Some (f (bars ! i))) [t - w..<t]"
    by (rule upt_shift_one)
  finally show ?thesis .
qed

lemma window_shift_col_short:
  assumes "t < length bars" and "0 < w" and "t < w" and "w \<le> t + 1"
  shows "None \<in> set (window w t (shift 1 (col f bars)))"
proof -
  have "w = t + 1" using assms by simp
  then have "0 \<in> set [t + 1 - w..<t + 1]" by auto
  moreover have "shift 1 (col f bars) ! 0 = None"
    using assms by (subst nth_shift) auto
  ultimately show ?thesis
    unfolding window_def by (metis (mono_tags, lifting) image_eqI set_map)
qed

lemma nth_rolling_shift_col:
  assumes "t < length bars" and "0 < w"
  shows "rolling agg w (shift 1 (col f bars)) ! t =
           (if t < w then None else Some (agg (map (\<lambda>i. f (bars ! i)) [t - w..<t])))"
proof (cases "t < w")
  case True
  show ?thesis
  proof (cases "t + 1 < w")
    case True
    then show ?thesis using assms \<open>t < w\<close> by (simp add: nth_rolling)
  next
    case False
    then have "None \<in> set (window w t (shift 1 (col f bars)))"
      using assms True by (intro window_shift_col_short) simp_all
    then show ?thesis using assms True by (simp add: nth_rolling)
  qed
next
  case False
  then have w: "w \<le> t" by simp
  have win: "window w t (shift 1 (col f bars)) = map (\<lambda>i. Some (f (bars ! i))) [t - w..<t]"
    using assms w by (rule_tac window_shift_col)
  have "rolling agg w (shift 1 (col f bars)) ! t =
          (if w = 0 \<or> t + 1 < w \<or> None \<in> set (window w t (shift 1 (col f bars))) then None
           else Some (agg (map the (window w t (shift 1 (col f bars))))))"
    using assms by (intro nth_rolling) simp
  also have "\<dots> = Some (agg (map (\<lambda>i. f (bars ! i)) [t - w..<t]))"
    unfolding win using assms w by (auto simp: comp_def)
  finally show ?thesis
    using False by simp
qed

subsection \<open>Rows of the Donchian frame\<close>

lemma length_true_range [simp]: "length (true_range bars) = length bars"
  by (simp add: true_range_def true_range_cols_def Let_def)

lemma length_calculate_atr [simp]: "length (calculate_atr bars w) = length bars"
  by (simp add: calculate_atr_def rolling_mean_def)

lemma donchian_ind_lengths [simp]:
  "length (donchian_high_entry (donchian_calculate_indicators cfg bars)) = length bars"
  "length (donchian_low_entry (donchian_calculate_indicators cfg bars)) = length bars"
  "length (donchian_high_exit (donchian_calculate_indicators cfg bars)) = length bars"
  "length (donchian_low_exit (donchian_calculate_indicators cfg bars)) = length bars"
  "length (dc_atr (donchian_calculate_indicators cfg bars)) = length bars"
  by (simp_all add: donchian_calculate_indicators_def rolling_max_def rolling_min_def)

lemma length_long_stop [simp]:
  "length (long_stop cfg bars (donchian_calculate_indicators cfg bars)) = length bars"
  by (simp add: long_stop_def)

lemma length_short_stop [simp]:
  "length (short_stop cfg bars (donchian_calculate_indicators cfg bars)) = length bars"
  by (simp add: short_stop_def)

lemma length_breakouts [simp]:
  "length (long_breakout bars (donchian_calculate_indicators cfg bars)) = length bars"
  "length (short_breakout bars (donchian_calculate_indicators cfg bars)) = length bars"
  by (simp_all add: long_breakout_def short_breakout_def)

lemma donchian_ind [simp]:
  "ind (donchian_generate_signals cfg bars) = donchian_calculate_indicators cfg bars"
  by (simp add: donchian_generate_signals_def donchian_long_def donchian_short_def init_frame_def Let_def)

lemma donchian_signal_nth:
  assumes "t < length bars"
  shows "signal (donchian_generate_signals cfg bars) ! t =
           (if dc_allow_shorts cfg \<and> short_breakout bars (donchian_calculate_indicators cfg bars) ! t then - 1
            else if long_breakout bars (donchian_calculate_indicators cfg bars) ! t then 1 else 0)"
  using assms
  by (simp add: donchian_generate_signals_def donchian_long_def donchian_short_def init_frame_def
      Let_def nth_loc_set)

lemma donchian_entry_nth:
  assumes "t < length bars"
  shows "entry_price (donchian_generate_signals cfg bars) ! t =
           (if (dc_allow_shorts cfg \<and> short_breakout bars (donchian_calculate_indicators cfg bars) ! t)
               \<or> long_breakout bars (donchian_calculate_indicators cfg bars) ! t
            then Some (close (bars ! t)) else None)"
  using assms
  by (simp add: donchian_generate_signals_def donchian_long_def donchian_short_def init_frame_def
      Let_def nth_loc_set)

lemma donchian_stop_nth:
  assumes "t < length bars"
  shows "stop_price (donchian_generate_signals cfg bars) ! t =
           (if dc_allow_shorts cfg \<and> short_breakout bars (donchian_calculate_indicators cfg bars) ! t
            then short_stop cfg bars (donchian_calculate_indicators cfg bars) ! t
            else if long_breakout bars (donchian_calculate_indicators cfg bars) ! t
            then long_stop cfg bars (donchian_calculate_indicators cfg bars) ! t else None)"
  using assms
  by (simp add: donchian_generate_signals_def donchian_long_def donchian_short_def init_frame_def
      Let_def nth_loc_set)

lemma donchian_high_entry_nth:
  assumes "t < length bars" and "0 < dc_entry_period cfg"
  shows "donchian_high_entry (donchian_calculate_indicators cfg bars) ! t =
           (if t < dc_entry_period cfg then None
            else Some (Max ((\<lambda>i. high (bars ! i)) ` {t - dc_entry_period cfg..<t})))"
  using assms by (simp add: donchian_calculate_indicators_def rolling_max_def nth_rolling_shift_col del: One_nat_def)

lemma donchian_low_entry_nth:
  assumes "t < length bars" and "0 < dc_entry_period cfg"
  shows "donchian_low_entry (donchian_calculate_indicators cfg bars) ! t =
           (if t < dc_entry_period cfg then None
            else Some (Min ((\<lambda>i. low (bars ! i)) ` {t - dc_entry_period cfg..<t})))"
  using assms by (simp add: donchian_calculate_indicators_def rolling_min_def nth_rolling_shift_col del: One_nat_def)

lemma nth_long_breakout:
  assumes "t < length bars"
  shows "long_breakout bars (donchian_calculate_indicators cfg bars) ! t =
           nan_gt (Some (close (bars ! t))) (donchian_high_entry (donchian_calculate_indicators cfg bars) ! t)"
  using assms by (simp add: long_breakout_def)

lemma nth_short_breakout:
  assumes "t < length bars"
  shows "short_breakout bars (donchian_calculate_indicators cfg bars) ! t =
           nan_lt (Some (close (bars ! t))) (donchian_low_entry (donchian_calculate_indicators cfg bars) ! t)"
  using assms by (simp add: short_breakout_def)

subsection \<open>Gain and loss columns of the RSI\<close>

lemma length_diff [simp]: "length (diff xs) = length xs"
  by (simp add: diff_def)

lemma length_gain_col [simp]: "length (gain_col xs) = length xs"
  by (simp add: gain_col_def)

lemma length_loss_col [simp]: "length (loss_col xs) = length xs"
  by (simp add: loss_col_def)

lemma gain_col_nth:
  assumes "i < length xs"
  shows "\<exists>g. 0 \<le> g \<and> gain_col xs ! i = Some g"
  using assms by (auto simp: gain_col_def diff_def nan_gt_def)

lemma rolling_mean_nonneg:
  assumes "t < length ys" and "w \<noteq> 0" and "w \<le> t + 1"
    and "\<And>i. i < length ys \<Longrightarrow> \<exists>v. 0 \<le> v \<and> ys ! i = Some v"
  shows "\<exists>g. 0 \<le> g \<and> rolling_mean w ys ! t = Some g"
proof -
  have el: "\<exists>v. 0 \<le> v \<and> y = Some v" if "y \<in> set (window w t ys)" for y
  proof -
    from that have "\<exists>i. i < t + 1 \<and> y = ys ! i"
      by (auto simp: window_def intro: less_SucI)
    then obtain i where "i < t + 1" and "y = ys ! i"
      by blast
    then show ?thesis
      using assms(1) assms(4) [of i] by auto
  qed
  then have none: "None \<notin> set (window w t ys)"
    by fastforce
  have "0 \<le> x" if "x \<in> set (map the (window w t ys))" for x
    using that el by fastforce
  then have "0 \<le> sum_list (map the (window w t ys))"
    by (intro sum_list_nonneg) blast
  then have "0 \<le> mean (map the (window w t ys))"
    by (simp add: mean_def)
  moreover have "rolling_mean w ys ! t = Some (mean (map the (window w t ys)))"
    using assms(1-3) none by (simp add: rolling_mean_def nth_rolling)
  ultimately show ?thesis
    by blast
qed

lemma rolling_defined_window:
  assumes "t < length ys" and "rolling agg w ys ! t = Some v"
  shows "w \<noteq> 0 \<and> w \<le> t + 1"
  using assms by (auto simp: nth_rolling split: if_splits)

subsection \<open>EMA columns, crossover and dip masks\<close>

lemma length_ewm_from [simp]: "length (ewm_from a y xs) = length xs"
  by (induction xs arbitrary: y) simp_all

lemma length_ewm_mean [simp]: "length (ewm_mean p xs) = length xs"
  by (simp add: ewm_mean_def split: list.splits)

lemma length_cross_above [simp]:
  "length (cross_above f s) = min (length f) (length s)"
  by (simp add: cross_above_def)

lemma nth_cross_above:
  assumes "t < length f" and "t < length s"
  shows "cross_above f s ! t =
           (nan_le (shift 1 f ! t) (shift 1 s ! t) \<and> nan_gt (f ! t) (s ! t))"
  using assms by (simp add: cross_above_def nth_mask_and)

lemma length_dip [simp]: "length (dip bars ma) = min (length bars) (length ma)"
  by (simp add: dip_def)

lemma nth_dip:
  assumes "t < length bars" and "length ma = length bars"
  shows "dip bars ma ! t =
           (nan_le (Some (low (bars ! t))) (ma ! t) \<and> nan_gt (Some (close (bars ! t))) (ma ! t)
            \<and> nan_gt (shift 1 (col close bars) ! t) (shift 1 ma ! t))"
  using assms by (auto simp: dip_def nth_mask_and)

lemma length_rolling_mean [simp]: "length (rolling_mean w xs) = length xs"
  by (simp add: rolling_mean_def)

lemma length_rolling_max [simp]: "length (rolling_max w xs) = length xs"
  by (simp add: rolling_max_def)

lemma length_rolling_min [simp]: "length (rolling_min w xs) = length xs"
  by (simp add: rolling_min_def)

lemma length_calculate_rsi [simp]: "length (calculate_rsi xs p) = length xs"
  by (simp add: calculate_rsi_def avg_gain_def avg_loss_def)

subsection \<open>Rows of the MA101 frame\<close>

lemma ma101_calculate_indicators_cases:
  "ma101_calculate_indicators cfg bars =
     (if ma_fast_ema cfg < 1 \<or> ma_slow_ema cfg < 1 \<or> ma_stop_ma cfg < 1 then Inl ValueError
      else Inr \<lparr>ma_sma_regime = rolling_mean (ma_regime_ma cfg) (col close bars),
                ma_ema_fast = map Some (ewm_mean (ma_fast_ema cfg) (map close bars)),
                ma_ema_slow = map Some (ewm_mean (ma_slow_ema cfg) (map close bars)),
                ma_ema_stop = map Some (ewm_mean (ma_stop_ma cfg) (map close bars)),
                ma_rsi = calculate_rsi (map close bars) (ma_rsi_period cfg),
                ma_atr_14 = calculate_atr bars 14\<rparr>)"
  by (simp add: ma101_calculate_indicators_def ewm_def Let_def)

lemma ma101_ind_lengths:
  assumes "ma101_calculate_indicators cfg bars = Inr i"
  shows "length (ma_sma_regime i) = length bars" and "length (ma_ema_fast i) = length bars"
    and "length (ma_ema_slow i) = length bars" and "length (ma_ema_stop i) = length bars"
    and "length (ma_atr_14 i) = length bars"
  using assms by (auto simp: ma101_calculate_indicators_cases split: if_splits)

lemma ma101_ema_stop_defined:
  assumes "ma101_calculate_indicators cfg bars = Inr i" and "t < length bars"
  shows "ma_ema_stop i ! t = Some (ewm_mean (ma_stop_ma cfg) (map close bars) ! t)"
  using assms by (auto simp: ma101_calculate_indicators_cases split: if_splits)

lemma length_ma101_entry_signal:
  assumes "ma101_calculate_indicators cfg bars = Inr i"
  shows "length (ma101_entry_signal bars i) = length bars"
  using ma101_ind_lengths [OF assms] by (simp add: ma101_entry_signal_def Let_def)

lemma ma101_generate_signals_Inr:
  assumes "ma101_generate_signals cfg bars = Inr df"
  shows "ma101_calculate_indicators cfg bars = Inr (ind df)"
  using assms by (auto simp: ma101_generate_signals_def init_frame_def Let_def split: sum.splits)

lemma ma101_rows:
  assumes "ma101_generate_signals cfg bars = Inr df" and "t < length bars"
  shows "signal df ! t = (if ma101_entry_signal bars (ind df) ! t then 1 else 0)"
    and "entry_price df ! t = (if ma101_entry_signal bars (ind df) ! t then Some (close (bars ! t)) else None)"
    and "stop_price df ! t = (if ma101_entry_signal bars (ind df) ! t then ma_ema_stop (ind df) ! t else None)"
proof -
  obtain i where i: "ma101_calculate_indicators cfg bars = Inr i"
    using assms(1) by (auto simp: ma101_generate_signals_def split: sum.splits)
  note len = ma101_ind_lengths [OF i] length_ma101_entry_signal [OF i]
  have df: "df = (init_frame i (length bars))
      \<lparr>signal := loc_set (ma101_entry_signal bars i) (replicate (length bars) 1) (signal (init_frame i (length bars))),
       entry_price := loc_set (ma101_entry_signal bars i) (col close bars) (entry_price (init_frame i (length bars))),
       stop_price := loc_set (ma101_entry_signal bars i) (ma_ema_stop i) (stop_price (init_frame i (length bars))),
       reason := loc_set (ma101_entry_signal bars i)
          (replicate (length bars) (''EMA '' @ show_nat (ma_fast_ema cfg) @ ''/'' @ show_nat (ma_slow_ema cfg)
                            @ '' cross above, price > SMA '' @ show_nat (ma_regime_ma cfg)))
          (reason (init_frame i (length bars)))\<rparr>"
    using assms(1) i by (simp add: ma101_generate_signals_def Let_def)
  have ind: "ind df = i"
    by (simp add: df init_frame_def)
  show "signal df ! t = (if ma101_entry_signal bars (ind df) ! t then 1 else 0)"
    unfolding ind using assms(2) len by (simp add: df init_frame_def nth_loc_set)
  show "entry_price df ! t = (if ma101_entry_signal bars (ind df) ! t then Some (close (bars ! t)) else None)"
    unfolding ind using assms(2) len by (simp add: df init_frame_def nth_loc_set)
  show "stop_price df ! t = (if ma101_entry_signal bars (ind df) ! t then ma_ema_stop (ind df) ! t else None)"
    unfolding ind using assms(2) len by (simp add: df init_frame_def nth_loc_set)
qed

subsection \<open>Rows of the swing frame\<close>

lemma swing_calculate_indicators_cases:
  "swing_calculate_indicators cfg bars =
     (if sw_fast_ema cfg < 1 \<or> sw_slow_ema cfg < 1 then Inl ValueError
      else Inr \<lparr>sw_ema_fast = map Some (ewm_mean (sw_fast_ema cfg) (map close bars)),
                sw_ema_slow = map Some (ewm_mean (sw_slow_ema cfg) (map close bars)),
                sw_sma_50 = rolling_mean (sw_ma_50 cfg) (col close bars),
                sw_sma_200 = rolling_mean (sw_ma_200 cfg) (col close bars),
                sw_rsi = calculate_rsi (map close bars) (sw_rsi_period cfg),
                sw_atr = calculate_atr bars (sw_atr_period cfg)\<rparr>)"
  by (simp add: swing_calculate_indicators_def ewm_def Let_def)

lemma swing_ind_lengths:
  assumes "swing_calculate_indicators cfg bars = Inr i"
  shows "length (sw_ema_fast i) = length bars" and "length (sw_ema_slow i) = length bars"
    and "length (sw_sma_50 i) = length bars" and "length (sw_sma_200 i) = length bars"
    and "length (sw_atr i) = length bars" and "length (sw_rsi i) = length bars"
  using assms by (auto simp: swing_calculate_indicators_cases split: if_splits)

lemma swing_generate_signals_Inr:
  assumes "swing_generate_signals cfg bars = Inr df"
  shows "swing_calculate_indicators cfg bars = Inr (ind df)"
  using assms
  by (auto simp: swing_generate_signals_def swing_init_def swing_crossover_def swing_dip_50_def
      swing_dip_200_def Let_def split: sum.splits)

lemma swing_rows:
  assumes "swing_generate_signals cfg bars = Inr df" and "t < length bars"
  defines "c \<equiv> sw_entry_mode cfg \<in> set [''crossover'', ''all''] \<and> cross_above (sw_ema_fast (ind df)) (sw_ema_slow (ind df)) ! t"
    and "d50 \<equiv> sw_entry_mode cfg \<in> set [''dip_50'', ''all''] \<and> dip bars (sw_sma_50 (ind df)) ! t"
    and "d200 \<equiv> sw_entry_mode cfg \<in> set [''dip_200'', ''all''] \<and> dip bars (sw_sma_200 (ind df)) ! t"
  shows "signal df ! t = (if c \<or> d50 \<or> d200 then 1 else 0)"
    and "entry_price df ! t = (if c \<or> d50 \<or> d200 then Some (close (bars ! t)) else None)"
    and "stop_price df ! t =
           (if c then sw_ema_slow (ind df) ! t
            else if d50 then nan_mul (sw_sma_50 (ind df) ! t) (Some (98 / 100))
            else if d200 then nan_mul (sw_sma_200 (ind df) ! t) (Some (97 / 100)) else None)"
    and "entry_type df ! t =
           (if c then ''crossover'' else if d50 then ''dip_50'' else if d200 then ''dip_200'' else [])"
proof -
  define i where "i = ind df"
  have i: "swing_calculate_indicators cfg bars = Inr i"
    unfolding i_def using assms(1) by (rule swing_generate_signals_Inr)
  note len = swing_ind_lengths [OF i]
  have df: "df = (let df = swing_init i (length bars);
               df = (if sw_entry_mode cfg \<in> set [''crossover'', ''all'']
                     then swing_crossover cfg bars df else df);
               df = (if sw_entry_mode cfg \<in> set [''dip_50'', ''all'']
                     then swing_dip_50 bars df else df);
               df = (if sw_entry_mode cfg \<in> set [''dip_200'', ''all'']
                     then swing_dip_200 bars df else df)
           in df)"
    using assms(1) i by (simp add: swing_generate_signals_def Let_def)
  note defs = Let_def swing_init_def swing_crossover_def swing_dip_50_def swing_dip_200_def
    nth_loc_set nth_mask_and is_flat_def
  show "signal df ! t = (if c \<or> d50 \<or> d200 then 1 else 0)"
    unfolding c_def d50_def d200_def i_def [symmetric] using assms(2) len by (simp add: df defs)
  show "entry_price df ! t = (if c \<or> d50 \<or> d200 then Some (close (bars ! t)) else None)"
    unfolding c_def d50_def d200_def i_def [symmetric] using assms(2) len by (simp add: df defs)
  show "stop_price df ! t =
           (if c then sw_ema_slow (ind df) ! t
            else if d50 then nan_mul (sw_sma_50 (ind df) ! t) (Some (98 / 100))
            else if d200 then nan_mul (sw_sma_200 (ind df) ! t) (Some (97 / 100)) else None)"
    unfolding c_def d50_def d200_def i_def [symmetric] using assms(2) len by (simp add: df defs)
  show "entry_type df ! t =
           (if c then ''crossover'' else if d50 then ''dip_50'' else if d200 then ''dip_200'' else [])"
    unfolding c_def d50_def d200_def i_def [symmetric] using assms(2) len by (simp add: df defs)
qed

subsection \<open>Rows of the high-tight-flag frame\<close>

lemma htf_ind_lengths [simp]:
  "length (ema_10 (htf_calculate_indicators cfg bars)) = length bars"
  "length (sma_20 (htf_calculate_indicators cfg bars)) = length bars"
  "length (sma_50 (htf_calculate_indicators cfg bars)) = length bars"
  "length (avg_volume (htf_calculate_indicators cfg bars)) = length bars"
  "length (volume_ratio (htf_calculate_indicators cfg bars)) = length bars"
  "length (avg_dollar_volume (htf_calculate_indicators cfg bars)) = length bars"
  "length (high_20 (htf_calculate_indicators cfg bars)) = length bars"
  "length (pole_move (htf_calculate_indicators cfg bars)) = length bars"
  by (simp_all add: htf_calculate_indicators_def Let_def)

lemma length_htf_signal [simp]:
  "length (htf_signal cfg bars (htf_calculate_indicators cfg bars)) = length bars"
  by (simp add: htf_signal_def liquidity_ok_def above_50ma_def strong_pole_def near_highs_def
      tight_def breakout_def volume_confirmation_def)

lemma nth_htf_signal:
  assumes "t < length bars"
  shows "htf_signal cfg bars (htf_calculate_indicators cfg bars) ! t =
          (nan_ge (avg_dollar_volume (htf_calculate_indicators cfg bars) ! t) (Some (htf_min_dollar_volume cfg))
           \<and> nan_gt (Some (close (bars ! t))) (sma_50 (htf_calculate_indicators cfg bars) ! t)
           \<and> fge (pole_move (htf_calculate_indicators cfg bars) ! t) (Fin (htf_min_pole_move cfg))
           \<and> nan_ge (Some (close (bars ! t)))
                (nan_mul (high_20 (htf_calculate_indicators cfg bars) ! t) (Some (90 / 100)))
           \<and> nan_ge (Some (close (bars ! t))) (ema_10 (htf_calculate_indicators cfg bars) ! t)
           \<and> nan_ge (Some (close (bars ! t))) (sma_20 (htf_calculate_indicators cfg bars) ! t)
           \<and> nan_gt (Some (high (bars ! t))) (shift 1 (high_20 (htf_calculate_indicators cfg bars)) ! t)
           \<and> fge (volume_ratio (htf_calculate_indicators cfg bars) ! t)
                (Fin (htf_volume_breakout_multiplier cfg)))"
  using assms
  by (simp add: htf_signal_def liquidity_ok_def above_50ma_def strong_pole_def near_highs_def
      tight_def breakout_def volume_confirmation_def nth_mask_and)

lemma htf_ind [simp]: "ind (htf_generate_signals cfg bars) = htf_calculate_indicators cfg bars"
  by (simp add: htf_generate_signals_def init_frame_def Let_def)

lemma htf_rows:
  assumes "t < length bars"
  shows "signal (htf_generate_signals cfg bars) ! t =
           (if htf_signal cfg bars (htf_calculate_indicators cfg bars) ! t then 1 else 0)"
    and "entry_price (htf_generate_signals cfg bars) ! t =
           (if htf_signal cfg bars (htf_calculate_indicators cfg bars) ! t then Some (high (bars ! t)) else None)"
    and "stop_price (htf_generate_signals cfg bars) ! t =
           (if htf_signal cfg bars (htf_calculate_indicators cfg bars) ! t then Some (low (bars ! t)) else None)"
  using assms by (simp_all add: htf_generate_signals_def init_frame_def Let_def nth_loc_set)

subsection \<open>The high tight flag on the breakout series\<close>

text \<open>The record is evaluated once and shared by the instances below.\<close>

lemma htf_check_Some:
  assumes "htf_check_current_signal cfg bars = Some r"
  shows "bars \<noteq> []" and "signal (htf_generate_signals cfg bars) ! (length bars - 1) = 1"
  using assms by (auto simp: htf_check_current_signal_def Let_def split: if_splits)

lemma htf_flat_then_breakout:
  "htf_check_current_signal htf_default flat_then_breakout =
     Some \<lparr>rec_signal = ''LONG'', rec_entry_price = Some 201, rec_stop_price = Some 199,
           rec_reason = ''HTF breakout: strong leader, pole+flag, volume'',
           rec_risk_per_share = Some 2, rec_volume_ratio = Fin (30 / 11),
           rec_dollar_volume = Some 125000000\<rparr>"
  by code_simp

subsection \<open>Defined entry and stop prices\<close>

lemma rolling_zero:
  assumes "t < length xs"
  shows "rolling agg 0 xs ! t = None"
  using assms by (simp add: nth_rolling)

lemma rolling_all_defined:
  assumes "t < length ys" and "w \<noteq> 0" and "w \<le> t + 1"
    and "\<And>i. i < length ys \<Longrightarrow> \<exists>v. ys ! i = Some v"
  shows "\<exists>g. rolling agg w ys ! t = Some g"
proof -
  have "\<exists>v. y = Some v" if "y \<in> set (window w t ys)" for y
  proof -
    from that have "\<exists>i. i < t + 1 \<and> y = ys ! i"
      by (auto simp: window_def intro: less_SucI)
    then obtain i where "i < t + 1" and "y = ys ! i"
      by blast
    then show ?thesis
      using assms(1) assms(4) [of i] by auto
  qed
  then have "None \<notin> set (window w t ys)"
    by fastforce
  then show ?thesis
    using assms(1-3) by (simp add: nth_rolling)
qed

lemma true_range_defined:
  assumes "i < length bars"
  shows "\<exists>v. true_range bars ! i = Some v"
  using assms by (simp add: true_range_def true_range_cols_def Let_def nanmax_row_def nan_sub_def nan_op_def)

lemma calculate_atr_defined:
  assumes "t < length bars" and "w \<noteq> 0" and "w \<le> t + 1"
  shows "\<exists>a. calculate_atr bars w ! t = Some a"
  unfolding calculate_atr_def rolling_mean_def
  using assms by (intro rolling_all_defined) (simp_all add: true_range_defined)

lemma long_breakout_period:
  assumes "t < length bars" and "long_breakout bars (donchian_calculate_indicators cfg bars) ! t"
  shows "0 < dc_entry_period cfg \<and> dc_entry_period cfg \<le> t"
proof (cases "dc_entry_period cfg = 0")
  case True
  then have "donchian_high_entry (donchian_calculate_indicators cfg bars) ! t = None"
    using assms(1) by (simp add: donchian_calculate_indicators_def rolling_max_def rolling_zero)
  then show ?thesis
    using assms by (simp add: nth_long_breakout nan_gt_def)
next
  case False
  then show ?thesis
    using assms by (auto simp: nth_long_breakout donchian_high_entry_nth nan_gt_def split: if_splits)
qed

lemma short_breakout_period:
  assumes "t < length bars" and "short_breakout bars (donchian_calculate_indicators cfg bars) ! t"
  shows "0 < dc_entry_period cfg \<and> dc_entry_period cfg \<le> t"
proof (cases "dc_entry_period cfg = 0")
  case True
  then have "donchian_low_entry (donchian_calculate_indicators cfg bars) ! t = None"
    using assms(1) by (simp add: donchian_calculate_indicators_def rolling_min_def rolling_zero)
  then show ?thesis
    using assms by (simp add: nth_short_breakout nan_lt_def nan_gt_def)
next
  case False
  then show ?thesis
    using assms
    by (auto simp: nth_short_breakout donchian_low_entry_nth nan_lt_def nan_gt_def split: if_splits)
qed

lemma exit_channels_defined:
  assumes "t < length bars" and "0 < dc_exit_period cfg" and "dc_exit_period cfg \<le> t"
  shows "\<exists>v. donchian_low_exit (donchian_calculate_indicators cfg bars) ! t = Some v"
    and "\<exists>v. donchian_high_exit (donchian_calculate_indicators cfg bars) ! t = Some v"
  using assms
  by (simp_all add: donchian_calculate_indicators_def rolling_max_def rolling_min_def
      nth_rolling_shift_col del: One_nat_def)

lemma donchian_stops_defined:
  assumes "t < length bars" and "0 < dc_entry_period cfg" and "dc_entry_period cfg \<le> t"
    and "if dc_use_atr_stop cfg
         then 1 \<le> dc_atr_period cfg \<and> dc_atr_period cfg \<le> dc_entry_period cfg + 1
         else 1 \<le> dc_exit_period cfg \<and> dc_exit_period cfg \<le> dc_entry_period cfg"
  shows "\<exists>v. long_stop cfg bars (donchian_calculate_indicators cfg bars) ! t = Some v"
    and "\<exists>v. short_stop cfg bars (donchian_calculate_indicators cfg bars) ! t = Some v"
proof -
  show "\<exists>v. long_stop cfg bars (donchian_calculate_indicators cfg bars) ! t = Some v"
  proof (cases "dc_use_atr_stop cfg")
    case True
    then have "\<exists>a. calculate_atr bars (dc_atr_period cfg) ! t = Some a"
      using assms by (intro calculate_atr_defined) auto
    then show ?thesis
      using True assms(1)
      by (auto simp: long_stop_def donchian_calculate_indicators_def nan_sub_def nan_mul_def nan_op_def)
  next
    case False
    then show ?thesis
      using assms exit_channels_defined(1) [of t bars cfg] by (simp add: long_stop_def)
  qed
  show "\<exists>v. short_stop cfg bars (donchian_calculate_indicators cfg bars) ! t = Some v"
  proof (cases "dc_use_atr_stop cfg")
    case True
    then have "\<exists>a. calculate_atr bars (dc_atr_period cfg) ! t = Some a"
      using assms by (intro calculate_atr_defined) auto
    then show ?thesis
      using True assms(1)
      by (auto simp: short_stop_def donchian_calculate_indicators_def nan_add_def nan_mul_def nan_op_def)
  next
    case False
    then show ?thesis
      using assms exit_channels_defined(2) [of t bars cfg] by (simp add: short_stop_def)
  qed
qed

lemma donchian_row_defined:
  assumes "t < length bars"
  shows "signal (donchian_generate_signals cfg bars) ! t = 0 \<Longrightarrow>
           entry_price (donchian_generate_signals cfg bars) ! t = None
           \<and> stop_price (donchian_generate_signals cfg bars) ! t = None"
    and "signal (donchian_generate_signals cfg bars) ! t \<noteq> 0 \<Longrightarrow>
           entry_price (donchian_generate_signals cfg bars) ! t = Some (close (bars ! t))"
    and "signal (donchian_generate_signals cfg bars) ! t \<noteq> 0 \<Longrightarrow>
           (if dc_use_atr_stop cfg
            then 1 \<le> dc_atr_period cfg \<and> dc_atr_period cfg \<le> dc_entry_period cfg + 1
            else 1 \<le> dc_exit_period cfg \<and> dc_exit_period cfg \<le> dc_entry_period cfg) \<Longrightarrow>
           \<exists>v. stop_price (donchian_generate_signals cfg bars) ! t = Some v"
proof -
  let ?i = "donchian_calculate_indicators cfg bars"
  show "entry_price (donchian_generate_signals cfg bars) ! t = None
           \<and> stop_price (donchian_generate_signals cfg bars) ! t = None"
    if "signal (donchian_generate_signals cfg bars) ! t = 0"
    using that assms
    by (simp add: donchian_signal_nth donchian_entry_nth donchian_stop_nth split: if_splits)
  show "entry_price (donchian_generate_signals cfg bars) ! t = Some (close (bars ! t))"
    if "signal (donchian_generate_signals cfg bars) ! t \<noteq> 0"
    using that assms
    by (simp add: donchian_signal_nth donchian_entry_nth split: if_splits)
  show "\<exists>v. stop_price (donchian_generate_signals cfg bars) ! t = Some v"
    if nz: "signal (donchian_generate_signals cfg bars) ! t \<noteq> 0"
      and ok: "if dc_use_atr_stop cfg
            then 1 \<le> dc_atr_period cfg \<and> dc_atr_period cfg \<le> dc_entry_period cfg + 1
            else 1 \<le> dc_exit_period cfg \<and> dc_exit_period cfg \<le> dc_entry_period cfg"
  proof -
    have brk: "(dc_allow_shorts cfg \<and> short_breakout bars ?i ! t) \<or> long_breakout bars ?i ! t"
      using nz assms by (simp add: donchian_signal_nth split: if_splits)
    then have per: "0 < dc_entry_period cfg \<and> dc_entry_period cfg \<le> t"
      using assms long_breakout_period short_breakout_period by blast
    note st = donchian_stops_defined [OF assms _ _ ok]
    show ?thesis
      using per st assms brk by (auto simp: donchian_stop_nth)
  qed
qed


lemma ma101_row_defined:
  assumes "t < length bars" and "ma101_generate_signals cfg bars = Inr df"
  shows "signal df ! t = 0 \<Longrightarrow> entry_price df ! t = None \<and> stop_price df ! t = None"
    and "signal df ! t \<noteq> 0 \<Longrightarrow> (\<exists>x. entry_price df ! t = Some x) \<and> (\<exists>y. stop_price df ! t = Some y)"
proof -
  note rows = ma101_rows [OF assms(2,1)]
  note stop = ma101_ema_stop_defined [OF ma101_generate_signals_Inr [OF assms(2)] assms(1)]
  show "entry_price df ! t = None \<and> stop_price df ! t = None" if "signal df ! t = 0"
    using that by (simp add: rows split: if_splits)
  show "(\<exists>x. entry_price df ! t = Some x) \<and> (\<exists>y. stop_price df ! t = Some y)" if "signal df ! t \<noteq> 0"
    using that stop by (simp add: rows split: if_splits)
qed

lemma dip_defined:
  assumes "t < length bars" and "length ma = length bars" and "dip bars ma ! t"
  shows "\<exists>v. ma ! t = Some v"
  using assms by (auto simp: nth_dip nan_gt_def split: option.splits)

lemma nan_mul_defined:
  assumes "\<exists>v. a = Some v"
  shows "\<exists>w. nan_mul a (Some k) = Some w"
  using assms by (auto simp: nan_mul_def nan_op_def)

lemma swing_ema_defined:
  assumes "swing_calculate_indicators cfg bars = Inr i" and "t < length bars"
  shows "sw_ema_slow i ! t = Some (ewm_mean (sw_slow_ema cfg) (map close bars) ! t)"
    and "sw_ema_fast i ! t = Some (ewm_mean (sw_fast_ema cfg) (map close bars) ! t)"
  using assms by (auto simp: swing_calculate_indicators_cases split: if_splits)

lemma swing_row_defined:
  assumes "t < length bars" and "swing_generate_signals cfg bars = Inr df"
  shows "signal df ! t = 0 \<Longrightarrow> entry_price df ! t = None \<and> stop_price df ! t = None"
    and "signal df ! t \<noteq> 0 \<Longrightarrow> (\<exists>x. entry_price df ! t = Some x) \<and> (\<exists>y. stop_price df ! t = Some y)"
proof -
  define c where "c \<longleftrightarrow> sw_entry_mode cfg \<in> set [''crossover'', ''all'']
    \<and> cross_above (sw_ema_fast (ind df)) (sw_ema_slow (ind df)) ! t"
  define d50 where "d50 \<longleftrightarrow> sw_entry_mode cfg \<in> set [''dip_50'', ''all''] \<and> dip bars (sw_sma_50 (ind df)) ! t"
  define d200 where "d200 \<longleftrightarrow> sw_entry_mode cfg \<in> set [''dip_200'', ''all''] \<and> dip bars (sw_sma_200 (ind df)) ! t"
  note rows = swing_rows [OF assms(2,1), folded c_def d50_def d200_def]
  note i = swing_generate_signals_Inr [OF assms(2)]
  note len = swing_ind_lengths [OF i]
  have slow: "\<exists>v. sw_ema_slow (ind df) ! t = Some v"
    using swing_ema_defined(1) [OF i assms(1)] by simp
  have s50: "\<exists>v. nan_mul (sw_sma_50 (ind df) ! t) (Some (98 / 100)) = Some v" if d50
  proof -
    from that have "dip bars (sw_sma_50 (ind df)) ! t"
      by (simp add: d50_def)
    from dip_defined [OF assms(1) len(3) this] show ?thesis
      by (rule nan_mul_defined)
  qed
  have s200: "\<exists>v. nan_mul (sw_sma_200 (ind df) ! t) (Some (97 / 100)) = Some v" if d200
  proof -
    from that have "dip bars (sw_sma_200 (ind df)) ! t"
      by (simp add: d200_def)
    from dip_defined [OF assms(1) len(4) this] show ?thesis
      by (rule nan_mul_defined)
  qed
  show "entry_price df ! t = None \<and> stop_price df ! t = None" if "signal df ! t = 0"
    using that unfolding rows by (simp split: if_splits)
  show "(\<exists>x. entry_price df ! t = Some x) \<and> (\<exists>y. stop_price df ! t = Some y)" if "signal df ! t \<noteq> 0"
  proof -
    from that have any: "c \<or> d50 \<or> d200"
      unfolding rows by (simp split: if_splits)
    then have "\<exists>x. entry_price df ! t = Some x"
      unfolding rows by simp
    moreover have "\<exists>y. stop_price df ! t = Some y"
      unfolding rows using any slow s50 s200 by (cases c; cases d50; cases d200) simp_all
    ultimately show ?thesis
      by blast
  qed
qed

lemma htf_row_defined:
  assumes "t < length bars"
  shows "signal (htf_generate_signals cfg bars) ! t = 0 \<Longrightarrow>
           entry_price (htf_generate_signals cfg bars) ! t = None
           \<and> stop_price (htf_generate_signals cfg bars) ! t = None"
    and "signal (htf_generate_signals cfg bars) ! t \<noteq> 0 \<Longrightarrow>
           (\<exists>x. entry_price (htf_generate_signals cfg bars) ! t = Some x)
           \<and> (\<exists>y. stop_price (htf_generate_signals cfg bars) ! t = Some y)"
  using assms by (simp_all add: htf_rows split: if_splits)

subsection \<open>Short series\<close>

lemma rolling_short:
  assumes "t < length xs" and "t + 1 < w"
  shows "rolling agg w xs ! t = None"
  using assms by (simp add: nth_rolling)

lemma shift_rolling_short:
  assumes "t < length xs" and "t < w"
  shows "shift 1 (rolling agg w xs) ! t = None"
proof (cases "t = 0")
  case True
  then show ?thesis using assms by (simp add: nth_shift)
next
  case False
  then have "rolling agg w xs ! (t - 1) = None"
    using assms by (intro rolling_short) auto
  then show ?thesis
    using False assms by (simp add: nth_shift)
qed

lemma donchian_short_series:
  assumes "length bars < donchian_min_bars cfg"
  shows "donchian_check_current_signal cfg bars = None"
proof (cases "bars = []")
  case True
  then show ?thesis by (simp add: donchian_check_current_signal_def)
next
  case False
  let ?t = "length bars - 1"
  have t: "?t < length bars" using False by simp
  have short: "?t < dc_entry_period cfg"
    using assms False by (cases bars) (simp_all add: donchian_min_bars_def)
  have "\<not> long_breakout bars (donchian_calculate_indicators cfg bars) ! ?t"
    using long_breakout_period [OF t, of cfg] short by auto
  moreover have "\<not> short_breakout bars (donchian_calculate_indicators cfg bars) ! ?t"
    using short_breakout_period [OF t, of cfg] short by auto
  ultimately have "signal (donchian_generate_signals cfg bars) ! ?t = 0"
    using t by (simp add: donchian_signal_nth)
  then show ?thesis
    by (simp add: donchian_check_current_signal_def Let_def)
qed

lemma ma101_generate_signals_valid:
  assumes "1 \<le> ma_fast_ema cfg" and "1 \<le> ma_slow_ema cfg" and "1 \<le> ma_stop_ma cfg"
  shows "\<exists>df. ma101_generate_signals cfg bars = Inr df"
  using assms by (simp add: ma101_generate_signals_def ma101_calculate_indicators_cases Let_def)

lemma ma101_sma_regime:
  assumes "ma101_calculate_indicators cfg bars = Inr i"
  shows "ma_sma_regime i = rolling_mean (ma_regime_ma cfg) (col close bars)"
  using assms by (auto simp: ma101_calculate_indicators_cases split: if_splits)

lemma swing_smas:
  assumes "swing_calculate_indicators cfg bars = Inr i"
  shows "sw_sma_50 i = rolling_mean (sw_ma_50 cfg) (col close bars)"
    and "sw_sma_200 i = rolling_mean (sw_ma_200 cfg) (col close bars)"
  using assms by (auto simp: swing_calculate_indicators_cases split: if_splits)

lemma ma101_short_series:
  assumes "1 \<le> ma_fast_ema cfg" and "1 \<le> ma_slow_ema cfg" and "1 \<le> ma_stop_ma cfg"
    and "length bars < ma101_min_bars cfg"
  shows "ma101_check_current_signal cfg bars = Inr None"
proof -
  obtain df where df: "ma101_generate_signals cfg bars = Inr df"
    using ma101_generate_signals_valid [OF assms(1-3)] by blast
  show ?thesis
  proof (cases "bars = []")
    case True
    then show ?thesis using df by (simp add: ma101_check_current_signal_def)
  next
    case False
    let ?t = "length bars - 1"
    have t: "?t < length bars" using False by simp
    note i = ma101_generate_signals_Inr [OF df]
    note len = ma101_ind_lengths [OF i]
    have "\<not> ma101_entry_signal bars (ind df) ! ?t"
    proof (cases "length bars < ma_regime_ma cfg")
      case True
      have "ma_sma_regime (ind df) = rolling_mean (ma_regime_ma cfg) (col close bars)"
        using i by (rule ma101_sma_regime)
      then have "ma_sma_regime (ind df) ! ?t = None"
        using True t by (simp add: rolling_mean_def rolling_short)
      then show ?thesis
        using t len by (simp add: ma101_entry_signal_def Let_def nth_mask_and nan_gt_def)
    next
      case False
      then have "?t = 0"
        using assms(4) by (simp add: ma101_min_bars_def)
      then have "shift 1 (ma_ema_fast (ind df)) ! ?t = None"
        using t len by (simp add: nth_shift)
      then show ?thesis
        using t len
        by (simp add: ma101_entry_signal_def Let_def nth_mask_and nth_cross_above nan_le_def nan_ge_def
            split: option.splits)
    qed
    then have "signal df ! ?t = 0"
      using ma101_rows(1) [OF df t] by simp
    then show ?thesis
      using df False by (simp add: ma101_check_current_signal_def Let_def)
  qed
qed

lemma dip_needs_history:
  assumes "t < length bars" and "dip bars (rolling_mean w (col close bars)) ! t"
  shows "w \<le> t"
proof (rule ccontr)
  assume "\<not> w \<le> t"
  then have "shift 1 (rolling_mean w (col close bars)) ! t = None"
    using assms(1) by (simp add: rolling_mean_def shift_rolling_short del: One_nat_def)
  then show False
    using assms by (simp add: nth_dip nan_gt_def split: option.splits del: One_nat_def)
qed

lemma cross_above_first:
  assumes "0 < length f" and "0 < length s"
  shows "\<not> cross_above f s ! 0"
  using assms by (simp add: nth_cross_above nth_shift nan_le_def nan_ge_def)

lemma swing_generate_signals_valid:
  assumes "1 \<le> sw_fast_ema cfg" and "1 \<le> sw_slow_ema cfg"
  shows "\<exists>df. swing_generate_signals cfg bars = Inr df"
  using assms by (simp add: swing_generate_signals_def swing_calculate_indicators_cases Let_def)

lemma dip_not_first:
  assumes "0 < length bars" and "length ma = length bars"
  shows "\<not> dip bars ma ! 0"
  using assms by (simp add: nth_dip nth_shift nan_gt_def)

lemma swing_short_series:
  assumes "1 \<le> sw_fast_ema cfg" and "1 \<le> sw_slow_ema cfg"
    and "length bars < 2
         \<or> (sw_entry_mode cfg = ''dip_50'' \<and> length bars \<le> sw_ma_50 cfg)
         \<or> (sw_entry_mode cfg = ''dip_200'' \<and> length bars \<le> sw_ma_200 cfg)"
  shows "swing_check_current_signal cfg bars = Inr None"
proof -
  obtain df where df: "swing_generate_signals cfg bars = Inr df"
    using swing_generate_signals_valid [OF assms(1,2)] by blast
  show ?thesis
  proof (cases "bars = []")
    case True
    then show ?thesis using df by (simp add: swing_check_current_signal_def)
  next
    case False
    let ?t = "length bars - 1"
    have t: "?t < length bars" using False by simp
    note i = swing_generate_signals_Inr [OF df]
    note len = swing_ind_lengths [OF i]
    note sma = swing_smas [OF i]
    have first: "?t = 0" if "sw_entry_mode cfg \<in> set [''crossover'', ''all'']"
      using that assms(3) by auto
    have c: "\<not> cross_above (sw_ema_fast (ind df)) (sw_ema_slow (ind df)) ! ?t"
      if "sw_entry_mode cfg \<in> set [''crossover'', ''all'']"
      using first [OF that] cross_above_first [of "sw_ema_fast (ind df)" "sw_ema_slow (ind df)"] len t
      by simp
    have d50: "\<not> dip bars (sw_sma_50 (ind df)) ! ?t"
      if m: "sw_entry_mode cfg \<in> set [''dip_50'', ''all'']"
    proof (cases "?t = 0")
      case True
      then show ?thesis
        using dip_not_first [of bars "sw_sma_50 (ind df)"] len t by simp
    next
      case False
      then have "?t < sw_ma_50 cfg"
        using m assms(3) t by auto
      then show ?thesis
        using dip_needs_history [OF t, of "sw_ma_50 cfg"] unfolding sma(1) by auto
    qed
    have d200: "\<not> dip bars (sw_sma_200 (ind df)) ! ?t"
      if m: "sw_entry_mode cfg \<in> set [''dip_200'', ''all'']"
    proof (cases "?t = 0")
      case True
      then show ?thesis
        using dip_not_first [of bars "sw_sma_200 (ind df)"] len t by simp
    next
      case False
      then have "?t < sw_ma_200 cfg"
        using m assms(3) t by auto
      then show ?thesis
        using dip_needs_history [OF t, of "sw_ma_200 cfg"] unfolding sma(2) by auto
    qed
    have "signal df ! ?t = 0"
      unfolding swing_rows(1) [OF df t] using c d50 d200 by auto
    then show ?thesis
      using df False by (simp add: swing_check_current_signal_def Let_def)
  qed
qed

lemma swing_dip_records:
  assumes "swing_check_current_signal cfg bars = Inr (Some r)"
  shows "rec_entry_type r = ''dip_50'' \<Longrightarrow> sw_ma_50 cfg < length bars"
    and "rec_entry_type r = ''dip_200'' \<Longrightarrow> sw_ma_200 cfg < length bars"
proof -
  from assms obtain df where df: "swing_generate_signals cfg bars = Inr df"
    by (auto simp: swing_check_current_signal_def split: sum.splits)
  from assms df have ne: "bars \<noteq> []"
    and ty: "rec_entry_type r = entry_type df ! (length bars - 1)"
    by (auto simp: swing_check_current_signal_def Let_def split: if_splits)
  let ?t = "length bars - 1"
  have t: "?t < length bars" using ne by simp
  note sma = swing_smas [OF swing_generate_signals_Inr [OF df]]
  show "sw_ma_50 cfg < length bars" if "rec_entry_type r = ''dip_50''"
  proof -
    have "dip bars (sw_sma_50 (ind df)) ! ?t"
      using that unfolding ty swing_rows(4) [OF df t] by (simp split: if_splits)
    then have "sw_ma_50 cfg \<le> ?t"
      unfolding sma(1) by (rule dip_needs_history [OF t])
    then show ?thesis using t by simp
  qed
  show "sw_ma_200 cfg < length bars" if "rec_entry_type r = ''dip_200''"
  proof -
    have "dip bars (sw_sma_200 (ind df)) ! ?t"
      using that unfolding ty swing_rows(4) [OF df t] by (simp split: if_splits)
    then have "sw_ma_200 cfg \<le> ?t"
      unfolding sma(2) by (rule dip_needs_history [OF t])
    then show ?thesis using t by simp
  qed
qed

lemma htf_ind_fields:
  "avg_dollar_volume (htf_calculate_indicators cfg bars) =
     rolling_mean (htf_volume_lookback cfg) (map2 nan_mul (col close bars) (col volume bars))"
  "sma_50 (htf_calculate_indicators cfg bars) = rolling_mean 50 (col close bars)"
  "high_20 (htf_calculate_indicators cfg bars) = rolling_max 20 (col high bars)"
  "pole_move (htf_calculate_indicators cfg bars) =
     map2 (\<lambda>c p. fsub (fdiv (of_opt c) (of_opt p)) (Fin 1)) (col close bars)
       (shift (htf_pole_lookback cfg) (col close bars))"
  by (simp_all add: htf_calculate_indicators_def Let_def)

lemma htf_short_series:
  assumes "length bars < htf_min_bars cfg"
  shows "htf_check_current_signal cfg bars = None"
proof (cases "bars = []")
  case True
  then show ?thesis by (simp add: htf_check_current_signal_def)
next
  case False
  let ?t = "length bars - 1"
  let ?i = "htf_calculate_indicators cfg bars"
  have t: "?t < length bars" using False by simp
  have n: "?t + 1 = length bars" using False by simp
  consider "length bars < htf_volume_lookback cfg" | "length bars < 50"
    | "length bars < htf_pole_lookback cfg + 1"
    using assms unfolding htf_min_bars_def by linarith
  then have "\<not> htf_signal cfg bars ?i ! ?t"
  proof cases
    case 1
    then have "avg_dollar_volume ?i ! ?t = None"
      using t n by (simp add: htf_ind_fields rolling_mean_def rolling_short del: One_nat_def)
    then show ?thesis
      using t by (simp add: nth_htf_signal nan_ge_def del: One_nat_def)
  next
    case 2
    then have "sma_50 ?i ! ?t = None"
      using t n by (simp add: htf_ind_fields rolling_mean_def rolling_short del: One_nat_def)
    then show ?thesis
      using t by (simp add: nth_htf_signal nan_gt_def del: One_nat_def)
  next
    case 3
    then have "?t < htf_pole_lookback cfg"
      using t by simp
    then have "pole_move ?i ! ?t = NaN"
      using t by (simp add: htf_ind_fields nth_shift of_opt_def fsub_def)
    then show ?thesis
      using t by (simp add: nth_htf_signal del: One_nat_def)
  qed
  then have "signal (htf_generate_signals cfg bars) ! ?t = 0"
    using t by (simp add: htf_rows)
  then show ?thesis
    by (simp add: htf_check_current_signal_def Let_def)
qed

subsection \<open>Independence of the dates\<close>

lemma length_with_dates [simp]:
  "length ds = length bars \<Longrightarrow> length (with_dates ds bars) = length bars"
  by (simp add: with_dates_def)

lemma map_with_dates:
  assumes "length ds = length bars" and "\<And>d b. f (b\<lparr>date := d\<rparr>) = f b"
  shows "map f (with_dates ds bars) = map f bars"
  using assms by (auto simp: with_dates_def intro!: nth_equalityI)

lemma col_with_dates:
  assumes "length ds = length bars"
  shows "col high (with_dates ds bars) = col high bars"
    and "col low (with_dates ds bars) = col low bars"
    and "col close (with_dates ds bars) = col close bars"
    and "col volume (with_dates ds bars) = col volume bars"
    and "map close (with_dates ds bars) = map close bars"
  using assms by (simp_all add: col_def map_with_dates)

lemma calculate_atr_with_dates:
  "length ds = length bars \<Longrightarrow> calculate_atr (with_dates ds bars) w = calculate_atr bars w"
  by (simp add: calculate_atr_def true_range_def true_range_cols_def col_with_dates)

lemma donchian_with_dates:
  assumes "length ds = length bars"
  shows "donchian_generate_signals cfg (with_dates ds bars) = donchian_generate_signals cfg bars"
  using assms
  by (simp add: donchian_generate_signals_def donchian_calculate_indicators_def donchian_long_def
      donchian_short_def long_breakout_def short_breakout_def long_stop_def short_stop_def
      calculate_atr_with_dates col_with_dates Let_def)

lemma ma101_with_dates:
  assumes "length ds = length bars"
  shows "ma101_generate_signals cfg (with_dates ds bars) = ma101_generate_signals cfg bars"
proof -
  have "ma101_calculate_indicators cfg (with_dates ds bars) = ma101_calculate_indicators cfg bars"
    using assms by (simp add: ma101_calculate_indicators_cases calculate_atr_with_dates col_with_dates)
  then show ?thesis
    using assms
    by (cases "ma101_calculate_indicators cfg bars")
      (simp_all add: ma101_generate_signals_def ma101_entry_signal_def col_with_dates Let_def)
qed

lemma swing_with_dates:
  assumes "length ds = length bars"
  shows "swing_generate_signals cfg (with_dates ds bars) = swing_generate_signals cfg bars"
proof -
  have "swing_calculate_indicators cfg (with_dates ds bars) = swing_calculate_indicators cfg bars"
    using assms by (simp add: swing_calculate_indicators_cases calculate_atr_with_dates col_with_dates)
  then show ?thesis
    using assms
    by (cases "swing_calculate_indicators cfg bars")
      (simp_all add: swing_generate_signals_def swing_crossover_def swing_dip_50_def
        swing_dip_200_def dip_def col_with_dates Let_def)
qed

lemma htf_with_dates:
  assumes "length ds = length bars"
  shows "htf_generate_signals cfg (with_dates ds bars) = htf_generate_signals cfg bars"
  using assms
  by (simp add: htf_generate_signals_def htf_calculate_indicators_def htf_signal_def
      liquidity_ok_def above_50ma_def strong_pole_def near_highs_def tight_def breakout_def
      volume_confirmation_def col_with_dates Let_def)

subsection \<open>Column lookups of the Donchian indicators\<close>

lemma map_of_drop:
  "map_of (filter (\<lambda>kv. fst kv \<noteq> k) xs) name = (if name = k then None else map_of xs name)"
  by (induction xs) auto

lemma getitem_drop_column:
  "getitem (drop_column k df) name = (if name = k then Inl (KeyError k) else getitem df name)"
  by (simp add: getitem_def drop_column_def map_of_drop)

lemma getitem_frame_of:
  "getitem (frame_of bars) ''high'' = Inr (col high bars)"
  "getitem (frame_of bars) ''low'' = Inr (col low bars)"
  "getitem (frame_of bars) ''close'' = Inr (col close bars)"
  by (simp_all add: getitem_def frame_of_def col_def)

lemma donchian_frame_complete:
  "donchian_calculate_indicators_frame cfg (frame_of bars) = Inr (donchian_calculate_indicators cfg bars)"
  by (simp add: donchian_calculate_indicators_frame_def calculate_atr_frame_def getitem_frame_of
      donchian_calculate_indicators_def calculate_atr_def true_range_def Let_def)

lemma donchian_frame_missing:
  "donchian_calculate_indicators_frame cfg (drop_column ''high'' (frame_of bars)) = Inl (KeyError ''high'')"
  "donchian_calculate_indicators_frame cfg (drop_column ''low'' (frame_of bars)) = Inl (KeyError ''low'')"
  "donchian_calculate_indicators_frame cfg (drop_column ''close'' (frame_of bars)) = Inl (KeyError ''close'')"
  by (simp_all add: donchian_calculate_indicators_frame_def calculate_atr_frame_def
      getitem_drop_column getitem_frame_of Let_def)

lemma donchian_frame_unread:
  "donchian_calculate_indicators_frame cfg (drop_column ''open'' (frame_of bars))
     = Inr (donchian_calculate_indicators cfg bars)"
  "donchian_calculate_indicators_frame cfg (drop_column ''volume'' (frame_of bars))
     = Inr (donchian_calculate_indicators cfg bars)"
  by (simp_all add: donchian_calculate_indicators_frame_def calculate_atr_frame_def
      getitem_drop_column getitem_frame_of
      donchian_calculate_indicators_def calculate_atr_def true_range_def Let_def)

subsection \<open>Risk per share of a record\<close>

lemma donchian_record_risk:
  assumes "donchian_check_current_signal cfg bars = Some r"
  shows "rec_risk_per_share r = nan_abs (nan_sub (rec_entry_price r) (rec_stop_price r))"
  using assms by (auto simp: donchian_check_current_signal_def Let_def split: if_splits)

lemma ma101_record_risk:
  assumes "ma101_check_current_signal cfg bars = Inr (Some r)"
  shows "rec_risk_per_share r = nan_sub (rec_entry_price r) (rec_stop_price r)"
  using assms
  by (auto simp: ma101_check_current_signal_def Let_def split: sum.splits if_splits)

lemma swing_record_risk:
  assumes "swing_check_current_signal cfg bars = Inr (Some r)"
  shows "rec_risk_per_share r = nan_sub (rec_entry_price r) (rec_stop_price r)"
  using assms
  by (auto simp: swing_check_current_signal_def Let_def split: sum.splits if_splits)

lemma htf_record_risk:
  assumes "htf_check_current_signal cfg bars = Some r"
  shows "rec_risk_per_share r = nan_sub (rec_entry_price r) (rec_stop_price r)"
  using assms by (auto simp: htf_check_current_signal_def Let_def split: if_splits)

subsection \<open>The EMA recurrence and the stop of MA101\<close>

text \<open>
  At a crossover the fast EMA was at or below the slow EMA on the previous bar and is
  above it now. With a smaller span for the fast EMA this forces the close above the
  previous fast EMA, so the fast EMA stays at or below the close.
\<close>

lemma ewm_from_nth:
  assumes "t < length xs"
  shows "ewm_from a y xs ! t =
           (1 - a) * (if t = 0 then y else ewm_from a y xs ! (t - 1)) + a * xs ! t"
  using assms
proof (induction xs arbitrary: y t)
  case Nil
  then show ?case by simp
next
  case (Cons x xs)
  show ?case
  proof (cases t)
    case 0
    then show ?thesis by simp
  next
    case (Suc k)
    then have "k < length xs" using Cons.prems by simp
    from Cons.IH [OF this, of "(1 - a) * y + a * x"] show ?thesis
      using Suc by (cases k) simp_all
  qed
qed

lemma ewm_mean_Suc:
  assumes "Suc t < length xs"
  shows "ewm_mean p xs ! Suc t =
           (1 - 2 / (real p + 1)) * ewm_mean p xs ! t + 2 / (real p + 1) * xs ! Suc t"
proof (cases xs)
  case Nil
  then show ?thesis using assms by simp
next
  case (Cons x xs')
  then have "t < length xs'" using assms by simp
  from ewm_from_nth [OF this, of "2 / (real p + 1)" x] show ?thesis
    using Cons by (cases t) (simp_all add: ewm_mean_def)
qed

lemma cross_above_close_above_fast:
  fixes a b c f s :: real
  assumes "b < a" and "a \<le> 1" and "0 < b"
    and "f \<le> s" and "(1 - b) * s + b * c < (1 - a) * f + a * c"
  shows "(1 - a) * f + a * c \<le> c"
proof -
  have "(1 - b) * f \<le> (1 - b) * s"
    using assms by (intro mult_left_mono) simp_all
  then have "(1 - b) * f + b * c < (1 - a) * f + a * c"
    using assms(5) by linarith
  then have "0 < (a - b) * (c - f)"
    by (simp add: algebra_simps)
  then have "f < c"
    using assms(1) by (simp add: zero_less_mult_iff)
  then have "0 \<le> (1 - a) * (c - f)"
    using assms(2) by simp
  then show ?thesis
    by (simp add: algebra_simps)
qed

lemma ma101_emas:
  assumes "ma101_calculate_indicators cfg bars = Inr i"
  shows "ma_ema_fast i = map Some (ewm_mean (ma_fast_ema cfg) (map close bars))"
    and "ma_ema_slow i = map Some (ewm_mean (ma_slow_ema cfg) (map close bars))"
    and "ma_ema_stop i = map Some (ewm_mean (ma_stop_ma cfg) (map close bars))"
  using assms by (auto simp: ma101_calculate_indicators_cases split: if_splits)

lemma ma101_default_risk_nonneg:
  assumes "ma101_check_current_signal cfg bars = Inr (Some r)"
    and "ma_stop_ma cfg = ma_fast_ema cfg" and "1 \<le> ma_fast_ema cfg"
    and "ma_fast_ema cfg < ma_slow_ema cfg"
  shows "\<exists>e s. rec_entry_price r = Some e \<and> rec_stop_price r = Some s \<and> s \<le> e
           \<and> rec_risk_per_share r = Some \<bar>e - s\<bar>"
proof -
  from assms(1) obtain df where df: "ma101_generate_signals cfg bars = Inr df"
    by (auto simp: ma101_check_current_signal_def split: sum.splits)
  define t where "t = length bars - 1"
  let ?cl = "map close bars"
  let ?F = "ewm_mean (ma_fast_ema cfg) ?cl"
  let ?S = "ewm_mean (ma_slow_ema cfg) ?cl"
  from assms(1) df have ne: "bars \<noteq> []" and sig: "signal df ! t = 1"
    and e: "rec_entry_price r = entry_price df ! t" and s: "rec_stop_price r = stop_price df ! t"
    and k: "rec_risk_per_share r = nan_sub (entry_price df ! t) (stop_price df ! t)"
    by (auto simp: ma101_check_current_signal_def Let_def t_def split: if_splits)
  have t: "t < length bars" using ne by (simp add: t_def)
  note i = ma101_generate_signals_Inr [OF df]
  note len = ma101_ind_lengths [OF i]
  have m: "ma101_entry_signal bars (ind df) ! t"
    using sig unfolding ma101_rows(1) [OF df t] by (simp split: if_splits)
  have fast: "ma_ema_fast (ind df) = map Some ?F" and slow: "ma_ema_slow (ind df) = map Some ?S"
    and stop: "ma_ema_stop (ind df) = map Some ?F"
    using ma101_emas [OF i] assms(2) by simp_all
  have cross: "cross_above (map Some ?F) (map Some ?S) ! t"
    using m t len by (simp add: ma101_entry_signal_def Let_def nth_mask_and fast slow)
  then have c1: "nan_le (shift 1 (map Some ?F) ! t) (shift 1 (map Some ?S) ! t)"
    and c2: "?S ! t < ?F ! t"
    using t by (simp_all add: nth_cross_above nan_gt_def del: One_nat_def)
  have pos: "t \<noteq> 0"
    using c1 t by (auto simp: nth_shift nan_le_def nan_ge_def split: if_splits)
  then obtain j where j: "t = Suc j"
    by (cases t) simp_all
  have prev: "?F ! j \<le> ?S ! j"
    using c1 t unfolding j by (simp add: nth_shift nan_le_def nan_ge_def)
  have tl: "Suc j < length ?cl"
    using t j by simp
  have F: "?F ! t = (1 - 2 / (real (ma_fast_ema cfg) + 1)) * ?F ! j
                     + 2 / (real (ma_fast_ema cfg) + 1) * close (bars ! t)"
    using ewm_mean_Suc [OF tl, of "ma_fast_ema cfg"] t unfolding j by simp
  have S: "?S ! t = (1 - 2 / (real (ma_slow_ema cfg) + 1)) * ?S ! j
                     + 2 / (real (ma_slow_ema cfg) + 1) * close (bars ! t)"
    using ewm_mean_Suc [OF tl, of "ma_slow_ema cfg"] t unfolding j by simp
  have ab: "2 / (real (ma_slow_ema cfg) + 1) < 2 / (real (ma_fast_ema cfg) + 1)"
    using assms(4) by (simp add: frac_less2)
  have a1: "2 / (real (ma_fast_ema cfg) + 1) \<le> 1"
    using assms(3) by simp
  have b0: "0 < 2 / (real (ma_slow_ema cfg) + 1)"
    by simp
  have "?F ! t \<le> close (bars ! t)"
    unfolding F by (rule cross_above_close_above_fast [OF ab a1 b0 prev]) (use c2 in \<open>simp add: F S\<close>)
  moreover have "entry_price df ! t = Some (close (bars ! t))"
    using m by (simp add: ma101_rows(2) [OF df t])
  moreover have "stop_price df ! t = Some (?F ! t)"
    using m t by (simp add: ma101_rows(3) [OF df t] stop)
  ultimately show ?thesis
    unfolding e s k by (simp add: nan_sub_def nan_op_def)
qed

subsection \<open>Rounding to a double\<close>

text \<open>Powers of two, and the binary exponent of a positive real.\<close>

lemma pow2_pos [simp]: "0 < pow2 n"
  by (simp add: pow2_def zero_less_power_int)

lemma pow2_add: "pow2 (m + n) = pow2 m * pow2 n"
  by (simp add: pow2_def power_int_add)

lemma pow2_mono: "m \<le> n \<Longrightarrow> pow2 m \<le> pow2 n"
  by (simp add: pow2_def power_int_increasing)

lemma pow2_strict_mono: "m < n \<Longrightarrow> pow2 m < pow2 n"
  by (simp add: pow2_def power_int_strict_increasing)

lemma pow2_less_iff [simp]: "pow2 m < pow2 n \<longleftrightarrow> m < n"
  using pow2_strict_mono [of m n] pow2_mono [of n m] by (cases "m < n") auto

lemma pow2_le_iff [simp]: "pow2 m \<le> pow2 n \<longleftrightarrow> m \<le> n"
  by (metis not_less pow2_less_iff)

lemma pow2_nonzero [simp]: "pow2 n \<noteq> 0"
  using pow2_pos [of n] by linarith

lemma abs_pow2 [simp]: "\<bar>pow2 n\<bar> = pow2 n"
  using pow2_pos [of n] by linarith

lemma pow2_nat: "0 \<le> n \<Longrightarrow> pow2 n = of_int (2 ^ nat n)"
  by (simp add: pow2_def power_int_def)

lemma pow2_neg: "0 \<le> n \<Longrightarrow> pow2 (- n) = 1 / of_int (2 ^ nat n)"
  by (cases "n = 0") (simp_all add: pow2_def power_int_def field_simps)

lemma bitlen_pos:
  assumes "0 < (n::int)"
  shows "1 \<le> bitlen n"
proof (rule ccontr)
  assume "\<not> 1 \<le> bitlen n"
  then have "nat (bitlen n) = 0" by simp
  then have "n < 1" using bitlen_bounds [OF assms] by simp
  then show False using assms by simp
qed

lemma ilog2_bounds:
  assumes "0 < a"
  shows "pow2 (ilog2 a) \<le> a" and "a < pow2 (ilog2 a + 1)"
proof -
  have "pow2 (ilog2 a) \<le> a \<and> a < pow2 (ilog2 a + 1)"
  proof (cases "1 \<le> a")
    case True
    define n where "n = \<lfloor>a\<rfloor>"
    have n: "0 < n" "of_int n \<le> a" "a < of_int n + 1"
      using True by (simp_all add: n_def)
    have k: "1 \<le> bitlen n" using n(1) by (rule bitlen_pos)
    have e: "ilog2 a = bitlen n - 1" using True by (simp add: ilog2_def n_def)
    have b: "2 ^ nat (bitlen n - 1) \<le> n" "n < 2 ^ nat (bitlen n)"
      using bitlen_bounds [OF n(1)] by simp_all
    have "pow2 (bitlen n - 1) = of_int (2 ^ nat (bitlen n - 1))"
      using k by (simp add: pow2_nat)
    also have "\<dots> \<le> of_int n" using b(1) by (simp only: of_int_le_iff)
    finally have lo: "pow2 (bitlen n - 1) \<le> a" using n(2) by linarith
    have "n + 1 \<le> 2 ^ nat (bitlen n)" using b(2) by simp
    then have "(of_int (n + 1) :: real) \<le> of_int (2 ^ nat (bitlen n))"
      by (simp only: of_int_le_iff)
    also have "\<dots> = pow2 (bitlen n)" using k by (simp add: pow2_nat)
    finally have hi: "a < pow2 (bitlen n)" using n(3) by simp
    show ?thesis using lo hi e by simp
  next
    case False
    define y where "y = 1 / a"
    define m where "m = \<lceil>y\<rceil> - 1"
    have y: "1 < y" using False assms by (simp add: y_def)
    have m: "0 < m" "of_int m < y" "y \<le> of_int m + 1"
      using y by (simp_all add: m_def) linarith+
    have k: "1 \<le> bitlen m" using m(1) by (rule bitlen_pos)
    have e: "ilog2 a = - bitlen m" using False by (simp add: ilog2_def m_def y_def)
    have b: "2 ^ nat (bitlen m - 1) \<le> m" "m < 2 ^ nat (bitlen m)"
      using bitlen_bounds [OF m(1)] by simp_all
    have "m + 1 \<le> 2 ^ nat (bitlen m)" using b(2) by simp
    then have "(of_int (m + 1) :: real) \<le> of_int (2 ^ nat (bitlen m))"
      by (simp only: of_int_le_iff)
    then have "of_int m + 1 \<le> (of_int (2 ^ nat (bitlen m)) :: real)" by simp
    then have "y \<le> of_int (2 ^ nat (bitlen m))" using m(3) by linarith
    then have "1 / of_int (2 ^ nat (bitlen m)) \<le> a"
      using assms y by (simp add: y_def field_simps)
    then have lo: "pow2 (- bitlen m) \<le> a"
      using k by (simp add: pow2_neg)
    have "(of_int (2 ^ nat (bitlen m - 1)) :: real) \<le> of_int m"
      using b(1) by (simp only: of_int_le_iff)
    then have "of_int (2 ^ nat (bitlen m - 1)) < y" using m(2) by linarith
    then have "a < 1 / of_int (2 ^ nat (bitlen m - 1))"
      using assms y by (simp add: y_def field_simps)
    moreover have "pow2 (- bitlen m + 1) = 1 / of_int (2 ^ nat (bitlen m - 1))"
      using pow2_neg [of "bitlen m - 1"] k by simp
    ultimately have hi: "a < pow2 (- bitlen m + 1)" by simp
    show ?thesis using lo hi e by simp
  qed
  then show "pow2 (ilog2 a) \<le> a" and "a < pow2 (ilog2 a + 1)" by simp_all
qed

lemma ilog2_unique:
  assumes "pow2 e \<le> a" and "a < pow2 (e + 1)"
  shows "ilog2 a = e"
proof -
  have a: "0 < a" using assms(1) pow2_pos [of e] by linarith
  note b = ilog2_bounds [OF a]
  have "pow2 e < pow2 (ilog2 a + 1)" using assms(1) b(2) by linarith
  moreover have "pow2 (ilog2 a) < pow2 (e + 1)" using assms(2) b(1) by linarith
  ultimately show ?thesis by simp
qed

lemma ilog2_mono:
  assumes "0 < a" and "a \<le> b"
  shows "ilog2 a \<le> ilog2 b"
proof -
  have "0 < b" using assms by simp
  then have "pow2 (ilog2 a) < pow2 (ilog2 b + 1)"
    using ilog2_bounds(1) [OF assms(1)] ilog2_bounds(2) [of b] assms(2) by linarith
  then show ?thesis by simp
qed

lemma round_half_even_of_int [simp]: "round_half_even (of_int k) = k"
  by (simp add: round_half_even_def)

lemma round_half_even_ge:
  assumes "of_int k \<le> m"
  shows "k \<le> round_half_even m"
proof -
  have "k \<le> \<lfloor>m\<rfloor>" using assms by (simp add: le_floor_iff)
  then show ?thesis by (simp add: round_half_even_def Let_def)
qed

lemma round_half_even_le:
  assumes "m \<le> of_int k"
  shows "round_half_even m \<le> k"
proof (cases "m = of_int k")
  case True
  then show ?thesis by simp
next
  case False
  then have "m < of_int k" using assms by simp
  then have "\<lfloor>m\<rfloor> < k" by (simp add: floor_less_iff)
  then show ?thesis by (simp add: round_half_even_def Let_def)
qed

lemma round_half_even_abs_le:
  assumes "\<bar>m\<bar> \<le> of_int k"
  shows "\<bar>round_half_even m\<bar> \<le> k"
proof -
  have "m \<le> of_int k" "of_int (- k) \<le> m" using assms by simp_all
  then have "round_half_even m \<le> k" "- k \<le> round_half_even m"
    by (auto intro: round_half_even_le round_half_even_ge)
  then show ?thesis by simp
qed

lemma round_double_unfold:
  fixes x :: real
  defines "e \<equiv> max (ilog2 \<bar>x\<bar>) (- 1022)"
  defines "u \<equiv> pow2 (e - 52)"
  defines "y \<equiv> of_int (round_half_even (x / u)) * u"
  shows "round_double x = (if pow2 1024 \<le> \<bar>y\<bar> then (if 0 < x then PInf else NInf) else Fin y)"
  by (simp add: round_double_def Let_def e_def u_def y_def)

lemma round_half_even_zero [simp]: "round_half_even 0 = 0"
  by (simp add: round_half_even_def)

lemma round_double_zero [simp]: "round_double 0 = Fin 0"
  by (simp add: round_double_def Let_def not_le)

lemma abs_below_next_binade:
  "\<bar>x\<bar> < pow2 (max (ilog2 \<bar>x\<bar>) (- 1022) + 1)"
proof (cases "x = 0")
  case True
  then show ?thesis by simp
next
  case False
  then have "\<bar>x\<bar> < pow2 (ilog2 \<bar>x\<bar> + 1)"
    by (intro ilog2_bounds) simp
  also have "\<dots> \<le> pow2 (max (ilog2 \<bar>x\<bar>) (- 1022) + 1)"
    by simp
  finally show ?thesis .
qed

lemma round_double_nonneg:
  assumes "0 \<le> x"
  shows "round_double x = PInf \<or> (\<exists>y. round_double x = Fin y \<and> 0 \<le> y)"
proof -
  define u where "u = pow2 (max (ilog2 \<bar>x\<bar>) (- 1022) - 52)"
  have u: "0 < u" by (simp add: u_def)
  have "of_int 0 \<le> x / u" using assms u by simp
  then have "0 \<le> round_half_even (x / u)"
    by (rule round_half_even_ge)
  then have y: "0 \<le> of_int (round_half_even (x / u)) * u" using u by simp
  show ?thesis
  proof (cases "x = 0")
    case True
    then show ?thesis by simp
  next
    case False
    then have "0 < x" using assms by simp
    then show ?thesis
      using y unfolding round_double_unfold u_def by auto
  qed
qed

lemma is_double_grid:
  assumes "is_double x"
  shows "\<exists>k::int. x = of_int k * pow2 (- 1074)"
proof -
  define e where "e = max (ilog2 \<bar>x\<bar>) (- 1022)"
  define r where "r = round_half_even (x / pow2 (e - 52))"
  have x: "x = of_int r * pow2 (e - 52)"
    using assms unfolding is_double_def round_double_unfold e_def r_def
    by (simp split: if_splits)
  have e: "- 1022 \<le> e" by (simp add: e_def)
  have "pow2 (e - 52) = pow2 (e + 1022) * pow2 (- 1074)"
    using pow2_add [of "e + 1022" "- 1074"] by simp
  also have "pow2 (e + 1022) = of_int (2 ^ nat (e + 1022))"
    using e by (simp add: pow2_nat)
  finally have "x = of_int (r * 2 ^ nat (e + 1022)) * pow2 (- 1074)"
    using x by simp
  then show ?thesis ..
qed

lemma round_double_nonzero:
  assumes "x = of_int k * pow2 (- 1074)" and "k \<noteq> 0"
  shows "round_double x \<noteq> Fin 0"
proof -
  define e where "e = max (ilog2 \<bar>x\<bar>) (- 1022)"
  define u where "u = pow2 (e - 52)"
  have u: "0 < u" by (simp add: u_def)
  have x0: "x \<noteq> 0" using assms by simp
  have big: "1 \<le> \<bar>x\<bar> / u"
  proof (cases "ilog2 \<bar>x\<bar> \<le> - 1022")
    case True
    then have "u = pow2 (- 1074)" by (simp add: u_def e_def max_def)
    then have "\<bar>x\<bar> / u = \<bar>of_int k\<bar>"
      using assms(1) by (simp add: abs_mult)
    then show ?thesis using assms(2) by simp
  next
    case False
    then have "e = ilog2 \<bar>x\<bar>" by (simp add: e_def max_def)
    then have "pow2 e \<le> \<bar>x\<bar>"
      using ilog2_bounds(1) [of "\<bar>x\<bar>"] x0 by simp
    moreover have "u \<le> pow2 e"
      unfolding u_def by simp
    ultimately show ?thesis using u by simp
  qed
  have "round_half_even (x / u) \<noteq> 0"
  proof (cases "0 < x")
    case True
    then have "of_int 1 \<le> x / u" using big by simp
    then have "1 \<le> round_half_even (x / u)" by (rule round_half_even_ge)
    then show ?thesis by simp
  next
    case False
    then have "x / u \<le> of_int (- 1)" using big x0 u by (simp add: field_simps)
    then have "round_half_even (x / u) \<le> - 1" by (rule round_half_even_le)
    then show ?thesis by simp
  qed
  then have "of_int (round_half_even (x / u)) * u \<noteq> 0" using u by simp
  then show ?thesis
    unfolding round_double_unfold u_def e_def by simp
qed

lemma is_double_bound:
  assumes "is_double z"
  shows "\<bar>z\<bar> < pow2 1024"
  using assms unfolding is_double_def round_double_unfold by (simp split: if_splits)

lemma round_double_finite:
  assumes "is_double z" and "\<bar>x\<bar> \<le> z"
  shows "\<exists>y. round_double x = Fin y"
proof (cases "x = 0")
  case True
  then show ?thesis by simp
next
  case False
  define ex where "ex = max (ilog2 \<bar>x\<bar>) (- 1022)"
  define ez where "ez = max (ilog2 \<bar>z\<bar>) (- 1022)"
  define u where "u = pow2 (ex - 52)"
  define r where "r = round_half_even (x / u)"
  have u: "0 < u" by (simp add: u_def)
  have z: "0 < z" "\<bar>z\<bar> = z" using False assms(2) by simp_all
  have zb: "z < pow2 1024" using is_double_bound [OF assms(1)] z by simp
  have "pow2 (ilog2 z) \<le> z" using z by (intro ilog2_bounds) simp
  then have "pow2 (ilog2 z) < pow2 1024" using zb by linarith
  then have "ilog2 z < 1024" by simp
  then have ez: "ez \<le> 1023" using z by (simp add: ez_def)
  have le: "ex \<le> ez"
    using ilog2_mono [of "\<bar>x\<bar>" z] False assms(2) z by (simp add: ex_def ez_def)
  have "\<bar>of_int r * u\<bar> < pow2 1024"
  proof (cases "ex = ez")
    case True
    define rz where "rz = round_half_even (z / u)"
    have zr: "z = of_int rz * u"
      using assms(1) True unfolding is_double_def round_double_unfold rz_def u_def ex_def ez_def
      by (simp split: if_splits)
    then have q: "z / u = of_int rz" using u by simp
    have "\<bar>x / u\<bar> \<le> of_int rz"
      using assms(2) u q by (simp add: field_simps)
    then have "\<bar>r\<bar> \<le> rz"
      unfolding r_def by (rule round_half_even_abs_le)
    then have "\<bar>of_int r :: real\<bar> \<le> of_int rz" by linarith
    then have "\<bar>of_int r * u\<bar> \<le> of_int rz * u"
      using u by (simp add: abs_mult)
    then show ?thesis using zr zb by simp
  next
    case False
    then have lt: "ex + 1 \<le> ez" using le by simp
    have "pow2 (ex + 1) = pow2 (53 + (ex - 52))" by (simp add: algebra_simps)
    also have "\<dots> = pow2 53 * u" unfolding u_def by (rule pow2_add)
    also have "pow2 53 = of_int (2 ^ 53)" by (simp add: pow2_nat)
    finally have p: "pow2 (ex + 1) = of_int (2 ^ 53) * u" .
    have "\<bar>x\<bar> < pow2 (ex + 1)"
      unfolding ex_def by (rule abs_below_next_binade)
    then have "\<bar>x / u\<bar> \<le> of_int (2 ^ 53)"
      using u unfolding p by (simp add: field_simps)
    then have "\<bar>r\<bar> \<le> 2 ^ 53"
      unfolding r_def by (rule round_half_even_abs_le)
    then have "\<bar>of_int r :: real\<bar> \<le> of_int (2 ^ 53)" by linarith
    then have "\<bar>of_int r * u\<bar> \<le> of_int (2 ^ 53) * u"
      using u by (simp add: abs_mult)
    also have "\<dots> = pow2 (ex + 1)"
      using p by simp
    also have "\<dots> \<le> pow2 1023"
      using lt ez by simp
    also have "\<dots> < pow2 1024"
      by simp
    finally show ?thesis .
  qed
  then show ?thesis
    unfolding round_double_unfold r_def u_def ex_def by simp
qed

text \<open>
  Evaluating a rounding: from the binade of the argument; beyond the largest double; and
  at a number of at most 53 bits times a power of two, which is a double.
\<close>

lemma round_double_eqI:
  assumes "- 1022 \<le> e" and "pow2 e \<le> \<bar>x\<bar>" and "\<bar>x\<bar> < pow2 (e + 1)"
    and "round_half_even (x / pow2 (e - 52)) = k"
    and "\<bar>of_int k * pow2 (e - 52)\<bar> < pow2 1024"
  shows "round_double x = Fin (of_int k * pow2 (e - 52))"
proof -
  have "ilog2 \<bar>x\<bar> = e" using assms(2,3) by (rule ilog2_unique)
  then have "max (ilog2 \<bar>x\<bar>) (- 1022) = e" using assms(1) by simp
  then show ?thesis
    using assms(4,5) unfolding round_double_unfold by simp
qed

lemma round_double_overflow:
  assumes "pow2 1024 \<le> x"
  shows "round_double x = PInf"
proof -
  define e where "e = max (ilog2 \<bar>x\<bar>) (- 1022)"
  define u where "u = pow2 (e - 52)"
  have x: "0 < x" using assms pow2_pos [of 1024] by linarith
  have u: "0 < u" by (simp add: u_def)
  have "pow2 1024 < pow2 (ilog2 x + 1)"
    using ilog2_bounds(2) [OF x] assms by linarith
  then have e: "e = ilog2 x" "1024 \<le> e" using x by (simp_all add: e_def)
  have "pow2 e = pow2 (52 + (e - 52))" by simp
  also have "\<dots> = pow2 52 * u" unfolding u_def by (rule pow2_add)
  also have "pow2 52 = of_int (2 ^ 52)" by (simp add: pow2_nat)
  finally have p: "pow2 e = of_int (2 ^ 52) * u" .
  have "pow2 e \<le> x" using ilog2_bounds(1) [OF x] e by simp
  then have "of_int (2 ^ 52) \<le> x / u" using u unfolding p by (simp add: field_simps)
  then have "2 ^ 52 \<le> round_half_even (x / u)" by (rule round_half_even_ge)
  then have "(of_int (2 ^ 52) :: real) \<le> of_int (round_half_even (x / u))"
    by (simp only: of_int_le_iff)
  then have "pow2 e \<le> of_int (round_half_even (x / u)) * u"
    using u unfolding p by simp
  moreover have "pow2 1024 \<le> pow2 e" using e by simp
  ultimately have "pow2 1024 \<le> \<bar>of_int (round_half_even (x / u)) * u\<bar>" by linarith
  then show ?thesis
    using x unfolding round_double_unfold u_def e_def by simp
qed

lemma is_double_scaled:
  assumes "\<bar>k\<bar> < 2 ^ 53" and "- 1074 \<le> q" and "q \<le> 971"
  shows "is_double (of_int k * pow2 q)"
proof (cases "k = 0")
  case True
  then show ?thesis by (simp add: is_double_def)
next
  case False
  define x where "x = of_int k * pow2 q"
  define e where "e = max (ilog2 \<bar>x\<bar>) (- 1022)"
  define u where "u = pow2 (e - 52)"
  have x0: "0 < \<bar>x\<bar>" using False by (simp add: x_def)
  have k: "\<bar>of_int k :: real\<bar> < of_int (2 ^ 53)" using assms(1) by linarith
  have "\<bar>x\<bar> = \<bar>of_int k\<bar> * pow2 q" by (simp add: x_def abs_mult)
  also have "\<dots> < of_int (2 ^ 53) * pow2 q" using k by simp
  also have "\<dots> = pow2 (53 + q)" using pow2_add [of 53 q] by (simp add: pow2_nat)
  finally have xb: "\<bar>x\<bar> < pow2 (53 + q)" .
  have "pow2 (ilog2 \<bar>x\<bar>) < pow2 (53 + q)"
    using ilog2_bounds(1) [OF x0] xb by linarith
  then have "ilog2 \<bar>x\<bar> \<le> 52 + q" by simp
  then have le: "e - 52 \<le> q" using assms(2) by (simp add: e_def)
  define j where "j = k * 2 ^ nat (q - (e - 52))"
  have "pow2 q = pow2 ((q - (e - 52)) + (e - 52))" by simp
  also have "\<dots> = pow2 (q - (e - 52)) * u" unfolding u_def by (rule pow2_add)
  also have "pow2 (q - (e - 52)) = of_int (2 ^ nat (q - (e - 52)))"
    using le by (simp add: pow2_nat)
  finally have "x = of_int j * u" by (simp add: x_def j_def)
  then have r: "of_int (round_half_even (x / u)) * u = x" by (simp add: u_def)
  have "pow2 (53 + q) \<le> pow2 1024" using assms(3) by simp
  then have "\<bar>x\<bar> < pow2 1024" using xb by linarith
  then show ?thesis
    using r unfolding is_double_def round_double_unfold x_def [symmetric] u_def e_def by simp
qed

lemma is_double_dyadic:
  assumes "\<bar>k\<bar> < 2 ^ 53" and "n \<le> 1074"
  shows "is_double (of_int k / 2 ^ n)"
proof -
  have "is_double (of_int k * pow2 (- int n))"
    using assms by (intro is_double_scaled) simp_all
  moreover have "pow2 (- int n) = 1 / 2 ^ n"
    using pow2_neg [of "int n"] by simp
  ultimately show ?thesis by simp
qed

lemma is_double_int:
  assumes "\<bar>k\<bar> < 2 ^ 53"
  shows "is_double (of_int k)"
  using is_double_dyadic [OF assms, of 0] by simp

subsection \<open>Position sizing on doubles\<close>

lemma round_double_nonneg_fval: "0 \<le> x \<Longrightarrow> nonneg_fval (round_double x)"
  using round_double_nonneg [of x] by (auto simp: nonneg_fval_def)

lemma float_mul_nonneg:
  assumes "0 \<le> x" and "0 \<le> y"
  shows "nonneg_fval (float_mul (Fin x) (Fin y))"
  using assms by (simp add: float_mul_def round_fval_def round_double_nonneg_fval)

lemma float_div_nonneg:
  assumes "nonneg_fval a" and "0 < d"
  shows "nonneg_fval (float_div a (Fin d))"
  using assms
  by (cases a) (simp_all add: float_div_def round_fval_def nonneg_fval_def round_double_nonneg_fval [unfolded nonneg_fval_def])

lemma py_int_nonneg:
  assumes "nonneg_fval v"
  shows "py_int v = (case v of Fin x \<Rightarrow> Inr \<lfloor>x\<rfloor> | _ \<Rightarrow> Inl OverflowError)"
  using assms by (cases v) (simp_all add: nonneg_fval_def)

lemma float_sub_doubles:
  assumes "is_double a" and "is_double b" and "0 \<le> a" and "0 \<le> b"
  shows "\<exists>d. float_sub (Fin a) (Fin b) = Fin d \<and> (d = 0 \<longleftrightarrow> a = b)"
proof -
  have "is_double (max a b)" "\<bar>a - b\<bar> \<le> max a b"
    using assms by (auto simp: max_def)
  then obtain d where d: "round_double (a - b) = Fin d"
    using round_double_finite by blast
  obtain i j :: int where ij: "a = of_int i * pow2 (- 1074)" "b = of_int j * pow2 (- 1074)"
    using assms(1,2) is_double_grid by blast
  have "d \<noteq> 0" if "a \<noteq> b"
  proof -
    have "a - b = of_int (i - j) * pow2 (- 1074)" "i - j \<noteq> 0"
      using ij that by (auto simp: algebra_simps)
    then have "round_double (a - b) \<noteq> Fin 0" by (rule round_double_nonzero)
    then show ?thesis using d by simp
  qed
  moreover have "d = 0" if "a = b"
    using that d by simp
  ultimately show ?thesis
    using d by (auto simp: float_sub_def fsub_def round_fval_def)
qed

text \<open>The default percentages, and the operations on the example prices.\<close>

lemma round_double_fixed: "is_double x \<Longrightarrow> round_double x = Fin x"
  by (simp add: is_double_def)

lemma default_pcts:
  "round_double (1 / 100) = Fin default_risk_pct"
  "round_double (2 / 100) = Fin default_max_position_pct"
  using round_double_eqI [of "- 7" "1 / 100" 5764607523034235]
    round_double_eqI [of "- 6" "2 / 100" 5764607523034235]
  by (simp_all add: pow2_def round_half_even_def default_risk_pct_def default_max_position_pct_def)

lemma default_pcts_double:
  "is_double default_risk_pct" "is_double default_max_position_pct"
  "0 \<le> default_risk_pct" "0 \<le> default_max_position_pct"
  using is_double_dyadic [of 5764607523034235 59] is_double_dyadic [of 5764607523034235 58]
  by (simp_all add: default_risk_pct_def default_max_position_pct_def)

lemma ex_doubles:
  "is_double 50" "is_double (99 / 2)" "is_double 100000" "is_double (1 / 2)" "is_double 2000" "is_double 40"
  "is_double 1000"
  using is_double_int [of 50] is_double_dyadic [of 99 1] is_double_int [of 100000] is_double_dyadic [of 1 1]
    is_double_int [of 2000] is_double_int [of 40] is_double_int [of 1000]
  by simp_all

lemma ex_products:
  "round_double (100000 * default_risk_pct) = Fin 1000"
  "round_double (100000 * default_max_position_pct) = Fin 2000"
  using round_double_eqI [of 9 "100000 * default_risk_pct" 8796093022208000]
    round_double_eqI [of 10 "100000 * default_max_position_pct" 8796093022208000]
  by (simp_all add: pow2_def round_half_even_def default_risk_pct_def default_max_position_pct_def)


lemma prices_double:
  "round_double (186 / 100) = Fin price_1_86" "round_double (86 / 100) = Fin price_0_86"
  using round_double_eqI [of 0 "186 / 100" 8376695306909123]
    round_double_eqI [of "- 1" "86 / 100" 7746191359077253]
  by (simp_all add: pow2_def round_half_even_def price_1_86_def price_0_86_def)

lemma example_doubles:
  "is_double price_1_86" "is_double price_0_86" "is_double 25000"
  "is_double tiny_price" "is_double 0" "is_double huge_equity"
  "0 < price_1_86" "0 \<le> price_0_86" "0 < tiny_price" "0 \<le> huge_equity"
proof -
  have "is_double (of_int 1 * pow2 520)"
    by (rule is_double_scaled) simp_all
  then show "is_double huge_equity"
    by (simp add: pow2_def huge_equity_def)
  show "is_double price_1_86" "is_double price_0_86" "is_double 25000" "is_double tiny_price" "is_double 0"
    using is_double_dyadic [of 8376695306909123 52] is_double_dyadic [of 7746191359077253 53]
      is_double_int [of 25000] is_double_dyadic [of 1 520] is_double_int [of 0]
    by (simp_all add: price_1_86_def price_0_86_def tiny_price_def)
  show "0 < price_1_86" "0 \<le> price_0_86" "0 < tiny_price" "0 \<le> huge_equity"
    by (simp_all add: price_1_86_def price_0_86_def tiny_price_def huge_equity_def)
qed

lemma rounding_example:
  "float_mul (Fin 25000) (Fin default_risk_pct) = Fin 250"
  "float_sub (Fin price_1_86) (Fin price_0_86) = Fin 1"
  "float_div (Fin 250) (Fin 1) = Fin 250"
  "float_mul (Fin 25000) (Fin default_max_position_pct) = Fin 500"
  "float_div (Fin 500) (Fin price_1_86) = Fin (4729082270004301 / 2 ^ 44)"
  using round_double_eqI [of 7 "25000 * default_risk_pct" 8796093022208000]
    round_double_eqI [of 0 "price_1_86 - price_0_86" 4503599627370496]
    round_double_eqI [of 7 250 8796093022208000]
    round_double_eqI [of 8 "25000 * default_max_position_pct" 8796093022208000]
    round_double_eqI [of 8 "500 / price_1_86" 4729082270004301]
  by (simp_all add: float_mul_def float_sub_def float_div_def fsub_def round_fval_def pow2_def
      round_half_even_def default_risk_pct_def default_max_position_pct_def price_1_86_def price_0_86_def)

lemma rounding_example_size:
  "calculate_position_size (Fin default_risk_pct) (Fin default_max_position_pct)
     (Fin price_1_86) (Fin price_0_86) (Fin 25000) = Inr 250"
  using example_doubles(7)
  by (simp add: calculate_position_size_def rounding_example py_truediv_def)

lemma overflow_example:
  "float_mul (Fin huge_equity) (Fin default_risk_pct) = Fin (huge_equity * default_risk_pct)"
  "float_sub (Fin tiny_price) (Fin 0) = Fin tiny_price"
  "float_div (Fin (huge_equity * default_risk_pct)) (Fin tiny_price) = PInf"
proof -
  have eq: "huge_equity * default_risk_pct = of_int 5764607523034235 * pow2 461"
    by (simp add: huge_equity_def default_risk_pct_def pow2_def)
  have "is_double (huge_equity * default_risk_pct)"
    unfolding eq by (rule is_double_scaled) simp_all
  then show "float_mul (Fin huge_equity) (Fin default_risk_pct) = Fin (huge_equity * default_risk_pct)"
    by (simp add: float_mul_def round_fval_def round_double_fixed)
  show "float_sub (Fin tiny_price) (Fin 0) = Fin tiny_price"
    using example_doubles(4)
    by (simp add: float_sub_def fsub_def round_fval_def round_double_fixed)
  have "pow2 1024 \<le> huge_equity * default_risk_pct / tiny_price"
    by (simp add: pow2_def huge_equity_def default_risk_pct_def tiny_price_def)
  then show "float_div (Fin (huge_equity * default_risk_pct)) (Fin tiny_price) = PInf"
    using example_doubles(9) by (simp add: float_div_def round_fval_def round_double_overflow)
qed

lemma overflow_example_size:
  "calculate_position_size (Fin default_risk_pct) (Fin default_max_position_pct)
     (Fin tiny_price) (Fin 0) (Fin huge_equity) = Inl OverflowError"
  using example_doubles(9)
  by (simp add: calculate_position_size_def overflow_example py_truediv_def)

lemma example_doubles2:
  "is_double price_145_08" "is_double price_45_08" "is_double 250000"
  "0 < price_145_08" "0 \<le> price_45_08" "price_145_08 \<noteq> price_45_08"
  using is_double_dyadic [of 5104548702647747 45] is_double_dyadic [of 3172222987529093 46]
    is_double_int [of 250000]
  by (simp_all add: price_145_08_def price_45_08_def)

lemma rounding_example2:
  "float_mul (Fin 250000) (Fin default_risk_pct) = Fin 2500"
  "float_sub (Fin price_145_08) (Fin price_45_08) = Fin (price_145_08 - price_45_08)"
  "float_div (Fin 2500) (Fin \<bar>price_145_08 - price_45_08\<bar>) = Fin (7036874417766399 / 2 ^ 48)"
  "float_mul (Fin 250000) (Fin default_max_position_pct) = Fin 5000"
  "float_div (Fin 5000) (Fin price_145_08) = Fin (4850340789748001 / 2 ^ 47)"
  using round_double_eqI [of 11 "250000 * default_risk_pct" 5497558138880000]
    round_double_eqI [of 6 "price_145_08 - price_45_08" 7036874417766401]
    round_double_eqI [of 4 "2500 / \<bar>price_145_08 - price_45_08\<bar>" 7036874417766399]
    round_double_eqI [of 12 "250000 * default_max_position_pct" 5497558138880000]
    round_double_eqI [of 5 "5000 / price_145_08" 4850340789748001]
  by (simp_all add: float_mul_def float_sub_def float_div_def fsub_def round_fval_def pow2_def
      round_half_even_def default_risk_pct_def default_max_position_pct_def price_145_08_def
      price_45_08_def)

lemma ex_signs: "(0::real) < 50" "(0::real) \<le> 99 / 2" "(0::real) \<le> 100000" "(0::real) \<le> 50"
  "(0::real) \<le> 250000"
  by simp_all

section \<open>Position sizing\<close>

text \<open>
  C3 (as amended). Let entry price, stop price, equity and the two percentages be finite
  doubles, the entry price positive and the others non-negative. Position sizing returns
  0, without a division error, when entry and stop are equal. Otherwise the difference
  of entry and stop rounds to a double other than 0, and with \<open>q\<close> the risk quotient
  \<open>equity * risk_pct / \<bar>entry - stop\<bar>\<close> and \<open>c\<close> the cap quotient
  \<open>equity * max_position_pct / entry\<close>, both computed in double arithmetic (each
  operation rounded to the nearest double), it returns \<open>min \<lfloor>q\<rfloor> \<lfloor>c\<rfloor>\<close> when both
  are finite, and raises \<^verbatim>\<open>OverflowError\<close> when one of them has overflowed to infinity.
  A returned count is never negative and never above \<open>\<lfloor>c\<rfloor>\<close>.
\<close>

theorem calculate_position_size_spec:
  assumes "is_double entry" and "is_double stop" and "is_double equity"
    and "is_double risk_pct" and "is_double max_position_pct"
    and "0 < entry" and "0 \<le> stop" and "0 \<le> equity"
    and "0 \<le> risk_pct" and "0 \<le> max_position_pct"
  shows "calculate_position_size (Fin risk_pct) (Fin max_position_pct) (Fin entry) (Fin stop) (Fin equity) =
           (if entry = stop then Inr 0
            else case (float_div (float_mul (Fin equity) (Fin risk_pct))
                         (fabs (float_sub (Fin entry) (Fin stop))),
                       float_div (float_mul (Fin equity) (Fin max_position_pct)) (Fin entry)) of
                   (Fin q, Fin c) \<Rightarrow> Inr (min \<lfloor>q\<rfloor> \<lfloor>c\<rfloor>)
                 | _ \<Rightarrow> Inl OverflowError)
         \<and> (\<forall>n. calculate_position_size (Fin risk_pct) (Fin max_position_pct) (Fin entry) (Fin stop)
                  (Fin equity) = Inr n \<longrightarrow>
                0 \<le> n
              \<and> (case float_div (float_mul (Fin equity) (Fin max_position_pct)) (Fin entry) of
                    Fin c \<Rightarrow> n \<le> \<lfloor>c\<rfloor> | c \<Rightarrow> c = PInf))"
proof -
  define q where "q = float_div (float_mul (Fin equity) (Fin risk_pct)) (fabs (float_sub (Fin entry) (Fin stop)))"
  define c where "c = float_div (float_mul (Fin equity) (Fin max_position_pct)) (Fin entry)"
  obtain d where d: "float_sub (Fin entry) (Fin stop) = Fin d" "d = 0 \<longleftrightarrow> entry = stop"
    using float_sub_doubles [OF assms(1,2)] assms(6,7) by auto
  have c: "nonneg_fval c"
    unfolding c_def using assms by (intro float_div_nonneg float_mul_nonneg) simp_all
  have q: "nonneg_fval q" if "entry \<noteq> stop"
    unfolding q_def d(1) using assms d(2) that by (simp add: float_div_nonneg float_mul_nonneg)
  have e0: "Fin entry \<noteq> Fin 0" using assms(6) by simp
  have main: "calculate_position_size (Fin risk_pct) (Fin max_position_pct) (Fin entry) (Fin stop) (Fin equity) =
           (if entry = stop then Inr 0
            else case (q, c) of (Fin q, Fin c) \<Rightarrow> Inr (min \<lfloor>q\<rfloor> \<lfloor>c\<rfloor>) | _ \<Rightarrow> Inl OverflowError)"
  proof (cases "entry = stop")
    case True
    then show ?thesis using d by (simp add: calculate_position_size_def)
  next
    case False
    then have "calculate_position_size (Fin risk_pct) (Fin max_position_pct) (Fin entry) (Fin stop) (Fin equity) =
        (case py_int q of Inl e \<Rightarrow> Inl e
         | Inr shares \<Rightarrow> (case py_int c of Inl e \<Rightarrow> Inl e | Inr max_shares \<Rightarrow> Inr (min shares max_shares)))"
      using d e0 by (simp add: calculate_position_size_def py_truediv_def q_def c_def cong: sum.case_cong)
    then show ?thesis
      using False py_int_nonneg [OF c] py_int_nonneg [OF q [OF False]]
      by (cases q; cases c) simp_all
  qed
  have "0 \<le> n \<and> (case c of Fin c \<Rightarrow> n \<le> \<lfloor>c\<rfloor> | c \<Rightarrow> c = PInf)"
    if "calculate_position_size (Fin risk_pct) (Fin max_position_pct) (Fin entry) (Fin stop) (Fin equity) = Inr n"
    for n
  proof (cases "entry = stop")
    case True
    then have "n = 0" using that main by simp
    then show ?thesis using c by (cases c) (simp_all add: nonneg_fval_def)
  next
    case False
    then show ?thesis
      using that main c q [OF False]
      by (cases q; cases c) (auto simp: nonneg_fval_def)
  qed
  then show ?thesis
    using main unfolding q_def c_def by blast
qed

text \<open>
  With the default percentages: entry 50, stop 49.5 and an equity of 100000 give 40
  shares (the cap; the risk quotient allows 2000), entry = stop gives 0, and the doubles
  of 145.08 and 45.08 with an equity of 250000 give 24: their difference rounds to a
  double above 100, so the risk quotient is a double below 25.
\<close>

theorem calculate_position_size_spec_witness:
  "is_double 50 \<and> is_double (99 / 2) \<and> is_double 100000
     \<and> is_double default_risk_pct \<and> is_double default_max_position_pct
     \<and> calculate_position_size (Fin default_risk_pct) (Fin default_max_position_pct)
           (Fin 50) (Fin (99 / 2)) (Fin 100000) = Inr 40
     \<and> calculate_position_size (Fin default_risk_pct) (Fin default_max_position_pct)
           (Fin 50) (Fin 50) (Fin 100000) = Inr 0
     \<and> is_double price_145_08 \<and> is_double price_45_08 \<and> is_double 250000
     \<and> calculate_position_size (Fin default_risk_pct) (Fin default_max_position_pct)
           (Fin price_145_08) (Fin price_45_08) (Fin 250000) = Inr 24"
proof -
  have q: "float_div (float_mul (Fin 100000) (Fin default_risk_pct)) (fabs (float_sub (Fin 50) (Fin (99 / 2))))
             = Fin 2000"
    using ex_doubles
    by (simp add: float_div_def float_mul_def float_sub_def fsub_def round_fval_def ex_products
        round_double_fixed)
  have c: "float_div (float_mul (Fin 100000) (Fin default_max_position_pct)) (Fin 50) = Fin 40"
    using ex_doubles
    by (simp add: float_div_def float_mul_def round_fval_def ex_products round_double_fixed)
  have q': "float_div (float_mul (Fin 250000) (Fin default_risk_pct))
              (fabs (float_sub (Fin price_145_08) (Fin price_45_08))) = Fin (7036874417766399 / 2 ^ 48)"
    by (simp only: rounding_example2 fabs.simps)
  have c': "float_div (float_mul (Fin 250000) (Fin default_max_position_pct)) (Fin price_145_08)
              = Fin (4850340789748001 / 2 ^ 47)"
    by (simp only: rounding_example2)
  note a = calculate_position_size_spec [OF ex_doubles(1,2,3) default_pcts_double(1,2) ex_signs(1,2,3)
      default_pcts_double(3,4), THEN conjunct1, unfolded q c]
  note b = calculate_position_size_spec [OF ex_doubles(1,1,3) default_pcts_double(1,2) ex_signs(1,4,3)
      default_pcts_double(3,4), THEN conjunct1]
  note d = calculate_position_size_spec [OF example_doubles2(1,2,3) default_pcts_double(1,2)
      example_doubles2(4,5) ex_signs(5) default_pcts_double(3,4), THEN conjunct1, unfolded q' c']
  have "calculate_position_size (Fin default_risk_pct) (Fin default_max_position_pct)
           (Fin 50) (Fin (99 / 2)) (Fin 100000) = Inr 40"
    using a by simp
  moreover have "calculate_position_size (Fin default_risk_pct) (Fin default_max_position_pct)
           (Fin 50) (Fin 50) (Fin 100000) = Inr 0"
    using b by simp
  moreover have "calculate_position_size (Fin default_risk_pct) (Fin default_max_position_pct)
           (Fin price_145_08) (Fin price_45_08) (Fin 250000) = Inr 24"
    using d example_doubles2(6) by simp
  ultimately show ?thesis
    using ex_doubles default_pcts_double example_doubles2 by simp
qed

text \<open>
  The claim as stated, with its formula over the reals, fails in two ways. For the doubles
  of 1.86 and 0.86, an equity of 25000 and the default percentages the code returns 250,
  while the formula evaluated exactly on the same five doubles gives 249: the difference
  of the prices, \<open>1 + pow2 (- 53)\<close>, rounds to 1. And for an entry price of
  \<open>pow2 (- 520)\<close>, a stop of 0 and an equity of \<open>pow2 520\<close>, all within the hypotheses of the claim, the
  risk quotient overflows and the code raises \<^verbatim>\<open>OverflowError\<close> where the claim has it
  return a count.
\<close>

theorem position_size_counterexample:
  "is_double price_1_86 \<and> is_double price_0_86 \<and> is_double 25000
   \<and> is_double default_risk_pct \<and> is_double default_max_position_pct
   \<and> 0 < price_1_86 \<and> 0 \<le> price_0_86
   \<and> calculate_position_size (Fin default_risk_pct) (Fin default_max_position_pct)
         (Fin price_1_86) (Fin price_0_86) (Fin 25000) = Inr 250
   \<and> min \<lfloor>25000 * default_risk_pct / \<bar>price_1_86 - price_0_86\<bar>\<rfloor>
          \<lfloor>25000 * default_max_position_pct / price_1_86\<rfloor> = 249
   \<and> is_double tiny_price \<and> is_double 0 \<and> is_double huge_equity \<and> 0 < tiny_price \<and> 0 \<le> huge_equity
   \<and> calculate_position_size (Fin default_risk_pct) (Fin default_max_position_pct)
         (Fin tiny_price) (Fin 0) (Fin huge_equity) = Inl OverflowError"
proof -
  have m: "min \<lfloor>25000 * default_risk_pct / \<bar>price_1_86 - price_0_86\<bar>\<rfloor>
          \<lfloor>25000 * default_max_position_pct / price_1_86\<rfloor> = 249"
    by (simp add: default_risk_pct_def default_max_position_pct_def price_1_86_def price_0_86_def)
  show ?thesis
    using example_doubles m default_pcts_double(1,2) rounding_example_size overflow_example_size
    by blast
qed

section \<open>Donchian channels\<close>

text \<open>
  C1. With a positive entry period, the entry channel that \<open>generate_signals\<close> compares
  a bar \<open>t\<close> against is undefined while \<open>t\<close> is below the entry period and is otherwise
  the maximum high (the minimum low) of the bars \<open>t - entry_period .. t - 1\<close>: bar \<open>t\<close>
  itself is never part of it. So a bar whose close is above the maximum high of the
  \<open>entry_period\<close> bars before it is marked \<open>signal = 1\<close>, whatever its own high is. With
  shorts enabled the short rule writes after the long rule; on bars with \<open>low \<le> high\<close>
  the two rules never hold on the same bar.
\<close>

theorem donchian_channel_excludes_current_bar:
  assumes "0 < dc_entry_period cfg" and "t < length bars"
  shows "donchian_high_entry (ind (donchian_generate_signals cfg bars)) ! t =
           (if t < dc_entry_period cfg then None
            else Some (Max ((\<lambda>i. high (bars ! i)) ` {t - dc_entry_period cfg..<t})))
       \<and> donchian_low_entry (ind (donchian_generate_signals cfg bars)) ! t =
           (if t < dc_entry_period cfg then None
            else Some (Min ((\<lambda>i. low (bars ! i)) ` {t - dc_entry_period cfg..<t})))
       \<and> (dc_entry_period cfg \<le> t
            \<and> Max ((\<lambda>i. high (bars ! i)) ` {t - dc_entry_period cfg..<t}) < close (bars ! t)
            \<and> (dc_allow_shorts cfg \<longrightarrow> (\<forall>b \<in> set bars. low b \<le> high b))
          \<longrightarrow> signal (donchian_generate_signals cfg bars) ! t = 1)"
proof (intro conjI impI)
  let ?N = "dc_entry_period cfg"
  let ?i = "donchian_calculate_indicators cfg bars"
  show "donchian_high_entry (ind (donchian_generate_signals cfg bars)) ! t =
           (if t < ?N then None else Some (Max ((\<lambda>i. high (bars ! i)) ` {t - ?N..<t})))"
    using assms by (simp add: donchian_high_entry_nth)
  show "donchian_low_entry (ind (donchian_generate_signals cfg bars)) ! t =
           (if t < ?N then None else Some (Min ((\<lambda>i. low (bars ! i)) ` {t - ?N..<t})))"
    using assms by (simp add: donchian_low_entry_nth)
  assume h: "?N \<le> t \<and> Max ((\<lambda>i. high (bars ! i)) ` {t - ?N..<t}) < close (bars ! t)
            \<and> (dc_allow_shorts cfg \<longrightarrow> (\<forall>b \<in> set bars. low b \<le> high b))"
  then have N: "?N \<le> t" and brk: "Max ((\<lambda>i. high (bars ! i)) ` {t - ?N..<t}) < close (bars ! t)"
    and wf: "dc_allow_shorts cfg \<Longrightarrow> \<forall>b \<in> set bars. low b \<le> high b"
    by simp_all
  have long: "long_breakout bars ?i ! t"
    using assms N brk by (simp add: nth_long_breakout donchian_high_entry_nth nan_gt_def)
  have prev: "t - 1 \<in> {t - ?N..<t}"
    using assms N by auto
  have "\<not> short_breakout bars ?i ! t" if shorts: "dc_allow_shorts cfg"
  proof
    assume "short_breakout bars ?i ! t"
    then have lt: "close (bars ! t) < Min ((\<lambda>i. low (bars ! i)) ` {t - ?N..<t})"
      using assms N by (simp add: nth_short_breakout donchian_low_entry_nth nan_lt_def nan_gt_def)
    have "Min ((\<lambda>i. low (bars ! i)) ` {t - ?N..<t}) \<le> low (bars ! (t - 1))"
      using prev by (intro Min_le) auto
    moreover have "high (bars ! (t - 1)) \<le> Max ((\<lambda>i. high (bars ! i)) ` {t - ?N..<t})"
      using prev by (intro Max_ge) auto
    moreover have "low (bars ! (t - 1)) \<le> high (bars ! (t - 1))"
      using wf [OF shorts] assms by simp
    ultimately show False
      using lt brk by linarith
  qed
  then show "signal (donchian_generate_signals cfg bars) ! t = 1"
    using assms long by (auto simp: donchian_signal_nth)
qed

theorem donchian_channel_excludes_current_bar_witness:
  "donchian_high_entry (ind (donchian_generate_signals donchian_2_1 rising3)) ! 2 = Some 12
   \<and> donchian_low_entry (ind (donchian_generate_signals donchian_2_1 rising3)) ! 2 = Some 9
   \<and> high (rising3 ! 2) = 14
   \<and> signal (donchian_generate_signals donchian_2_1 rising3) ! 2 = 1"
proof -
  have h1: "0 < dc_entry_period donchian_2_1"
    by (simp add: donchian_2_1_def donchian_default_def)
  have h2: "2 < length rising3"
    by (simp add: rising3_def)
  have mx: "Max ((\<lambda>i. high (rising3 ! i)) ` {2 - dc_entry_period donchian_2_1..<2}) = 12"
    by code_simp
  have mn: "Min ((\<lambda>i. low (rising3 ! i)) ` {2 - dc_entry_period donchian_2_1..<2}) = 9"
    by code_simp
  have e: "dc_entry_period donchian_2_1 = 2" "\<not> dc_allow_shorts donchian_2_1"
    by (simp_all add: donchian_2_1_def donchian_default_def)
  have c: "close (rising3 ! 2) = 13" "high (rising3 ! 2) = 14"
    by (simp_all add: rising3_def ohlc_def)
  note T = donchian_channel_excludes_current_bar [OF h1 h2]
  have pre: "dc_entry_period donchian_2_1 \<le> 2
      \<and> Max ((\<lambda>i. high (rising3 ! i)) ` {2 - dc_entry_period donchian_2_1..<2}) < close (rising3 ! 2)
      \<and> (dc_allow_shorts donchian_2_1 \<longrightarrow> (\<forall>b \<in> set rising3. low b \<le> high b))"
    unfolding mx using e c by simp
  have "signal (donchian_generate_signals donchian_2_1 rising3) ! 2 = 1"
    using T pre by blast
  moreover have "donchian_high_entry (ind (donchian_generate_signals donchian_2_1 rising3)) ! 2 = Some 12"
    using T mx e by simp
  moreover have "donchian_low_entry (ind (donchian_generate_signals donchian_2_1 rising3)) ! 2 = Some 9"
    using T mn e by simp
  ultimately show ?thesis
    using c by simp
qed

section \<open>RSI with a zero average loss\<close>

text \<open>
  C5 (as amended). At every bar where the trailing average loss is defined and zero,
  the trailing average gain is defined and non-negative, and the RSI is 100 when that
  average gain is positive and NaN when it is zero as well (a constant-price stretch):
  the quotient \<open>0 / 0\<close> is NaN and the source propagates it. A defined average loss
  already means that the period is at least 1 and that the window is filled.
\<close>

theorem rsi_zero_loss:
  assumes "t < length xs" and "avg_loss xs period ! t = Some 0"
  shows "\<exists>g. avg_gain xs period ! t = Some g \<and> 0 \<le> g
           \<and> calculate_rsi xs period ! t = (if 0 < g then Fin 100 else NaN)"
proof -
  have w: "period \<noteq> 0 \<and> period \<le> t + 1"
    using assms rolling_defined_window [of t "loss_col xs" mean period 0]
    by (simp add: avg_loss_def rolling_mean_def)
  have "\<exists>g. 0 \<le> g \<and> rolling_mean period (gain_col xs) ! t = Some g"
    using assms w by (intro rolling_mean_nonneg) (simp_all add: gain_col_nth)
  then obtain g where g: "0 \<le> g" and ag: "avg_gain xs period ! t = Some g"
    by (auto simp: avg_gain_def)
  have len: "t < length (avg_gain xs period)" "t < length (avg_loss xs period)"
    using assms by (simp_all add: avg_gain_def avg_loss_def rolling_mean_def)
  have "calculate_rsi xs period ! t =
          fsub (Fin 100) (fdiv (Fin 100) (fadd (Fin 1) (fdiv (Fin g) (Fin 0))))"
    using len ag assms(2) by (simp add: calculate_rsi_def of_opt_def Let_def)
  also have "\<dots> = (if 0 < g then Fin 100 else NaN)"
    using g by (simp add: fsub_def)
  finally show ?thesis
    using g ag by blast
qed

theorem rsi_zero_loss_witness:
  "avg_loss [5, 5, 6] 2 ! 2 = Some 0 \<and> avg_gain [5, 5, 6] 2 ! 2 = Some (1 / 2)
     \<and> calculate_rsi [5, 5, 6] 2 ! 2 = Fin 100"
proof -
  have l: "(2::nat) < length [5, 5, 6 :: real]"
    by simp
  have z: "avg_loss [5, 5, 6] 2 ! 2 = Some 0"
    by code_simp
  have g: "avg_gain [5, 5, 6] 2 ! 2 = Some (1 / 2)"
    by code_simp
  show ?thesis
    using rsi_zero_loss [OF l z] z g by (auto split: if_splits)
qed

text \<open>
  The claim as stated fails on a constant series: with period 2 the third bar of
  \<open>[5, 5, 5]\<close> has two deltas behind it and a zero average loss, and its RSI is NaN.
\<close>

theorem rsi_flat_counterexample:
  "(1::nat) \<le> 2 \<and> (2::nat) \<le> 2 \<and> 2 < length [5, 5, 5 :: real]
     \<and> avg_loss [5, 5, 5] 2 ! 2 = Some 0
     \<and> avg_gain [5, 5, 5] 2 ! 2 = Some 0
     \<and> calculate_rsi [5, 5, 5] 2 ! 2 = NaN
     \<and> calculate_rsi [5, 5, 5] 2 ! 2 \<noteq> Fin 100"
  by code_simp

section \<open>Swing trading: first match wins\<close>

text \<open>
  C6. In mode \<open>all\<close> the swing strategy applies the crossover pattern, then the 50-MA
  dip-buy, then the 200-MA dip-buy, in this order. A row that is already non-flat is not
  touched by a later pattern: the dip-50 step leaves every row marked by the crossover as
  it is, and the dip-200 step leaves every row marked by either earlier step as it is. So
  the entry type of a bar is \<open>crossover\<close> wherever the crossover condition holds, whether
  or not a dip condition holds there too, \<open>dip_50\<close> where only the dips can hold and the
  50-MA dip does, and \<open>dip_200\<close> only where neither earlier pattern holds.
\<close>

theorem swing_first_match_wins:
  assumes "sw_entry_mode cfg = ''all''"
    and "swing_calculate_indicators cfg bars = Inr i"
    and "t < length bars"
  shows "\<exists>df1 df2 df3.
           df1 = swing_crossover cfg bars (swing_init i (length bars))
         \<and> df2 = swing_dip_50 bars df1
         \<and> df3 = swing_dip_200 bars df2
         \<and> swing_generate_signals cfg bars = Inr df3
         \<and> (signal df1 ! t \<noteq> 0 \<longrightarrow> swing_row df2 t = swing_row df1 t)
         \<and> (signal df2 ! t \<noteq> 0 \<longrightarrow> swing_row df3 t = swing_row df2 t)
         \<and> entry_type df3 ! t =
             (if cross_above (sw_ema_fast i) (sw_ema_slow i) ! t then ''crossover''
              else if dip bars (sw_sma_50 i) ! t then ''dip_50''
              else if dip bars (sw_sma_200 i) ! t then ''dip_200'' else [])"
proof -
  define df1 where "df1 = swing_crossover cfg bars (swing_init i (length bars))"
  define df2 where "df2 = swing_dip_50 bars df1"
  define df3 where "df3 = swing_dip_200 bars df2"
  note len = swing_ind_lengths [OF assms(2)]
  note defs = Let_def swing_init_def swing_crossover_def swing_dip_50_def swing_dip_200_def
    nth_loc_set nth_mask_and is_flat_def
  have gen: "swing_generate_signals cfg bars = Inr df3"
    using assms(1,2) by (simp add: swing_generate_signals_def df1_def df2_def df3_def Let_def)
  have ind3: "ind df3 = i"
    by (simp add: df1_def df2_def df3_def defs)
  have keep2: "swing_row df2 t = swing_row df1 t" if "signal df1 ! t \<noteq> 0"
    using that assms(3) len unfolding df2_def df1_def swing_row_def by (simp add: defs)
  have keep3: "swing_row df3 t = swing_row df2 t" if "signal df2 ! t \<noteq> 0"
    using that assms(3) len unfolding df3_def df2_def df1_def swing_row_def by (simp add: defs)
  have "entry_type df3 ! t =
             (if cross_above (sw_ema_fast i) (sw_ema_slow i) ! t then ''crossover''
              else if dip bars (sw_sma_50 i) ! t then ''dip_50''
              else if dip bars (sw_sma_200 i) ! t then ''dip_200'' else [])"
    using swing_rows(4) [OF gen assms(3)] assms(1) by (simp add: ind3)
  then show ?thesis
    using gen keep2 keep3 df1_def df2_def df3_def by blast
qed

theorem swing_first_match_wins_witness:
  "\<exists>df. swing_generate_signals swing_2_3 rebound4 = Inr df
      \<and> cross_above (sw_ema_fast (ind df)) (sw_ema_slow (ind df)) ! 3
      \<and> dip rebound4 (sw_sma_50 (ind df)) ! 3
      \<and> entry_type df ! 3 = ''crossover''"
proof -
  have mode: "sw_entry_mode swing_2_3 = ''all''"
    by (simp add: swing_2_3_def swing_default_def)
  have t: "3 < length rebound4"
    by (simp add: rebound4_def)
  have "case swing_calculate_indicators swing_2_3 rebound4 of
          Inl e \<Rightarrow> False
        | Inr i \<Rightarrow> cross_above (sw_ema_fast i) (sw_ema_slow i) ! 3 \<and> dip rebound4 (sw_sma_50 i) ! 3"
    by code_simp
  then obtain i where calc: "swing_calculate_indicators swing_2_3 rebound4 = Inr i"
    and cross: "cross_above (sw_ema_fast i) (sw_ema_slow i) ! 3"
    and dip50: "dip rebound4 (sw_sma_50 i) ! 3"
    by (auto split: sum.splits)
  from swing_first_match_wins [OF mode calc t]
  obtain df where gen: "swing_generate_signals swing_2_3 rebound4 = Inr df"
    and ty: "entry_type df ! 3 =
             (if cross_above (sw_ema_fast i) (sw_ema_slow i) ! 3 then ''crossover''
              else if dip rebound4 (sw_sma_50 i) ! 3 then ''dip_50''
              else if dip rebound4 (sw_sma_200 i) ! 3 then ''dip_200'' else [])"
    by blast
  have "ind df = i"
    using swing_generate_signals_Inr [OF gen] calc by simp
  then show ?thesis
    using gen ty cross dip50 by simp
qed

section \<open>High tight flag: the filters\<close>

text \<open>
  C4. A bar of the high-tight-flag strategy is a long signal exactly when all filters hold
  on that bar: the trailing average dollar volume is at least \<open>min_dollar_volume\<close>, the
  close is above the 50-bar SMA, the move over \<open>pole_lookback\<close> bars is at least
  \<open>min_pole_move\<close>, the close is at least 90% of the 20-bar high, the close is at or above
  the 10-bar EMA and the 20-bar SMA, the high is above the previous bar's 20-bar high, and
  the volume ratio is at least the multiplier. A bar where one of them fails (or refers to
  an undefined value) is flat. Hence the volume ratio of every record returned by
  \<open>check_current_signal\<close> is at least the configured multiplier.
\<close>

theorem htf_signal_iff_all_filters:
  assumes "t < length bars"
  shows "(signal (htf_generate_signals cfg bars) ! t = 1) =
          (nan_ge (avg_dollar_volume (ind (htf_generate_signals cfg bars)) ! t) (Some (htf_min_dollar_volume cfg))
           \<and> nan_gt (Some (close (bars ! t))) (sma_50 (ind (htf_generate_signals cfg bars)) ! t)
           \<and> fge (pole_move (ind (htf_generate_signals cfg bars)) ! t) (Fin (htf_min_pole_move cfg))
           \<and> nan_ge (Some (close (bars ! t)))
                (nan_mul (high_20 (ind (htf_generate_signals cfg bars)) ! t) (Some (90 / 100)))
           \<and> nan_ge (Some (close (bars ! t))) (ema_10 (ind (htf_generate_signals cfg bars)) ! t)
           \<and> nan_ge (Some (close (bars ! t))) (sma_20 (ind (htf_generate_signals cfg bars)) ! t)
           \<and> nan_gt (Some (high (bars ! t))) (shift 1 (high_20 (ind (htf_generate_signals cfg bars))) ! t)
           \<and> fge (volume_ratio (ind (htf_generate_signals cfg bars)) ! t)
                (Fin (htf_volume_breakout_multiplier cfg)))
       \<and> (signal (htf_generate_signals cfg bars) ! t \<noteq> 1 \<longrightarrow> signal (htf_generate_signals cfg bars) ! t = 0)
       \<and> (\<forall>r. htf_check_current_signal cfg bars = Some r \<longrightarrow>
             fge (rec_volume_ratio r) (Fin (htf_volume_breakout_multiplier cfg)))"
proof (intro conjI allI impI)
  show "(signal (htf_generate_signals cfg bars) ! t = 1) =
          (nan_ge (avg_dollar_volume (ind (htf_generate_signals cfg bars)) ! t) (Some (htf_min_dollar_volume cfg))
           \<and> nan_gt (Some (close (bars ! t))) (sma_50 (ind (htf_generate_signals cfg bars)) ! t)
           \<and> fge (pole_move (ind (htf_generate_signals cfg bars)) ! t) (Fin (htf_min_pole_move cfg))
           \<and> nan_ge (Some (close (bars ! t)))
                (nan_mul (high_20 (ind (htf_generate_signals cfg bars)) ! t) (Some (90 / 100)))
           \<and> nan_ge (Some (close (bars ! t))) (ema_10 (ind (htf_generate_signals cfg bars)) ! t)
           \<and> nan_ge (Some (close (bars ! t))) (sma_20 (ind (htf_generate_signals cfg bars)) ! t)
           \<and> nan_gt (Some (high (bars ! t))) (shift 1 (high_20 (ind (htf_generate_signals cfg bars))) ! t)
           \<and> fge (volume_ratio (ind (htf_generate_signals cfg bars)) ! t)
                (Fin (htf_volume_breakout_multiplier cfg)))"
    using assms by (simp add: htf_rows nth_htf_signal del: One_nat_def)
  show "signal (htf_generate_signals cfg bars) ! t = 0"
    if "signal (htf_generate_signals cfg bars) ! t \<noteq> 1"
    using that assms by (simp add: htf_rows split: if_splits)
  fix r
  assume r: "htf_check_current_signal cfg bars = Some r"
  then have ne: "bars \<noteq> []"
    by (auto simp: htf_check_current_signal_def Let_def split: if_splits)
  then have last: "length bars - 1 < length bars"
    by simp
  from r ne have sig: "signal (htf_generate_signals cfg bars) ! (length bars - 1) = 1"
    and vr: "rec_volume_ratio r = volume_ratio (htf_calculate_indicators cfg bars) ! (length bars - 1)"
    by (auto simp: htf_check_current_signal_def Let_def split: if_splits)
  from sig have "htf_signal cfg bars (htf_calculate_indicators cfg bars) ! (length bars - 1)"
    using last by (simp add: htf_rows split: if_splits)
  then show "fge (rec_volume_ratio r) (Fin (htf_volume_breakout_multiplier cfg))"
    using last vr by (simp add: nth_htf_signal del: One_nat_def)
qed

theorem htf_signal_iff_all_filters_witness:
  "\<exists>r. htf_check_current_signal htf_default flat_then_breakout = Some r
      \<and> rec_volume_ratio r = Fin (30 / 11)
      \<and> fge (rec_volume_ratio r) (Fin (htf_volume_breakout_multiplier htf_default))
      \<and> signal (htf_generate_signals htf_default flat_then_breakout) ! 50 = 1
      \<and> fge (volume_ratio (ind (htf_generate_signals htf_default flat_then_breakout)) ! 50)
            (Fin (htf_volume_breakout_multiplier htf_default))
      \<and> nan_gt (Some (high (flat_then_breakout ! 50)))
            (shift 1 (high_20 (ind (htf_generate_signals htf_default flat_then_breakout))) ! 50)"
proof -
  have len: "50 < length flat_then_breakout"
    by (simp add: flat_then_breakout_def)
  have l: "length flat_then_breakout - 1 = 50"
    by (simp add: flat_then_breakout_def)
  note T = htf_signal_iff_all_filters [OF len, of htf_default]
  have sig: "signal (htf_generate_signals htf_default flat_then_breakout) ! 50 = 1"
    using htf_check_Some(2) [OF htf_flat_then_breakout] l by simp
  show ?thesis
    using T sig htf_flat_then_breakout by auto
qed

section \<open>High tight flag: entry at the high, stop at the low\<close>

text \<open>
  C10. On every bar that the high-tight-flag strategy marks long, the entry price is the
  bar's high and the stop price is the bar's low. The record of \<open>check_current_signal\<close>
  therefore carries the last bar's high and low, its risk per share is \<open>high - low\<close>, and
  that is non-negative when the bar has \<open>low \<le> high\<close>.
\<close>

theorem htf_entry_high_stop_low:
  "(t < length bars \<and> signal (htf_generate_signals cfg bars) ! t = 1 \<longrightarrow>
      entry_price (htf_generate_signals cfg bars) ! t = Some (high (bars ! t))
    \<and> stop_price (htf_generate_signals cfg bars) ! t = Some (low (bars ! t)))
   \<and> (\<forall>r. htf_check_current_signal cfg bars = Some r \<longrightarrow>
         rec_entry_price r = Some (high (last bars))
       \<and> rec_stop_price r = Some (low (last bars))
       \<and> rec_risk_per_share r = Some (high (last bars) - low (last bars))
       \<and> (low (last bars) \<le> high (last bars) \<longrightarrow>
            (\<exists>x. rec_risk_per_share r = Some x \<and> 0 \<le> x)))"
proof (intro conjI allI impI)
  assume h: "t < length bars \<and> signal (htf_generate_signals cfg bars) ! t = 1"
  then have t: "t < length bars" and sig: "signal (htf_generate_signals cfg bars) ! t = 1"
    by simp_all
  have m: "htf_signal cfg bars (htf_calculate_indicators cfg bars) ! t"
    using sig unfolding htf_rows(1) [OF t] by (simp split: if_splits)
  show "entry_price (htf_generate_signals cfg bars) ! t = Some (high (bars ! t))"
    using t m by (simp add: htf_rows)
  show "stop_price (htf_generate_signals cfg bars) ! t = Some (low (bars ! t))"
    using t m by (simp add: htf_rows)
next
  fix r
  assume r: "htf_check_current_signal cfg bars = Some r"
  then have ne: "bars \<noteq> []"
    by (auto simp: htf_check_current_signal_def Let_def split: if_splits)
  then have lt: "length bars - 1 < length bars"
    by simp
  have lastb: "bars ! (length bars - 1) = last bars"
    using ne by (simp add: last_conv_nth)
  from r ne have sig: "signal (htf_generate_signals cfg bars) ! (length bars - 1) = 1"
    and e: "rec_entry_price r = entry_price (htf_generate_signals cfg bars) ! (length bars - 1)"
    and s: "rec_stop_price r = stop_price (htf_generate_signals cfg bars) ! (length bars - 1)"
    and k: "rec_risk_per_share r = nan_sub (entry_price (htf_generate_signals cfg bars) ! (length bars - 1))
              (stop_price (htf_generate_signals cfg bars) ! (length bars - 1))"
    by (auto simp: htf_check_current_signal_def Let_def split: if_splits)
  from sig have m: "htf_signal cfg bars (htf_calculate_indicators cfg bars) ! (length bars - 1)"
    using lt by (simp add: htf_rows split: if_splits)
  show e': "rec_entry_price r = Some (high (last bars))"
    using e m lt lastb by (simp add: htf_rows)
  show s': "rec_stop_price r = Some (low (last bars))"
    using s m lt lastb by (simp add: htf_rows)
  have ep: "entry_price (htf_generate_signals cfg bars) ! (length bars - 1) = Some (high (last bars))"
    using e e' by simp
  have sp: "stop_price (htf_generate_signals cfg bars) ! (length bars - 1) = Some (low (last bars))"
    using s s' by simp
  show k': "rec_risk_per_share r = Some (high (last bars) - low (last bars))"
    unfolding k ep sp by (simp add: nan_sub_def nan_op_def)
  show "\<exists>x. rec_risk_per_share r = Some x \<and> 0 \<le> x" if "low (last bars) \<le> high (last bars)"
    using that k' by simp
qed


theorem htf_entry_high_stop_low_witness:
  "\<exists>r. htf_check_current_signal htf_default flat_then_breakout = Some r
      \<and> high (last flat_then_breakout) = 201 \<and> low (last flat_then_breakout) = 199
      \<and> rec_entry_price r = Some 201 \<and> rec_stop_price r = Some 199
      \<and> rec_risk_per_share r = Some 2
      \<and> entry_price (htf_generate_signals htf_default flat_then_breakout) ! 50 = Some 201
      \<and> stop_price (htf_generate_signals htf_default flat_then_breakout) ! 50 = Some 199"
proof -
  have len: "50 < length flat_then_breakout"
    by (simp add: flat_then_breakout_def)
  have l: "length flat_then_breakout - 1 = 50"
    by (simp add: flat_then_breakout_def)
  have b: "flat_then_breakout ! 50 = ohlc 50 201 199 200 3000000"
    by (simp add: flat_then_breakout_def nth_append)
  have hl: "high (last flat_then_breakout) = 201" "low (last flat_then_breakout) = 199"
    "high (flat_then_breakout ! 50) = 201" "low (flat_then_breakout ! 50) = 199"
    by (simp_all add: b) (simp_all add: flat_then_breakout_def ohlc_def)
  have sig: "signal (htf_generate_signals htf_default flat_then_breakout) ! 50 = 1"
    using htf_check_Some(2) [OF htf_flat_then_breakout] l by simp
  note T = htf_entry_high_stop_low [of 50 flat_then_breakout htf_default]
  show ?thesis
    using T sig len hl htf_flat_then_breakout by auto
qed

section \<open>Flat rows are undefined, signal rows are defined\<close>

text \<open>
  C8 (as amended). In the signal series of every variant a flat row (\<open>signal = 0\<close>) has
  an undefined entry price and an undefined stop price, and a row with \<open>signal \<noteq> 0\<close> has
  a defined entry price. For MA101, the swing strategy and the high tight flag such a row
  also has a defined stop price. For the Donchian breakout it has one when the stop's
  lookback fits into the entry window: with the channel stop when
  \<open>1 \<le> exit_period \<le> entry_period\<close>, with the ATR stop when
  \<open>1 \<le> atr_period \<le> entry_period + 1\<close>.
\<close>

theorem signal_rows_defined:
  "(t < length bars \<longrightarrow>
      (signal (donchian_generate_signals dcfg bars) ! t = 0 \<longrightarrow>
         entry_price (donchian_generate_signals dcfg bars) ! t = None
         \<and> stop_price (donchian_generate_signals dcfg bars) ! t = None)
    \<and> (signal (donchian_generate_signals dcfg bars) ! t \<noteq> 0 \<longrightarrow>
         (\<exists>x. entry_price (donchian_generate_signals dcfg bars) ! t = Some x))
    \<and> (signal (donchian_generate_signals dcfg bars) ! t \<noteq> 0
         \<and> (if dc_use_atr_stop dcfg
              then 1 \<le> dc_atr_period dcfg \<and> dc_atr_period dcfg \<le> dc_entry_period dcfg + 1
              else 1 \<le> dc_exit_period dcfg \<and> dc_exit_period dcfg \<le> dc_entry_period dcfg) \<longrightarrow>
         (\<exists>y. stop_price (donchian_generate_signals dcfg bars) ! t = Some y)))
   \<and> (t < length bars \<and> ma101_generate_signals mcfg bars = Inr mdf \<longrightarrow>
        (signal mdf ! t = 0 \<longrightarrow> entry_price mdf ! t = None \<and> stop_price mdf ! t = None)
      \<and> (signal mdf ! t \<noteq> 0 \<longrightarrow>
           (\<exists>x. entry_price mdf ! t = Some x) \<and> (\<exists>y. stop_price mdf ! t = Some y)))
   \<and> (t < length bars \<and> swing_generate_signals scfg bars = Inr sdf \<longrightarrow>
        (signal sdf ! t = 0 \<longrightarrow> entry_price sdf ! t = None \<and> stop_price sdf ! t = None)
      \<and> (signal sdf ! t \<noteq> 0 \<longrightarrow>
           (\<exists>x. entry_price sdf ! t = Some x) \<and> (\<exists>y. stop_price sdf ! t = Some y)))
   \<and> (t < length bars \<longrightarrow>
        (signal (htf_generate_signals hcfg bars) ! t = 0 \<longrightarrow>
           entry_price (htf_generate_signals hcfg bars) ! t = None
           \<and> stop_price (htf_generate_signals hcfg bars) ! t = None)
      \<and> (signal (htf_generate_signals hcfg bars) ! t \<noteq> 0 \<longrightarrow>
           (\<exists>x. entry_price (htf_generate_signals hcfg bars) ! t = Some x)
           \<and> (\<exists>y. stop_price (htf_generate_signals hcfg bars) ! t = Some y)))"
proof (intro conjI)
  show "t < length bars \<longrightarrow>
      (signal (donchian_generate_signals dcfg bars) ! t = 0 \<longrightarrow>
         entry_price (donchian_generate_signals dcfg bars) ! t = None
         \<and> stop_price (donchian_generate_signals dcfg bars) ! t = None)
    \<and> (signal (donchian_generate_signals dcfg bars) ! t \<noteq> 0 \<longrightarrow>
         (\<exists>x. entry_price (donchian_generate_signals dcfg bars) ! t = Some x))
    \<and> (signal (donchian_generate_signals dcfg bars) ! t \<noteq> 0
         \<and> (if dc_use_atr_stop dcfg
              then 1 \<le> dc_atr_period dcfg \<and> dc_atr_period dcfg \<le> dc_entry_period dcfg + 1
              else 1 \<le> dc_exit_period dcfg \<and> dc_exit_period dcfg \<le> dc_entry_period dcfg) \<longrightarrow>
         (\<exists>y. stop_price (donchian_generate_signals dcfg bars) ! t = Some y))"
    using donchian_row_defined [of t bars dcfg] by blast
  show "t < length bars \<and> ma101_generate_signals mcfg bars = Inr mdf \<longrightarrow>
        (signal mdf ! t = 0 \<longrightarrow> entry_price mdf ! t = None \<and> stop_price mdf ! t = None)
      \<and> (signal mdf ! t \<noteq> 0 \<longrightarrow>
           (\<exists>x. entry_price mdf ! t = Some x) \<and> (\<exists>y. stop_price mdf ! t = Some y))"
    using ma101_row_defined [of t bars mcfg mdf] by blast
  show "t < length bars \<and> swing_generate_signals scfg bars = Inr sdf \<longrightarrow>
        (signal sdf ! t = 0 \<longrightarrow> entry_price sdf ! t = None \<and> stop_price sdf ! t = None)
      \<and> (signal sdf ! t \<noteq> 0 \<longrightarrow>
           (\<exists>x. entry_price sdf ! t = Some x) \<and> (\<exists>y. stop_price sdf ! t = Some y))"
    using swing_row_defined [of t bars scfg sdf] by blast
  show "t < length bars \<longrightarrow>
        (signal (htf_generate_signals hcfg bars) ! t = 0 \<longrightarrow>
           entry_price (htf_generate_signals hcfg bars) ! t = None
           \<and> stop_price (htf_generate_signals hcfg bars) ! t = None)
      \<and> (signal (htf_generate_signals hcfg bars) ! t \<noteq> 0 \<longrightarrow>
           (\<exists>x. entry_price (htf_generate_signals hcfg bars) ! t = Some x)
           \<and> (\<exists>y. stop_price (htf_generate_signals hcfg bars) ! t = Some y))"
    using htf_row_defined [of t bars hcfg] by blast
qed

theorem signal_rows_defined_witness:
  "(signal (donchian_generate_signals donchian_2_1 rising3) ! 2 \<noteq> 0
      \<and> (\<exists>x. entry_price (donchian_generate_signals donchian_2_1 rising3) ! 2 = Some x)
      \<and> (\<exists>y. stop_price (donchian_generate_signals donchian_2_1 rising3) ! 2 = Some y))
   \<and> (signal (donchian_generate_signals donchian_2_1 rising3) ! 1 = 0
      \<and> entry_price (donchian_generate_signals donchian_2_1 rising3) ! 1 = None
      \<and> stop_price (donchian_generate_signals donchian_2_1 rising3) ! 1 = None)
   \<and> (\<exists>df. ma101_generate_signals ma101_small v_shape3 = Inr df \<and> signal df ! 2 \<noteq> 0
      \<and> (\<exists>x. entry_price df ! 2 = Some x) \<and> (\<exists>y. stop_price df ! 2 = Some y))
   \<and> (\<exists>df. swing_generate_signals swing_2_3 rebound4 = Inr df \<and> signal df ! 3 \<noteq> 0
      \<and> (\<exists>x. entry_price df ! 3 = Some x) \<and> (\<exists>y. stop_price df ! 3 = Some y))
   \<and> (signal (htf_generate_signals htf_default flat_then_breakout) ! 50 \<noteq> 0
      \<and> (\<exists>x. entry_price (htf_generate_signals htf_default flat_then_breakout) ! 50 = Some x)
      \<and> (\<exists>y. stop_price (htf_generate_signals htf_default flat_then_breakout) ! 50 = Some y))"
proof -
  have d2: "2 < length rising3" "signal (donchian_generate_signals donchian_2_1 rising3) ! 2 \<noteq> 0"
    "if dc_use_atr_stop donchian_2_1
     then 1 \<le> dc_atr_period donchian_2_1 \<and> dc_atr_period donchian_2_1 \<le> dc_entry_period donchian_2_1 + 1
     else 1 \<le> dc_exit_period donchian_2_1 \<and> dc_exit_period donchian_2_1 \<le> dc_entry_period donchian_2_1"
    by code_simp+
  have d1: "1 < length rising3" "signal (donchian_generate_signals donchian_2_1 rising3) ! 1 = 0"
    by code_simp+
  have "case ma101_generate_signals ma101_small v_shape3 of Inl e \<Rightarrow> False | Inr df \<Rightarrow> signal df ! 2 \<noteq> 0"
    by code_simp
  then obtain mdf where m: "ma101_generate_signals ma101_small v_shape3 = Inr mdf" "signal mdf ! 2 \<noteq> 0"
    by (auto split: sum.splits)
  have ml: "2 < length v_shape3"
    by (simp add: v_shape3_def)
  have "case swing_generate_signals swing_2_3 rebound4 of Inl e \<Rightarrow> False | Inr df \<Rightarrow> signal df ! 3 \<noteq> 0"
    by code_simp
  then obtain sdf where s: "swing_generate_signals swing_2_3 rebound4 = Inr sdf" "signal sdf ! 3 \<noteq> 0"
    by (auto split: sum.splits)
  have sl: "3 < length rebound4"
    by (simp add: rebound4_def)
  have hl: "50 < length flat_then_breakout" "length flat_then_breakout - 1 = 50"
    by (simp_all add: flat_then_breakout_def)
  have h: "signal (htf_generate_signals htf_default flat_then_breakout) ! 50 \<noteq> 0"
    using htf_check_Some(2) [OF htf_flat_then_breakout] hl by simp
  have "signal (donchian_generate_signals donchian_2_1 rising3) ! 2 \<noteq> 0
      \<and> (\<exists>x. entry_price (donchian_generate_signals donchian_2_1 rising3) ! 2 = Some x)
      \<and> (\<exists>y. stop_price (donchian_generate_signals donchian_2_1 rising3) ! 2 = Some y)"
    using signal_rows_defined [of 2 rising3 donchian_2_1] d2 by blast
  moreover have "signal (donchian_generate_signals donchian_2_1 rising3) ! 1 = 0
      \<and> entry_price (donchian_generate_signals donchian_2_1 rising3) ! 1 = None
      \<and> stop_price (donchian_generate_signals donchian_2_1 rising3) ! 1 = None"
    using signal_rows_defined [of 1 rising3 donchian_2_1] d1 by blast
  moreover have "\<exists>df. ma101_generate_signals ma101_small v_shape3 = Inr df \<and> signal df ! 2 \<noteq> 0
      \<and> (\<exists>x. entry_price df ! 2 = Some x) \<and> (\<exists>y. stop_price df ! 2 = Some y)"
    using signal_rows_defined [of 2 v_shape3 _ ma101_small mdf] m ml by blast
  moreover have "\<exists>df. swing_generate_signals swing_2_3 rebound4 = Inr df \<and> signal df ! 3 \<noteq> 0
      \<and> (\<exists>x. entry_price df ! 3 = Some x) \<and> (\<exists>y. stop_price df ! 3 = Some y)"
    using signal_rows_defined [of 3 rebound4 _ _ _ swing_2_3 sdf] s sl by blast
  moreover have "signal (htf_generate_signals htf_default flat_then_breakout) ! 50 \<noteq> 0
      \<and> (\<exists>x. entry_price (htf_generate_signals htf_default flat_then_breakout) ! 50 = Some x)
      \<and> (\<exists>y. stop_price (htf_generate_signals htf_default flat_then_breakout) ! 50 = Some y)"
    using signal_rows_defined [of 50 flat_then_breakout _ _ _ _ _ htf_default] h hl by blast
  ultimately show ?thesis
    by blast
qed

text \<open>
  Without the condition on the periods the claim fails: with the ATR stop, an entry
  period of 2 and the default ATR period of 14, the third bar of a rising series is a
  long signal whose stop price is NaN; so is the third bar of the second series with the
  channel stop, an entry period of 1 and an exit period of 3.
\<close>

theorem donchian_undefined_stop_counterexample:
  "2 < length rising3
   \<and> signal (donchian_generate_signals donchian_2_atr rising3) ! 2 = 1
   \<and> entry_price (donchian_generate_signals donchian_2_atr rising3) ! 2 = Some 13
   \<and> stop_price (donchian_generate_signals donchian_2_atr rising3) ! 2 = None
   \<and> 2 < length spike5
   \<and> signal (donchian_generate_signals donchian_1_3 spike5) ! 2 = 1
   \<and> entry_price (donchian_generate_signals donchian_1_3 spike5) ! 2 = Some 100
   \<and> stop_price (donchian_generate_signals donchian_1_3 spike5) ! 2 = None"
  by code_simp

section \<open>Series shorter than the lookback windows\<close>

text \<open>
  C7 (as amended). No variant checks the length of the series; what keeps a short series
  flat is that the entry condition reads an undefined value on the last bar, and
  comparisons with an undefined value are false. \<open>check_current_signal\<close> therefore
  returns \<open>None\<close>, and raises nothing, on every series (empty or not)
  \<^item> of at most \<open>entry_period\<close> bars, for the Donchian breakout;
  \<^item> of fewer than \<open>regime_ma\<close> bars, or of a single bar, for MA101;
  \<^item> of fewer than \<open>volume_lookback\<close>, 50 or \<open>pole_lookback + 1\<close> bars, for the high
    tight flag;
  \<^item> of a single bar, for the swing strategy in any mode, and of at most \<open>ma_50\<close>
    (\<open>ma_200\<close>) bars in its mode \<open>dip_50\<close> (\<open>dip_200\<close>).

  For MA101 and the swing strategy the spans of the EMAs must be at least 1, as pandas
  demands of any series. In the modes \<open>crossover\<close> and \<open>all\<close> of the swing strategy the
  windows give no bound beyond the single bar: the crossover reads the two EMAs only, and
  these are defined from the first bar. The dip-buy patterns, which read an SMA, never
  produce a record on a series that is not longer than the SMA's window.
\<close>

theorem short_series_no_signal:
  "(length bars < donchian_min_bars dcfg \<longrightarrow> donchian_check_current_signal dcfg bars = None)
   \<and> (1 \<le> ma_fast_ema mcfg \<and> 1 \<le> ma_slow_ema mcfg \<and> 1 \<le> ma_stop_ma mcfg
        \<and> length bars < ma101_min_bars mcfg \<longrightarrow>
      ma101_check_current_signal mcfg bars = Inr None)
   \<and> (1 \<le> sw_fast_ema scfg \<and> 1 \<le> sw_slow_ema scfg
        \<and> (length bars < 2
           \<or> (sw_entry_mode scfg = ''dip_50'' \<and> length bars \<le> sw_ma_50 scfg)
           \<or> (sw_entry_mode scfg = ''dip_200'' \<and> length bars \<le> sw_ma_200 scfg)) \<longrightarrow>
      swing_check_current_signal scfg bars = Inr None)
   \<and> (\<forall>r. swing_check_current_signal scfg bars = Inr (Some r) \<longrightarrow>
        (rec_entry_type r = ''dip_50'' \<longrightarrow> sw_ma_50 scfg < length bars)
      \<and> (rec_entry_type r = ''dip_200'' \<longrightarrow> sw_ma_200 scfg < length bars))
   \<and> (length bars < htf_min_bars hcfg \<longrightarrow> htf_check_current_signal hcfg bars = None)"
  using donchian_short_series [of bars dcfg] ma101_short_series [of mcfg bars]
    swing_short_series [of scfg bars] swing_dip_records [of scfg bars]
    htf_short_series [of bars hcfg]
  by blast

theorem short_series_no_signal_witness:
  "rising3 \<noteq> [] \<and> length rising3 < donchian_min_bars donchian_default
     \<and> donchian_check_current_signal donchian_default rising3 = None
   \<and> length rising3 < ma101_min_bars ma101_default
     \<and> ma101_check_current_signal ma101_default rising3 = Inr None
   \<and> one_bar \<noteq> [] \<and> length one_bar < 2
     \<and> swing_check_current_signal swing_default one_bar = Inr None
   \<and> sw_entry_mode swing_dip_50_only = ''dip_50'' \<and> length rising2 \<le> sw_ma_50 swing_dip_50_only
     \<and> swing_check_current_signal swing_dip_50_only rising2 = Inr None
   \<and> (\<exists>r. swing_check_current_signal swing_short_mas pullback5 = Inr (Some r)
        \<and> rec_entry_type r = ''dip_50'' \<and> sw_ma_50 swing_short_mas < length pullback5)
   \<and> length rising3 < htf_min_bars htf_default
     \<and> htf_check_current_signal htf_default rising3 = None"
proof -
  have "case swing_check_current_signal swing_short_mas pullback5 of
          Inr (Some r) \<Rightarrow> rec_entry_type r = ''dip_50'' | _ \<Rightarrow> False"
    by code_simp
  then obtain r where r: "swing_check_current_signal swing_short_mas pullback5 = Inr (Some r)"
    "rec_entry_type r = ''dip_50''"
    by (auto split: sum.splits option.splits)
  have d: "rising3 \<noteq> []" "length rising3 < donchian_min_bars donchian_default"
    by (simp_all add: rising3_def donchian_min_bars_def donchian_default_def)
  have m: "1 \<le> ma_fast_ema ma101_default \<and> 1 \<le> ma_slow_ema ma101_default
      \<and> 1 \<le> ma_stop_ma ma101_default \<and> length rising3 < ma101_min_bars ma101_default"
    by (simp add: rising3_def ma101_min_bars_def ma101_default_def)
  have s: "one_bar \<noteq> []" "length one_bar < 2"
    "1 \<le> sw_fast_ema swing_default \<and> 1 \<le> sw_slow_ema swing_default"
    by (simp_all add: one_bar_def swing_default_def)
  have s': "sw_entry_mode swing_dip_50_only = ''dip_50''"
    "length rising2 \<le> sw_ma_50 swing_dip_50_only"
    "1 \<le> sw_fast_ema swing_dip_50_only \<and> 1 \<le> sw_slow_ema swing_dip_50_only"
    by (simp_all add: rising2_def swing_dip_50_only_def swing_default_def)
  have h: "length rising3 < htf_min_bars htf_default"
    by (simp add: rising3_def htf_min_bars_def htf_default_def)
  have 1: "donchian_check_current_signal donchian_default rising3 = None"
    "ma101_check_current_signal ma101_default rising3 = Inr None"
    "htf_check_current_signal htf_default rising3 = None"
    using short_series_no_signal [of rising3 donchian_default ma101_default _ htf_default] d m h
    by blast+
  have 2: "swing_check_current_signal swing_default one_bar = Inr None"
    using short_series_no_signal [of one_bar _ _ swing_default] s by blast
  have 3: "swing_check_current_signal swing_dip_50_only rising2 = Inr None"
    using short_series_no_signal [of rising2 _ _ swing_dip_50_only] s' by blast
  have 4: "sw_ma_50 swing_short_mas < length pullback5"
    using short_series_no_signal [of pullback5 _ _ swing_short_mas] r by blast
  show ?thesis
    using d m s s' h r 1 2 3 4 by blast
qed

text \<open>
  The claim as stated fails for the swing strategy: a rising series of two bars is
  shorter than every window of the default configuration (EMA spans 5 and 20, SMA
  windows 50 and 200, RSI and ATR periods 14), and \<open>check_current_signal\<close> returns a
  LONG record of the crossover pattern on it. On the first bar both EMAs equal the close;
  on the second the fast EMA, \<open>31 / 3\<close>, is above the slow one, \<open>212 / 21\<close>.
\<close>

theorem swing_two_bars_counterexample:
  "rising2 \<noteq> [] \<and> length rising2 < sw_fast_ema swing_default
   \<and> length rising2 < sw_slow_ema swing_default
   \<and> length rising2 < sw_ma_50 swing_default \<and> length rising2 < sw_ma_200 swing_default
   \<and> length rising2 < sw_rsi_period swing_default \<and> length rising2 < sw_atr_period swing_default
   \<and> (\<exists>r. swing_check_current_signal swing_default rising2 = Inr (Some r)
        \<and> rec_signal r = ''LONG'' \<and> rec_entry_type r = ''crossover''
        \<and> rec_entry_price r = Some 11 \<and> rec_stop_price r = Some (212 / 21))"
proof -
  have "case swing_check_current_signal swing_default rising2 of
          Inr (Some r) \<Rightarrow> rec_signal r = ''LONG'' \<and> rec_entry_type r = ''crossover''
            \<and> rec_entry_price r = Some 11 \<and> rec_stop_price r = Some (212 / 21)
        | _ \<Rightarrow> False"
    by code_simp
  then have "\<exists>r. swing_check_current_signal swing_default rising2 = Inr (Some r)
        \<and> rec_signal r = ''LONG'' \<and> rec_entry_type r = ''crossover''
        \<and> rec_entry_price r = Some 11 \<and> rec_stop_price r = Some (212 / 21)"
    by (auto split: sum.splits option.splits)
  moreover have "rising2 \<noteq> [] \<and> length rising2 < sw_fast_ema swing_default
   \<and> length rising2 < sw_slow_ema swing_default
   \<and> length rising2 < sw_ma_50 swing_default \<and> length rising2 < sw_ma_200 swing_default
   \<and> length rising2 < sw_rsi_period swing_default \<and> length rising2 < sw_atr_period swing_default"
    by (simp add: rising2_def swing_default_def)
  ultimately show ?thesis by blast
qed

section \<open>No validation of the input series\<close>

text \<open>
  C9 (as amended). The strategies do not validate their input. No variant reads the
  dates: under any other dates, increasing or not, the same bars give the same indicator
  and signal columns and the same current signal, so a series with non-monotonic dates is
  evaluated like any other and never rejected. A missing column is noticed only where it
  is read: the Donchian indicators on a frame without the high, the low or the close column
  fail with the \<^verbatim>\<open>KeyError\<close> of that column, and on a frame without the open or the volume
  column they are computed as on the whole frame.
\<close>

theorem no_input_validation:
  "(length ds = length bars \<longrightarrow>
     donchian_generate_signals dcfg (with_dates ds bars) = donchian_generate_signals dcfg bars
   \<and> donchian_check_current_signal dcfg (with_dates ds bars) = donchian_check_current_signal dcfg bars
   \<and> ma101_generate_signals mcfg (with_dates ds bars) = ma101_generate_signals mcfg bars
   \<and> ma101_check_current_signal mcfg (with_dates ds bars) = ma101_check_current_signal mcfg bars
   \<and> swing_generate_signals scfg (with_dates ds bars) = swing_generate_signals scfg bars
   \<and> swing_check_current_signal scfg (with_dates ds bars) = swing_check_current_signal scfg bars
   \<and> htf_generate_signals hcfg (with_dates ds bars) = htf_generate_signals hcfg bars
   \<and> htf_check_current_signal hcfg (with_dates ds bars) = htf_check_current_signal hcfg bars)
   \<and> donchian_calculate_indicators_frame dcfg (frame_of bars)
       = Inr (donchian_calculate_indicators dcfg bars)
   \<and> donchian_calculate_indicators_frame dcfg (drop_column ''open'' (frame_of bars))
       = Inr (donchian_calculate_indicators dcfg bars)
   \<and> donchian_calculate_indicators_frame dcfg (drop_column ''volume'' (frame_of bars))
       = Inr (donchian_calculate_indicators dcfg bars)
   \<and> donchian_calculate_indicators_frame dcfg (drop_column ''high'' (frame_of bars))
       = Inl (KeyError ''high'')
   \<and> donchian_calculate_indicators_frame dcfg (drop_column ''low'' (frame_of bars))
       = Inl (KeyError ''low'')
   \<and> donchian_calculate_indicators_frame dcfg (drop_column ''close'' (frame_of bars))
       = Inl (KeyError ''close'')"
proof (intro conjI impI)
  assume len: "length ds = length bars"
  have e: "with_dates ds bars = [] \<longleftrightarrow> bars = []"
    using len by (auto simp: with_dates_def)
  have lw: "length (with_dates ds bars) = length bars"
    using len by simp
  note gen = donchian_with_dates [OF len] ma101_with_dates [OF len] swing_with_dates [OF len]
    htf_with_dates [OF len]
  have d: "donchian_check_current_signal dcfg (with_dates ds bars) = donchian_check_current_signal dcfg bars"
    by (simp add: donchian_check_current_signal_def gen e lw Let_def)
  have m: "ma101_check_current_signal mcfg (with_dates ds bars) = ma101_check_current_signal mcfg bars"
    by (cases "ma101_generate_signals mcfg bars")
      (simp_all add: ma101_check_current_signal_def gen e lw Let_def)
  have s: "swing_check_current_signal scfg (with_dates ds bars) = swing_check_current_signal scfg bars"
    by (cases "swing_generate_signals scfg bars")
      (simp_all add: swing_check_current_signal_def gen e lw Let_def)
  have h: "htf_check_current_signal hcfg (with_dates ds bars) = htf_check_current_signal hcfg bars"
    by (simp add: htf_check_current_signal_def gen e lw Let_def)
  show "donchian_generate_signals dcfg (with_dates ds bars) = donchian_generate_signals dcfg bars"
    and "donchian_check_current_signal dcfg (with_dates ds bars) = donchian_check_current_signal dcfg bars"
    and "ma101_generate_signals mcfg (with_dates ds bars) = ma101_generate_signals mcfg bars"
    and "ma101_check_current_signal mcfg (with_dates ds bars) = ma101_check_current_signal mcfg bars"
    and "swing_generate_signals scfg (with_dates ds bars) = swing_generate_signals scfg bars"
    and "swing_check_current_signal scfg (with_dates ds bars) = swing_check_current_signal scfg bars"
    and "htf_generate_signals hcfg (with_dates ds bars) = htf_generate_signals hcfg bars"
    and "htf_check_current_signal hcfg (with_dates ds bars) = htf_check_current_signal hcfg bars"
    using gen d m s h by simp_all
qed (simp_all add: donchian_frame_complete donchian_frame_missing donchian_frame_unread)

theorem no_input_validation_witness:
  "length [3, 2, 1 :: int] = length rising3
   \<and> with_dates [3, 2, 1] rising3 = reversed_dates3
   \<and> \<not> increasing_dates reversed_dates3
   \<and> increasing_dates rising3
   \<and> donchian_check_current_signal donchian_2_1 reversed_dates3
       = donchian_check_current_signal donchian_2_1 rising3
   \<and> ma101_check_current_signal ma101_default reversed_dates3
       = ma101_check_current_signal ma101_default rising3
   \<and> donchian_calculate_indicators_frame donchian_2_1 (drop_column ''low'' (frame_of rising3))
       = Inl (KeyError ''low'')"
proof -
  have l: "length [3, 2, 1 :: int] = length rising3"
    by (simp add: rising3_def)
  have w: "with_dates [3, 2, 1] rising3 = reversed_dates3"
    by (simp add: with_dates_def rising3_def reversed_dates3_def ohlc_def)
  have i: "\<not> increasing_dates reversed_dates3" "increasing_dates rising3"
    by (simp_all add: increasing_dates_def rising3_def reversed_dates3_def ohlc_def)
  show ?thesis
    using no_input_validation [of "[3, 2, 1]" rising3 donchian_2_1 ma101_default] l w i by simp
qed

text \<open>
  The claim as stated fails on three rising bars dated 3, 2, 1: the Donchian channels are
  computed and the last bar is reported as a long signal. It also fails on the frame of the
  rising series without its open column: the channels are computed as for the whole frame.
\<close>

theorem malformed_input_counterexample:
  "\<not> increasing_dates reversed_dates3
   \<and> donchian_high_entry (donchian_calculate_indicators donchian_2_1 reversed_dates3) ! 2 = Some 12
   \<and> donchian_check_current_signal donchian_2_1 reversed_dates3 =
       Some \<lparr>rec_signal = ''LONG'', rec_entry_price = Some 13, rec_stop_price = Some 10,
             rec_reason = ''2-day breakout high'', rec_risk_per_share = Some 3,
             rec_dc_atr = None\<rparr>
   \<and> map_of (fr_columns (drop_column ''open'' (frame_of rising3))) ''open'' = None
   \<and> donchian_calculate_indicators_frame donchian_2_1 (drop_column ''open'' (frame_of rising3)) =
       Inr \<lparr>donchian_high_entry = [None, None, Some 12], donchian_low_entry = [None, None, Some 9],
             donchian_high_exit = [None, Some 11, Some 12], donchian_low_exit = [None, Some 9, Some 10],
             dc_atr = [None, None, None]\<rparr>"
  by code_simp

section \<open>Risk per share of the records\<close>

text \<open>
  C2. The claim is that every record's risk per share is \<open>\<bar>entry - stop\<bar>\<close> and hence
  never negative. The Donchian record is computed so (\<open>donchian_record_risk\<close>). MA101,
  the swing strategy and the high tight flag return the signed difference
  \<open>entry - stop\<close> instead (\<open>ma101_record_risk\<close>, \<open>swing_record_risk\<close>,
  \<open>htf_record_risk\<close>), which is negative when the stop lies above the entry. For MA101
  that cannot happen while the stop EMA is the fast EMA, as it is by default
  (\<open>ma101_default_risk_nonneg\<close>), but it does with a stop EMA of its own: on the series
  below, MA101 with the spans 1 (fast), 3 (slow) and 2 (stop) returns a record with entry
  54 and stop 494/9, and its risk per share is -8/9 where the absolute difference is 8/9.
\<close>

theorem ma101_risk_per_share_negative:
  "ma101_check_current_signal ma101_fast1_slow3_stop2 spike5 =
     Inr (Some \<lparr>rec_signal = ''LONG'', rec_entry_price = Some 54, rec_stop_price = Some (494 / 9),
                 rec_reason = ''EMA 1/3 cross above, price > SMA 2'',
                 rec_risk_per_share = Some (- (8 / 9)), rec_ma_atr = None\<rparr>)
   \<and> nan_abs (nan_sub (Some 54) (Some (494 / 9))) = Some (8 / 9)"
  by code_simp

end
